theory Spec2Isabelle
  imports Complex_Main "HOL-Library.Monad_Syntax"
begin

section \<open>Errors\<close>

text \<open>
  Every exception the modelled code can raise is a value of one datatype. Python's
  \<open>ValueError\<close> is raised at several places with different messages; each place has
  its own constructor, so that theorems can tell them apart:
  \<^item> \<open>InvalidCronFormat\<close>: \<open>ValueError("Invalid cron format: ...")\<close> of \<open>parse_simple_cron\<close>;
  \<^item> \<open>InvalidIntLiteral\<close>: the \<open>ValueError\<close> that \<open>int(s)\<close> raises on a string that is no
    decimal integer literal;
  \<^item> \<open>InvalidFloatLiteral\<close>, \<open>NaNToInteger\<close>: the \<open>ValueError\<close> of \<open>float(s)\<close> and of
    \<open>int(float("nan"))\<close>;
  \<^item> \<open>NegativeSleep\<close>: the \<open>ValueError\<close> of \<open>time.sleep\<close> with a negative length;
  \<^item> \<open>InvalidFormatSpec\<close>: the \<open>ValueError\<close> of the format specification \<open>,\<close> applied to
    a string;
  \<^item> \<open>CredentialMissing\<close>: \<open>ValueError("DUNE_API_KEY not set. ...")\<close> of
    \<open>DuneDataFetcher.__init__\<close>.
  \<open>NoExecutionId\<close> and \<open>QueryFailed\<close> are the two \<open>RuntimeError\<close>s of \<open>execute_sql\<close>;
  \<open>HTTPError\<close> (with the status) and \<open>ConnectionError\<close> are what a request raises.
  \<open>ImportError\<close> has the name that \<open>from config import ...\<close> does not find in the module,
  and \<open>SystemExit\<close> is what \<open>sys.exit\<close> raises, with the status.
\<close>

datatype error =
    InvalidCronFormat string
  | InvalidIntLiteral string
  | InvalidFloatLiteral string
  | NaNToInteger
  | NegativeSleep
  | InvalidFormatSpec
  | ZeroDivisionError
  | CredentialMissing
  | KeyError string
  | TypeError
  | AttributeError
  | HTTPError int
  | ConnectionError
  | NoExecutionId
  | QueryFailed string
  | TimeoutError
  | OSError string
  | ImportError string
  | SystemExit int

section \<open>Python string operations used by the scheduler\<close>

text \<open>
  Strings are lists of 8-bit characters; the model covers ASCII input. The white space of
  \<open>str.strip()\<close>, \<open>str.split()\<close> and \<open>int()\<close> is then tab, line feed, vertical tab, form
  feed, carriage return, the four separators 0x1C to 0x1F and the space.
\<close>

definition is_space :: "char \<Rightarrow> bool" where
  "is_space c = (of_char c \<in> {9, 10, 11, 12, 13, 28, 29, 30, 31, 32 :: nat})"

definition strip :: "string \<Rightarrow> string" where
  "strip s = rev (dropWhile is_space (rev (dropWhile is_space s)))"

text \<open>\<open>s.split()\<close>: the maximal runs of characters that are not white space.\<close>

fun split_acc :: "string \<Rightarrow> string \<Rightarrow> string list" where
  "split_acc cur [] = (if cur = [] then [] else [cur])"
| "split_acc cur (c # cs) =
     (if is_space c
      then (if cur = [] then split_acc [] cs else cur # split_acc [] cs)
      else split_acc (cur @ [c]) cs)"

definition split :: "string \<Rightarrow> string list" where
  "split s = split_acc [] s"

text \<open>\<open>s.split(sep)\<close> for a one-character separator: empty pieces are kept.\<close>

fun split_on_acc :: "char \<Rightarrow> string \<Rightarrow> string \<Rightarrow> string list" where
  "split_on_acc sep cur [] = [cur]"
| "split_on_acc sep cur (c # cs) =
     (if c = sep then cur # split_on_acc sep [] cs else split_on_acc sep (cur @ [c]) cs)"

definition split_on :: "char \<Rightarrow> string \<Rightarrow> string list" where
  "split_on sep s = split_on_acc sep [] s"

definition startswith :: "string \<Rightarrow> string \<Rightarrow> bool" where
  "startswith s p = (take (length p) s = p)"

text \<open>
  \<open>int(s)\<close> in base 10: white space around the literal is dropped, one sign is allowed,
  and the digits may be grouped by single underscores (\<open>int("1_000") == 1000\<close>).
  \<open>None\<close> stands for the \<open>ValueError\<close>.
\<close>

definition is_digit :: "char \<Rightarrow> bool" where
  "is_digit c = (48 \<le> (of_char c :: nat) \<and> (of_char c :: nat) \<le> 57)"

definition digit_val :: "char \<Rightarrow> int" where
  "digit_val c = int (of_char c) - 48"

definition digits_val :: "string \<Rightarrow> int" where
  "digits_val ds = foldl (\<lambda>a c. 10 * a + digit_val c) 0 ds"

definition int_unsigned :: "string \<Rightarrow> int option" where
  "int_unsigned s =
     (let groups = split_on (CHR ''_'') s
      in if list_all (\<lambda>g. g \<noteq> [] \<and> list_all is_digit g) groups
         then Some (digits_val (concat groups)) else None)"

definition py_int :: "string \<Rightarrow> int option" where
  "py_int s =
     (case strip s of
        [] \<Rightarrow> None
      | c # r \<Rightarrow>
          if c = CHR ''+'' then int_unsigned r
          else if c = CHR ''-'' then map_option uminus (int_unsigned r)
          else int_unsigned (c # r))"

section \<open>The clock\<close>

text \<open>
  A reading of \<open>datetime.now()\<close>. \<open>wday\<close> is the day of the week of the date;
  \<open>weekday\<close> is Python's \<open>datetime.weekday()\<close>, which numbers Monday 0 to Sunday 6.
\<close>

datatype day_name = Monday | Tuesday | Wednesday | Thursday | Friday | Saturday | Sunday

record datetime =
  year :: int
  month :: int
  day :: int
  hour :: int
  minute :: int
  second :: int
  wday :: day_name

fun weekday_num :: "day_name \<Rightarrow> int" where
  "weekday_num Monday = 0"
| "weekday_num Tuesday = 1"
| "weekday_num Wednesday = 2"
| "weekday_num Thursday = 3"
| "weekday_num Friday = 4"
| "weekday_num Saturday = 5"
| "weekday_num Sunday = 6"

definition weekday :: "datetime \<Rightarrow> int" where
  "weekday now = weekday_num (wday now)"

section \<open>schedule.py: the cron matcher\<close>

text \<open>
  \<open>[int(x) for x in cron_part.split(",")]\<close>: the comprehension converts the items from
  left to right and raises at the first one that is no integer.
\<close>

fun int_items :: "string list \<Rightarrow> error + int list" where
  "int_items [] = Inr []"
| "int_items (x # xs) =
     (case py_int x of
        None \<Rightarrow> Inl (InvalidIntLiteral x)
      | Some n \<Rightarrow> (case int_items xs of Inl e \<Rightarrow> Inl e | Inr ns \<Rightarrow> Inr (n # ns)))"

text \<open>
  The loop \<open>for field_val, cron_part in zip(fields, parts)\<close>. It returns \<open>False\<close> at the
  first field that does not match and looks at no later field.
\<close>

fun match_fields :: "(int \<times> string) list \<Rightarrow> error + bool" where
  "match_fields [] = Inr True"
| "match_fields ((field_val, cron_part) # rest) =
     (if cron_part = ''*'' then match_fields rest
      else if startswith cron_part ''*/'' then
        (case py_int (drop 2 cron_part) of
           None \<Rightarrow> Inl (InvalidIntLiteral (drop 2 cron_part))
         | Some divisor \<Rightarrow>
             if divisor = 0 then Inl ZeroDivisionError
             else if field_val mod divisor \<noteq> 0 then Inr False
             else match_fields rest)
      else if CHR '','' \<in> set cron_part then
        (case int_items (split_on (CHR '','') cron_part) of
           Inl e \<Rightarrow> Inl e
         | Inr allowed \<Rightarrow>
             if field_val \<notin> set allowed then Inr False else match_fields rest)
      else
        (case py_int cron_part of
           None \<Rightarrow> Inl (InvalidIntLiteral cron_part)
         | Some n \<Rightarrow> if field_val \<noteq> n then Inr False else match_fields rest))"

text \<open>
  The day of the week as cron numbers it: \<open>fields[4] = (fields[4] + 1) % 7\<close>.
\<close>

definition cron_weekday :: "datetime \<Rightarrow> int" where
  "cron_weekday now = (weekday now + 1) mod 7"

definition time_fields :: "datetime \<Rightarrow> int list" where
  "time_fields now = [minute now, hour now, day now, month now, cron_weekday now]"

text \<open>
  \<open>parse_simple_cron(cron_str)\<close>. The function reads the clock itself
  (\<open>now = datetime.now()\<close>); the reading is the second argument of the model.
\<close>

definition parse_simple_cron :: "string \<Rightarrow> datetime \<Rightarrow> error + bool" where
  "parse_simple_cron cron_str now =
     (let parts = split (strip cron_str)
      in if length parts \<noteq> 5 then Inl (InvalidCronFormat cron_str)
         else match_fields (zip (time_fields now) parts))"

section \<open>schedule.py: the polling loop of main\<close>

text \<open>
  The state of the loop is \<open>last_run_minute\<close>; \<open>runs\<close> lists the clock readings of the
  iterations that called \<open>run_report\<close>, oldest first.
\<close>

record sched_state =
  last_run_minute :: int
  runs :: "datetime list"

text \<open>
  One iteration reads the clock twice: \<open>main\<close> reads it for \<open>current_minute\<close>, and
  \<open>parse_simple_cron\<close> reads it again for the fields.
\<close>

record clock_reads =
  main_now :: datetime
  cron_now :: datetime

definition current_minute :: "datetime \<Rightarrow> int" where
  "current_minute now = hour now * 60 + minute now"

text \<open>
  The body of \<open>while True\<close>. Python's \<open>and\<close> calls \<open>parse_simple_cron\<close> only when the
  minutes differ. Only \<open>KeyboardInterrupt\<close> is caught: an exception of the matcher ends
  the loop.
\<close>

definition iteration :: "string \<Rightarrow> clock_reads \<Rightarrow> sched_state \<Rightarrow> error + sched_state" where
  "iteration cron r st =
     (if current_minute (main_now r) \<noteq> last_run_minute st then
        (case parse_simple_cron cron (cron_now r) of
           Inl e \<Rightarrow> Inl e
         | Inr matched \<Rightarrow>
             if matched
             then Inr \<lparr>last_run_minute = current_minute (main_now r),
                       runs = runs st @ [main_now r]\<rparr>
             else Inr st)
      else Inr st)"

text \<open>
  The loop has no exit of its own. A run is given by the clock readings of the iterations
  it made before the operator stopped it.
\<close>

fun scheduler_loop :: "string \<Rightarrow> clock_reads list \<Rightarrow> sched_state \<Rightarrow> error + sched_state" where
  "scheduler_loop cron [] st = Inr st"
| "scheduler_loop cron (r # rs) st =
     (case iteration cron r st of
        Inl e \<Rightarrow> Inl e
      | Inr st' \<Rightarrow> scheduler_loop cron rs st')"

definition initial_state :: sched_state where
  "initial_state = \<lparr>last_run_minute = - 1, runs = []\<rparr>"

text \<open>An iteration whose two clock readings agree.\<close>

definition poll_at :: "datetime \<Rightarrow> clock_reads" where
  "poll_at t = \<lparr>main_now = t, cron_now = t\<rparr>"

text \<open>A Monday of January 2024 (day 1, 8, 15, 22 or 29).\<close>

definition monday_jan_2024 :: "int \<Rightarrow> int \<Rightarrow> int \<Rightarrow> int \<Rightarrow> datetime" where
  "monday_jan_2024 d h m s =
     \<lparr>year = 2024, month = 1, day = d, hour = h, minute = m, second = s, wday = Monday\<rparr>"

section \<open>The matcher as the specification words it\<close>

text \<open>
  The four forms of a field: \<open>*\<close>, \<open>*/N\<close>, a comma-separated list of integers, an integer.
  \<open>read_field\<close> is \<open>None\<close> for a token of no form.
\<close>

datatype cron_field = Any | Every int | OneOf "int list" | Exactly int

fun all_some :: "'a option list \<Rightarrow> 'a list option" where
  "all_some [] = Some []"
| "all_some (x # xs) =
     (case x of None \<Rightarrow> None | Some y \<Rightarrow> map_option (Cons y) (all_some xs))"

definition read_field :: "string \<Rightarrow> cron_field option" where
  "read_field tok =
     (if tok = ''*'' then Some Any
      else if startswith tok ''*/'' then map_option Every (py_int (drop 2 tok))
      else if CHR '','' \<in> set tok
        then map_option OneOf (all_some (map py_int (split_on (CHR '','') tok)))
      else map_option Exactly (py_int tok))"

fun field_matches :: "cron_field \<Rightarrow> int \<Rightarrow> bool" where
  "field_matches Any v = True"
| "field_matches (Every n) v = (v mod n = 0)"
| "field_matches (OneOf ns) v = (v \<in> set ns)"
| "field_matches (Exactly n) v = (v = n)"

text \<open>A step of zero has no remainder to compare.\<close>

fun step_ok :: "cron_field \<Rightarrow> bool" where
  "step_ok (Every n) = (n \<noteq> 0)"
| "step_ok f = True"

text \<open>A token passes at a value: it has one of the four forms and matches.\<close>

definition passes :: "string \<Rightarrow> int \<Rightarrow> bool" where
  "passes tok v =
     (case read_field tok of None \<Rightarrow> False | Some f \<Rightarrow> step_ok f \<and> field_matches f v)"

text \<open>The cron numbering of the days of the week: Sunday is 0.\<close>

fun cron_dow :: "day_name \<Rightarrow> int" where
  "cron_dow Sunday = 0"
| "cron_dow Monday = 1"
| "cron_dow Tuesday = 2"
| "cron_dow Wednesday = 3"
| "cron_dow Thursday = 4"
| "cron_dow Friday = 5"
| "cron_dow Saturday = 6"

section \<open>Tables\<close>

text \<open>
  A cell of a table is a number, a string, \<open>None\<close> or the float NaN. Numbers are exact
  rationals: rounding is not modelled. A row is a \<open>Series\<close> (column name and cell, in
  column order), a table is the list of its rows.
\<close>

datatype cell = Num rat | Str string | Null | NaN

type_synonym row = "(string \<times> cell) list"

type_synonym frame = "row list"

definition columns :: "row list \<Rightarrow> string list" where
  "columns rows = remdups (concat (map (map fst) rows))"

text \<open>
  \<open>pd.DataFrame(rows)\<close> for a list of dictionaries: the columns are the keys of all rows,
  and a key that a row lacks is NaN in that row.
\<close>

definition DataFrame :: "row list \<Rightarrow> frame" where
  "DataFrame rows =
     map (\<lambda>r. map (\<lambda>c. (c, case map_of r c of Some v \<Rightarrow> v | None \<Rightarrow> NaN)) (columns rows)) rows"

text \<open>\<open>df.empty\<close>: no rows, or no columns.\<close>

definition df_empty :: "frame \<Rightarrow> bool" where
  "df_empty df = list_all (\<lambda>r. r = []) df"

text \<open>\<open>s.get(key, default)\<close> and \<open>row[key]\<close> on a row.\<close>

definition series_get :: "row \<Rightarrow> string \<Rightarrow> cell \<Rightarrow> cell" where
  "series_get s key dflt = (case map_of s key of Some v \<Rightarrow> v | None \<Rightarrow> dflt)"

definition getitem :: "row \<Rightarrow> string \<Rightarrow> error + cell" where
  "getitem s key = (case map_of s key of Some v \<Rightarrow> Inr v | None \<Rightarrow> Inl (KeyError key))"

text \<open>
  The dictionary \<open>report_data\<close>. Its values are tables; the web job runner also stores a
  dictionary of tables under \<open>vault_liquidity\<close>.
\<close>

datatype entry = Frame frame | Vaults "(string \<times> frame) list"

type_synonym report_data = "string \<rightharpoonup> entry"

text \<open>
  \<open>report_data.get(key, pd.DataFrame())\<close>, read as a table. A dictionary has no attribute
  \<open>empty\<close>, which is the first thing every consumer asks for.
\<close>

definition get_frame :: "report_data \<Rightarrow> string \<Rightarrow> error + frame" where
  "get_frame report_data key =
     (case report_data key of
        None \<Rightarrow> Inr []
      | Some (Frame df) \<Rightarrow> Inr df
      | Some (Vaults _) \<Rightarrow> Inl AttributeError)"

section \<open>config.py\<close>

record config =
  QUERY_IDS :: "(string \<times> nat) list"
  CUSTOM_QUERIES :: "(string \<times> string) list"

text \<open>The configuration of the repository. The SQL texts are written on one line.\<close>

definition morpho_config :: config where
  "morpho_config =
     \<lparr>QUERY_IDS =
        [(''liquidation_stats_24h'', 6024591),
         (''bad_debt_stats_24h'', 6024779),
         (''unrealized_bad_debt'', 6015286),
         (''bad_debt_events_24h'', 6657604)],
      CUSTOM_QUERIES =
        [(''weekly_liquidations_by_chain'',
          ''SELECT blockchain, SUM(seized_amount_usd) as total_liquidated_usd, COUNT(*) as num_liquidations, COUNT(DISTINCT market_name) as markets_affected FROM dune.morpho.result_morpho_liquidation_events WHERE time >= NOW() - INTERVAL 7 DAY GROUP BY blockchain ORDER BY total_liquidated_usd DESC''),
         (''daily_liquidations_7d'',
          ''SELECT DATE_TRUNC(day, time) as day, blockchain, SUM(seized_amount_usd) as total_liquidated_usd, COUNT(*) as num_liquidations FROM dune.morpho.result_morpho_liquidation_events WHERE time >= NOW() - INTERVAL 7 DAY GROUP BY 1, 2 ORDER BY 1 ASC, 2''),
         (''weekly_bad_debt_by_chain'',
          ''SELECT blockchain, SUM(bad_debt_amount_usd) as total_bad_debt_usd, COUNT(*) as num_events FROM dune.morpho.result_morpho_liquidation_events WHERE time >= NOW() - INTERVAL 7 DAY AND bad_debt_amount_usd > 0 GROUP BY blockchain ORDER BY total_bad_debt_usd DESC''),
         (''weekly_liquidation_summary'',
          ''SELECT SUM(seized_amount_usd) as total_liquidated_usd, SUM(bad_debt_amount_usd) as total_bad_debt_usd, COUNT(*) as total_positions_liquidated, COUNT(DISTINCT market_name) as total_markets, COUNT(DISTINCT blockchain) as total_chains FROM dune.morpho.result_morpho_liquidation_events WHERE time >= NOW() - INTERVAL 7 DAY'')]\<rparr>"

section \<open>The analytics service\<close>

text \<open>
  What the service answers is an input of the model. Each field is one endpoint, given the
  API key of the request header; an answer is the decoded payload, or the exception that
  \<open>requests\<close>, \<open>raise_for_status\<close> or \<open>json\<close> raises.
  \<^item> \<open>get_query_results key query_id\<close>: the rows of the latest result of a saved query;
  \<^item> \<open>post_execute_sql key sql\<close>: the \<open>execution_id\<close> of the answer, if it has one;
  \<^item> \<open>get_execution_status key execution_id k\<close>: the \<open>state\<close> (the empty string if
    there is none) and the \<open>error\<close> field of poll number \<open>k\<close>, counted from 0;
  \<^item> \<open>get_execution_results key execution_id\<close>: the rows of a finished execution.
\<close>

record dune_api =
  get_query_results :: "string \<Rightarrow> nat \<Rightarrow> error + row list"
  post_execute_sql :: "string \<Rightarrow> string \<Rightarrow> error + string option"
  get_execution_status :: "string \<Rightarrow> string \<Rightarrow> nat \<Rightarrow> error + (string \<times> string option)"
  get_execution_results :: "string \<Rightarrow> string \<Rightarrow> error + row list"

section \<open>data_fetcher.py: DuneDataFetcher\<close>

text \<open>
  \<open>__init__\<close>: \<open>self.api_key = api_key or DUNE_API_KEY\<close>, where \<open>DUNE_API_KEY\<close> is the
  environment variable as \<open>config\<close> read it. The fetcher is its key. Nothing but the
  presence of the key is checked.
\<close>

definition DuneDataFetcher :: "string \<Rightarrow> string option \<Rightarrow> error + string" where
  "DuneDataFetcher DUNE_API_KEY api_key =
     (let key = (case api_key of
                   None \<Rightarrow> DUNE_API_KEY
                 | Some k \<Rightarrow> if k \<noteq> [] then k else DUNE_API_KEY)
      in if key = [] then Inl CredentialMissing else Inr key)"

text \<open>\<open>pd.DataFrame(rows) if rows else pd.DataFrame()\<close>\<close>

definition rows_frame :: "row list \<Rightarrow> frame" where
  "rows_frame rows = (if rows \<noteq> [] then DataFrame rows else [])"

definition get_latest_result :: "dune_api \<Rightarrow> string \<Rightarrow> nat \<Rightarrow> error + frame" where
  "get_latest_result api key query_id =
     (case get_query_results api key query_id of
        Inl e \<Rightarrow> Inl e
      | Inr rows \<Rightarrow> Inr (rows_frame rows))"

text \<open>
  The loop \<open>while waited < max_wait\<close> of \<open>execute_sql\<close>, entered with \<open>waited\<close> and with
  \<open>k\<close> status polls made. With a poll interval of zero and a service that never reports
  a final state it does not end: the result is an option, \<open>None\<close> for a loop that runs
  forever.
\<close>

partial_function (option) poll_loop ::
  "dune_api \<Rightarrow> string \<Rightarrow> string \<Rightarrow> int \<Rightarrow> int \<Rightarrow> int \<Rightarrow> nat \<Rightarrow> (error + frame) option" where
  "poll_loop api key execution_id poll_interval max_wait waited k =
     (if waited < max_wait then
        (if poll_interval < 0 then Some (Inl NegativeSleep)
         else
           (case get_execution_status api key execution_id k of
              Inl e \<Rightarrow> Some (Inl e)
            | Inr status \<Rightarrow>
                if fst status = ''QUERY_STATE_COMPLETED'' then
                  (case get_execution_results api key execution_id of
                     Inl e \<Rightarrow> Some (Inl e)
                   | Inr rows \<Rightarrow> Some (Inr (rows_frame rows)))
                else if fst status = ''QUERY_STATE_FAILED''
                     \<or> fst status = ''QUERY_STATE_CANCELLED'' then
                  Some (Inl (QueryFailed
                    (case snd status of None \<Rightarrow> ''Unknown error'' | Some msg \<Rightarrow> msg)))
                else poll_loop api key execution_id poll_interval max_wait
                       (waited + poll_interval) (Suc k)))
      else Some (Inl TimeoutError))"

text \<open>\<open>if not execution_id\<close>: the identifier is missing or empty.\<close>

definition execute_sql ::
  "dune_api \<Rightarrow> string \<Rightarrow> string \<Rightarrow> int \<Rightarrow> int \<Rightarrow> (error + frame) option" where
  "execute_sql api key sql poll_interval max_wait =
     (case post_execute_sql api key sql of
        Inl e \<Rightarrow> Some (Inl e)
      | Inr None \<Rightarrow> Some (Inl NoExecutionId)
      | Inr (Some execution_id) \<Rightarrow>
          if execution_id = [] then Some (Inl NoExecutionId)
          else poll_loop api key execution_id poll_interval max_wait 0 0)"

text \<open>
  \<open>try: ... except Exception as e: ... = pd.DataFrame()\<close>: the table, or the empty table
  in place of any exception.
\<close>

definition or_empty :: "error + frame \<Rightarrow> frame" where
  "or_empty r = (case r of Inl e \<Rightarrow> [] | Inr df \<Rightarrow> df)"

text \<open>
  \<open>self.execute_sql(CUSTOM_QUERIES[name])\<close> with the default interval of 2 and the
  default wait of 120 seconds; the lookup is inside the \<open>try\<close> as well.
\<close>

definition execute_custom ::
  "dune_api \<Rightarrow> string \<Rightarrow> config \<Rightarrow> string \<Rightarrow> (error + frame) option" where
  "execute_custom api key cfg name =
     (case map_of (CUSTOM_QUERIES cfg) name of
        None \<Rightarrow> Some (Inl (KeyError name))
      | Some sql \<Rightarrow> execute_sql api key sql 2 120)"

text \<open>The loop \<open>for name, qid in QUERY_IDS.items()\<close>.\<close>

fun fetch_dashboards ::
  "dune_api \<Rightarrow> string \<Rightarrow> (string \<times> nat) list \<Rightarrow> report_data \<Rightarrow> report_data" where
  "fetch_dashboards api key [] report_data = report_data"
| "fetch_dashboards api key ((name, qid) # rest) report_data =
     fetch_dashboards api key rest
       (report_data(name \<mapsto> Frame (or_empty (get_latest_result api key qid))))"

definition fetch_all_report_data :: "dune_api \<Rightarrow> string \<Rightarrow> config \<Rightarrow> report_data option" where
  "fetch_all_report_data api key cfg =
     do {
       weekly \<leftarrow> execute_custom api key cfg ''weekly_liquidation_summary'';
       daily \<leftarrow> execute_custom api key cfg ''daily_liquidations_7d'';
       by_chain \<leftarrow> execute_custom api key cfg ''weekly_liquidations_by_chain'';
       bad_debt \<leftarrow> execute_custom api key cfg ''weekly_bad_debt_by_chain'';
       Some (fetch_dashboards api key (QUERY_IDS cfg)
         (Map.empty
           (''weekly_summary'' \<mapsto> Frame (or_empty weekly),
            ''daily_liquidations'' \<mapsto> Frame (or_empty daily),
            ''liquidations_by_chain'' \<mapsto> Frame (or_empty by_chain),
            ''bad_debt_by_chain'' \<mapsto> Frame (or_empty bad_debt))))
     }"

section \<open>data_fetcher.py: generate_sample_data\<close>

text \<open>
  The random draws and the dates are inputs: \<open>uniform k a b\<close> and \<open>randint k a b\<close> are
  the results of draw number \<open>k\<close> (all draws counted together, from 0), and \<open>day_str d\<close>
  is \<open>(now - timedelta(days=d)).strftime("%Y-%m-%d 00:00:00")\<close>.
\<close>

record sample_source =
  uniform :: "nat \<Rightarrow> rat \<Rightarrow> rat \<Rightarrow> rat"
  randint :: "nat \<Rightarrow> int \<Rightarrow> int \<Rightarrow> int"
  day_str :: "nat \<Rightarrow> string"

definition chains :: "string list" where
  "chains = [''ethereum'', ''base'', ''polygon'', ''arbitrum'', ''optimism'', ''hyperevm'']"

definition is_major :: "string \<Rightarrow> bool" where
  "is_major chain = (chain \<in> set [''ethereum'', ''base''])"

text \<open>Day \<open>i\<close> and chain number \<open>j\<close> of the nested loops; two draws each.\<close>

definition daily_row :: "sample_source \<Rightarrow> nat \<Rightarrow> nat \<Rightarrow> row" where
  "daily_row src i j =
     (let chain = chains ! j;
          k = 2 * (length chains * i + j);
          base_amount = (if is_major chain then uniform src k 30000 400000
                         else uniform src k 5000 80000)
      in [(''day'', Str (day_str src (6 - i))),
          (''blockchain'', Str chain),
          (''total_liquidated_usd'', Num base_amount),
          (''num_liquidations'', Num (of_int (randint src (Suc k) 10 200)))])"

definition daily_rows :: "sample_source \<Rightarrow> row list" where
  "daily_rows src =
     concat (map (\<lambda>i. map (\<lambda>j. daily_row src i j) [0..<length chains]) [0..<7])"

text \<open>Chain number \<open>j\<close> of the second loop; three draws each, after the 84 draws above.\<close>

definition chain_row :: "sample_source \<Rightarrow> nat \<Rightarrow> row" where
  "chain_row src j =
     (let chain = chains ! j;
          k = 84 + 3 * j;
          total = (if is_major chain then uniform src k 100000 1200000
                   else uniform src k 10000 200000)
      in [(''blockchain'', Str chain),
          (''total_liquidated_usd'', Num total),
          (''num_liquidations'', Num (of_int (randint src (k + 1) 50 600))),
          (''markets_affected'', Num (of_int (randint src (k + 2) 5 40)))])"

text \<open>
  \<open>df.sort_values(col, ascending=False)\<close> on a column of numbers: descending by the
  number in the column.
\<close>

definition num_of :: "cell \<Rightarrow> rat" where
  "num_of v = (case v of Num x \<Rightarrow> x | _ \<Rightarrow> 0)"

definition sort_values_desc :: "string \<Rightarrow> frame \<Rightarrow> frame" where
  "sort_values_desc col df = rev (sort_key (\<lambda>r. num_of (series_get r col NaN)) df)"

definition generate_sample_data :: "sample_source \<Rightarrow> report_data" where
  "generate_sample_data src =
     Map.empty
       (''weekly_summary'' \<mapsto> Frame (DataFrame
          [[(''total_liquidated_usd'', Num (284732145 / 100)),
            (''total_bad_debt_usd'', Num 0),
            (''total_positions_liquidated'', Num 1247),
            (''total_markets'', Num 89),
            (''total_chains'', Num 11)]]),
        ''daily_liquidations'' \<mapsto> Frame (DataFrame (daily_rows src)),
        ''liquidations_by_chain'' \<mapsto> Frame (sort_values_desc ''total_liquidated_usd''
          (DataFrame (map (chain_row src) [0..<length chains]))),
        ''bad_debt_by_chain'' \<mapsto> Frame [],
        ''liquidation_stats_24h'' \<mapsto> Frame (DataFrame
          [[(''total_liquidated'', Num 60173),
            (''positions_liquidated'', Num 285),
            (''markets_liquidated'', Num 18),
            (''chains_liquidated'', Num 6)]]),
        ''bad_debt_stats_24h'' \<mapsto> Frame (DataFrame
          [[(''total_bad_debt_amount'', Num 0),
            (''markets_with_bad_debt'', Num 0),
            (''chains_with_bad_debt'', Num 0)]]),
        ''unrealized_bad_debt'' \<mapsto> Frame (DataFrame
          [[(''market'', Str ''deUSD/USDC(86.0%)''), (''chain'', Str ''ethereum''),
            (''unrealized_bad_debt'', Num (576219 / 100)), (''total_supply'', Num (1000495 / 100))],
           [(''market'', Str ''UNKNOWN/lvlUSD(91.5%)''), (''chain'', Str ''ethereum''),
            (''unrealized_bad_debt'', Num (526165 / 100)), (''total_supply'', Num (526703 / 100))],
           [(''market'', Str ''wbCOIN/USDC(86.0%)''), (''chain'', Str ''base''),
            (''unrealized_bad_debt'', Num (364755 / 100)), (''total_supply'', Num (2185378 / 100))]]),
        ''bad_debt_events_24h'' \<mapsto> Frame [])"

section \<open>Formatted text\<close>

text \<open>
  A formatted amount keeps the number and records the format that was chosen:
  \<open>Billions x\<close> is \<open>f"${x:.2f}B"\<close>, \<open>Millions x\<close> is \<open>f"${x:.1f}M"\<close>, \<open>Thousands x\<close>
  is \<open>f"${x:.1f}K"\<close>, \<open>Units0 x\<close> is \<open>f"${x:,.0f}"\<close>, \<open>Units2 x\<close> is \<open>f"${x:,.2f}"\<close>;
  \<open>NaNText\<close> is \<open>$nan\<close>, and \<open>Verbatim s\<close> is the string \<open>s\<close> as it came.
\<close>

datatype usd_text =
    Billions rat
  | Millions rat
  | Thousands rat
  | Units0 rat
  | Units2 rat
  | NaNText
  | Verbatim string

text \<open>
  \<open>format_usd\<close> of \<open>chart_generator.py\<close>. The comparison \<open>value >= 1_000_000_000\<close>
  raises \<open>TypeError\<close> on a string and on \<open>None\<close>; on NaN every comparison is false.
\<close>

definition format_usd :: "cell \<Rightarrow> error + usd_text" where
  "format_usd v =
     (case v of
        Num x \<Rightarrow>
          if x \<ge> 1000000000 then Inr (Billions (x / 1000000000))
          else if x \<ge> 1000000 then Inr (Millions (x / 1000000))
          else if x \<ge> 1000 then Inr (Thousands (x / 1000))
          else Inr (Units0 x)
      | NaN \<Rightarrow> Inr NaNText
      | Str s \<Rightarrow> Inl TypeError
      | Null \<Rightarrow> Inl TypeError)"

text \<open>
  \<open>_format_usd\<close> of \<open>pdf_generator.py\<close> and of \<open>generate_html_report.py\<close> (the two are
  the same): a string is returned as it is.
\<close>

definition format_usd_doc :: "cell \<Rightarrow> error + usd_text" where
  "format_usd_doc v =
     (case v of
        Str s \<Rightarrow> Inr (Verbatim s)
      | Num x \<Rightarrow>
          if x \<ge> 1000000000 then Inr (Billions (x / 1000000000))
          else if x \<ge> 1000000 then Inr (Millions (x / 1000000))
          else if x \<ge> 1000 then Inr (Thousands (x / 1000))
          else Inr (Units2 x)
      | NaN \<Rightarrow> Inr NaNText
      | Null \<Rightarrow> Inl TypeError)"

text \<open>\<open>int(v)\<close> on a cell: a number is truncated towards zero, a string is parsed.\<close>

definition int_of_cell :: "cell \<Rightarrow> error + int" where
  "int_of_cell v =
     (case v of
        Num x \<Rightarrow> Inr (if x \<ge> 0 then \<lfloor>x\<rfloor> else \<lceil>x\<rceil>)
      | Str s \<Rightarrow> (case py_int s of None \<Rightarrow> Inl (InvalidIntLiteral s) | Some n \<Rightarrow> Inr n)
      | Null \<Rightarrow> Inl TypeError
      | NaN \<Rightarrow> Inl NaNToInteger)"

text \<open>\<open>v == 0\<close> on a cell.\<close>

definition is_zero :: "cell \<Rightarrow> bool" where
  "is_zero v = (v = Num 0)"

text \<open>\<open>s.capitalize()\<close> and \<open>s.lower()\<close> on ASCII strings.\<close>

definition lower_char :: "char \<Rightarrow> char" where
  "lower_char c =
     (if 65 \<le> (of_char c :: nat) \<and> (of_char c :: nat) \<le> 90
      then char_of (of_char c + 32 :: nat) else c)"

definition upper_char :: "char \<Rightarrow> char" where
  "upper_char c =
     (if 97 \<le> (of_char c :: nat) \<and> (of_char c :: nat) \<le> 122
      then char_of (of_char c - 32 :: nat) else c)"

definition capitalize :: "string \<Rightarrow> string" where
  "capitalize s = (case s of [] \<Rightarrow> [] | c # cs \<Rightarrow> upper_char c # map lower_char cs)"

text \<open>A method of \<open>str\<close> called on a cell: any other cell has no such attribute.\<close>

definition str_of_cell :: "cell \<Rightarrow> error + string" where
  "str_of_cell v = (case v of Str s \<Rightarrow> Inr s | _ \<Rightarrow> Inl AttributeError)"

text \<open>Sequencing of steps that may raise.\<close>

definition and_then :: "error + 'a \<Rightarrow> ('a \<Rightarrow> error + 'b) \<Rightarrow> error + 'b" where
  "and_then r f = (case r of Inl e \<Rightarrow> Inl e | Inr x \<Rightarrow> f x)"

fun each :: "('a \<Rightarrow> error + 'b) \<Rightarrow> 'a list \<Rightarrow> error + 'b list" where
  "each f [] = Inr []"
| "each f (x # xs) =
     and_then (f x) (\<lambda>y. and_then (each f xs) (\<lambda>ys. Inr (y # ys)))"

section \<open>Paths\<close>

text \<open>\<open>os.path.join(a, b)\<close> on POSIX paths.\<close>

definition path_join :: "string \<Rightarrow> string \<Rightarrow> string" where
  "path_join a b =
     (if b \<noteq> [] \<and> hd b = CHR ''/'' then b
      else if a = [] \<or> last a = CHR ''/'' then a @ b
      else a @ ''/'' @ b)"

section \<open>chart_generator.py\<close>

text \<open>
  An image is what it shows. The plotting library is not modelled: a chart of a table
  is the table it was drawn from, after the accesses that the module itself makes.
\<close>

datatype kpi_text = UsdValue usd_text | Grouped cell | Plain cell

datatype realized_panel = ZeroRealized | RealizedPie frame

datatype unrealized_panel = NoUnrealized | UnrealizedTable "(string \<times> cell \<times> usd_text) list"

datatype image =
    NoDataChart string
  | KpiCards "(string \<times> kpi_text \<times> string) list"
  | DailyLiquidationChart frame
  | LiquidationByChainChart "(string \<times> cell \<times> usd_text) list"
  | BadDebtSummaryChart realized_panel unrealized_panel

text \<open>The files that the pipeline writes. The stories and pages come below.\<close>

datatype bad_debt_phrase = ZeroRealizedBadDebt | RealizedBadDebt usd_text

datatype flowable =
    Spacer
  | ReportTitle
  | ReportSubtitle string string
  | HRFlowable
  | SectionHeader string
  | TLDR usd_text int int int bad_debt_phrase
  | Picture string
  | LiquidationsIntro usd_text int int
  | ChainTableTitle
  | ChainTable "(string \<times> usd_text \<times> int \<times> int) list"
  | NoBadDebtEvents
  | BadDebtRecorded usd_text
  | Takeaway1 usd_text int int int
  | Takeaway2
  | Takeaway3
  | DataSource1
  | DataSource2
  | ReportGenerated string

datatype bad_debt_rows = NoUnrealizedRow | UnrealizedRows "(cell \<times> cell \<times> usd_text) list"

datatype chain_rows = NoChainData | ChainRows "(string \<times> string \<times> usd_text \<times> int \<times> int) list"

datatype file_content = ImageFile image | PdfFile "flowable list" | HtmlFile html_page
and html_page = HtmlPage
  (page_week_start: string)
  (page_week_end: string)
  (page_total_liq: usd_text)
  (page_positions: int)
  (page_markets: int)
  (page_chains: int)
  (page_bad_debt_class: string)
  (page_bad_debt_text: bad_debt_phrase)
  (page_kpi_bad_debt: usd_text)
  (page_images: "file_content option list")
  (page_chain_table: chain_rows)
  (page_bad_debt_section: flowable)
  (page_bad_debt_table: bad_debt_rows)

type_synonym files = "string \<rightharpoonup> file_content"

section \<open>The environment of the renderers\<close>

text \<open>
  What the renderers take from outside: which paths can be written, the built-in
  \<open>float\<close> on a string (the number, NaN included, or \<open>None\<close> for its \<open>ValueError\<close>), the
  clock readings as the templates format them, and the size in bytes of a file.
\<close>

record environment =
  can_write :: "string \<Rightarrow> bool"
  py_float :: "string \<Rightarrow> cell option"
  week_start :: string
  week_end :: string
  generated_at :: string
  date_str :: string
  size_of :: "file_content \<Rightarrow> nat"

text \<open>
  A step that writes files returns its result, or the exception, together with the files
  as they are then.
\<close>

type_synonym 'a writing = "(error + 'a) \<times> files"

definition then_write :: "'a writing \<Rightarrow> ('a \<Rightarrow> files \<Rightarrow> 'b writing) \<Rightarrow> 'b writing" where
  "then_write r f = (case fst r of Inl e \<Rightarrow> (Inl e, snd r) | Inr x \<Rightarrow> f x (snd r))"

text \<open>\<open>fig.savefig(output_path, ...)\<close>\<close>

definition savefig :: "environment \<Rightarrow> string \<Rightarrow> image \<Rightarrow> files \<Rightarrow> string writing" where
  "savefig env output_path img fs =
     (if can_write env output_path then (Inr output_path, fs(output_path \<mapsto> ImageFile img))
      else (Inl (OSError output_path), fs))"

text \<open>A chart function: the image is computed, then saved; the path is returned.\<close>

definition save_chart ::
  "environment \<Rightarrow> string \<Rightarrow> error + image \<Rightarrow> files \<Rightarrow> string writing" where
  "save_chart env output_path img fs =
     (case img of Inl e \<Rightarrow> (Inl e, fs) | Inr i \<Rightarrow> savefig env output_path i fs)"

text \<open>
  \<open>create_daily_liquidation_chart\<close>. \<open>pivot_table\<close> raises \<open>KeyError\<close> when the column of
  the values or the column of the chains is missing.
\<close>

definition daily_liquidation_image :: "frame \<Rightarrow> error + image" where
  "daily_liquidation_image daily_df =
     (if df_empty daily_df then Inr (NoDataChart ''Daily Liquidations (7d)'')
      else if ''total_liquidated_usd'' \<notin> set (columns daily_df)
        then Inl (KeyError ''total_liquidated_usd'')
      else if ''blockchain'' \<notin> set (columns daily_df) then Inl (KeyError ''blockchain'')
      else Inr (DailyLiquidationChart daily_df))"

definition create_daily_liquidation_chart ::
  "environment \<Rightarrow> error + frame \<Rightarrow> string \<Rightarrow> files \<Rightarrow> string writing" where
  "create_daily_liquidation_chart env daily_df output_path fs =
     save_chart env output_path (and_then daily_df daily_liquidation_image) fs"

text \<open>
  \<open>create_liquidation_by_chain_chart\<close>. \<open>sort_values\<close> and \<open>chain_df["blockchain"]\<close> raise
  \<open>KeyError\<close> on a missing column. The names of the chains are read first (a cell that
  is no string has no \<open>lower\<close>), then each bar is labelled with \<open>format_usd\<close> of its
  value.
\<close>

definition chain_names :: "frame \<Rightarrow> error + string list" where
  "chain_names df = each (\<lambda>r. str_of_cell (series_get r ''blockchain'' NaN)) df"

definition liquidation_by_chain_image :: "frame \<Rightarrow> error + image" where
  "liquidation_by_chain_image chain_df =
     (if df_empty chain_df then Inr (NoDataChart ''Liquidations by Chain'')
      else if ''total_liquidated_usd'' \<notin> set (columns chain_df)
        then Inl (KeyError ''total_liquidated_usd'')
      else if ''blockchain'' \<notin> set (columns chain_df) then Inl (KeyError ''blockchain'')
      else
        and_then (chain_names chain_df) (\<lambda>names.
        and_then (each (\<lambda>r. format_usd (series_get r ''total_liquidated_usd'' NaN)) chain_df)
          (\<lambda>labels.
            Inr (LiquidationByChainChart
              (zip (map capitalize names)
                (zip (map (\<lambda>r. series_get r ''total_liquidated_usd'' NaN) chain_df) labels))))))"

definition create_liquidation_by_chain_chart ::
  "environment \<Rightarrow> error + frame \<Rightarrow> string \<Rightarrow> files \<Rightarrow> string writing" where
  "create_liquidation_by_chain_chart env chain_df output_path fs =
     save_chart env output_path (and_then chain_df liquidation_by_chain_image) fs"

text \<open>
  \<open>create_bad_debt_summary_chart\<close>. The sum of a column skips missing cells; a column
  that is not there counts as \<open>pd.Series([0])\<close>.
\<close>

fun column_sum :: "cell list \<Rightarrow> error + rat" where
  "column_sum [] = Inr 0"
| "column_sum (v # vs) =
     (case v of
        Num x \<Rightarrow> and_then (column_sum vs) (\<lambda>s. Inr (x + s))
      | Str s \<Rightarrow> Inl TypeError
      | _ \<Rightarrow> column_sum vs)"

definition realized :: "frame \<Rightarrow> error + realized_panel" where
  "realized bad_debt_df =
     (if df_empty bad_debt_df then Inr ZeroRealized
      else and_then
        (if ''total_bad_debt_usd'' \<in> set (columns bad_debt_df)
         then column_sum (map (\<lambda>r. series_get r ''total_bad_debt_usd'' NaN) bad_debt_df)
         else Inr 0)
        (\<lambda>total.
           if total = 0 then Inr ZeroRealized
           else if ''blockchain'' \<notin> set (columns bad_debt_df) then Inl (KeyError ''blockchain'')
           else and_then (chain_names bad_debt_df) (\<lambda>names. Inr (RealizedPie bad_debt_df))))"

text \<open>
  \<open>debt\<close> of a row of unrealized bad debt: a string is stripped of \<open>$\<close> and \<open>,\<close> and
  converted by \<open>float\<close>.
\<close>

definition debt_of :: "environment \<Rightarrow> row \<Rightarrow> error + cell" where
  "debt_of env r =
     (case series_get r ''unrealized_bad_debt'' (series_get r ''Unrealized Bad Debt'' (Num 0)) of
        Str s \<Rightarrow>
          (let t = filter (\<lambda>c. c \<noteq> CHR ''$'' \<and> c \<noteq> CHR '','') s
           in case py_float env t of None \<Rightarrow> Inl (InvalidFloatLiteral t) | Some x \<Rightarrow> Inr x)
      | v \<Rightarrow> Inr v)"

text \<open>\<open>market[:25]\<close>: only a string can be sliced.\<close>

definition unrealized_line :: "environment \<Rightarrow> row \<Rightarrow> error + (string \<times> cell \<times> usd_text)" where
  "unrealized_line env r =
     and_then (debt_of env r) (\<lambda>debt.
       case series_get r ''market'' (series_get r ''Market'' (Str ''N/A'')) of
         Str market \<Rightarrow>
           and_then (format_usd debt) (\<lambda>text.
             Inr (take 25 market,
                  series_get r ''chain'' (series_get r ''Chain'' (Str ''N/A'')), text))
       | _ \<Rightarrow> Inl TypeError)"

definition unrealized :: "environment \<Rightarrow> frame \<Rightarrow> error + unrealized_panel" where
  "unrealized env unrealized_df =
     (if \<not> df_empty unrealized_df \<and> length unrealized_df > 0
      then and_then (each (unrealized_line env) (take 5 unrealized_df))
             (\<lambda>table_data. Inr (UnrealizedTable table_data))
      else Inr NoUnrealized)"

definition create_bad_debt_summary_chart ::
  "environment \<Rightarrow> error + frame \<Rightarrow> error + frame \<Rightarrow> string \<Rightarrow> files \<Rightarrow> string writing" where
  "create_bad_debt_summary_chart env bad_debt_df unrealized_df output_path fs =
     save_chart env output_path
       (and_then bad_debt_df (\<lambda>b.
        and_then (realized b) (\<lambda>left.
        and_then unrealized_df (\<lambda>u.
        and_then (unrealized env u) (\<lambda>right.
          Inr (BadDebtSummaryChart left right))))))
       fs"

text \<open>
  \<open>create_kpi_card_image\<close>. The format \<open>{...:,}\<close> raises on a string and on \<open>None\<close>.
\<close>

definition grouped :: "cell \<Rightarrow> error + kpi_text" where
  "grouped v =
     (case v of
        Str s \<Rightarrow> Inl InvalidFormatSpec
      | Null \<Rightarrow> Inl TypeError
      | _ \<Rightarrow> Inr (Grouped v))"

definition kpi_card_image :: "row \<Rightarrow> error + image" where
  "kpi_card_image metrics =
     and_then (format_usd (series_get metrics ''total_liquidated_usd'' (Num 0))) (\<lambda>liquidated.
     and_then (grouped (series_get metrics ''total_positions_liquidated'' (Num 0))) (\<lambda>positions.
     and_then (format_usd (series_get metrics ''total_bad_debt_usd'' (Num 0))) (\<lambda>bad_debt.
       Inr (KpiCards
         [(''Total Liquidated'', UsdValue liquidated, ''blue_primary''),
          (''Positions Liquidated'', positions, ''blue_light''),
          (''Markets Affected'', Plain (series_get metrics ''total_markets'' (Num 0)), ''cyan''),
          (''Realized Bad Debt'', UsdValue bad_debt,
           if is_zero (series_get metrics ''total_bad_debt_usd'' (Num 0))
           then ''green'' else ''red'')]))))"

definition create_kpi_card_image ::
  "environment \<Rightarrow> error + row \<Rightarrow> string \<Rightarrow> files \<Rightarrow> string writing" where
  "create_kpi_card_image env metrics output_path fs =
     save_chart env output_path (and_then metrics kpi_card_image) fs"

text \<open>The metrics of \<open>generate_all_charts\<close>: the first row of the summary, or zeros.\<close>

definition zero_metrics :: row where
  "zero_metrics =
     [(''total_liquidated_usd'', Num 0), (''total_bad_debt_usd'', Num 0),
      (''total_positions_liquidated'', Num 0), (''total_markets'', Num 0),
      (''total_chains'', Num 0)]"

definition summary_metrics :: "frame \<Rightarrow> row" where
  "summary_metrics summary = (if \<not> df_empty summary then hd summary else zero_metrics)"

type_synonym charts = "string \<rightharpoonup> string"

definition generate_all_charts ::
  "environment \<Rightarrow> report_data \<Rightarrow> string \<Rightarrow> files \<Rightarrow> charts writing" where
  "generate_all_charts env report_data output_dir fs =
     then_write
       (create_kpi_card_image env
          (and_then (get_frame report_data ''weekly_summary'') (\<lambda>s. Inr (summary_metrics s)))
          (path_join output_dir ''chart_kpi_cards.png'') fs)
       (\<lambda>kpi fs1.
     then_write
       (create_daily_liquidation_chart env (get_frame report_data ''daily_liquidations'')
          (path_join output_dir ''chart_daily_liquidations.png'') fs1)
       (\<lambda>daily fs2.
     then_write
       (create_liquidation_by_chain_chart env (get_frame report_data ''liquidations_by_chain'')
          (path_join output_dir ''chart_liq_by_chain.png'') fs2)
       (\<lambda>by_chain fs3.
     then_write
       (create_bad_debt_summary_chart env (get_frame report_data ''bad_debt_by_chain'')
          (get_frame report_data ''unrealized_bad_debt'')
          (path_join output_dir ''chart_bad_debt.png'') fs3)
       (\<lambda>bad_debt fs4.
          (Inr (Map.empty
                 (''kpi'' \<mapsto> kpi,
                  ''daily_liquidations'' \<mapsto> daily,
                  ''liq_by_chain'' \<mapsto> by_chain,
                  ''bad_debt'' \<mapsto> bad_debt)),
           fs4)))))"

section \<open>pdf_generator.py and generate_html_report.py: the summary\<close>

text \<open>
  Both generators read the summary in the same way: the first row of \<open>weekly_summary\<close>,
  a missing column read as 0, or \<open>"$0", 0, 0, 0, 0\<close> when the table is empty.
\<close>

record summary_values =
  total_liq :: usd_text
  positions :: int
  markets :: int
  chain_count :: int
  bad_debt :: cell

definition read_summary :: "frame \<Rightarrow> error + summary_values" where
  "read_summary summary =
     (if \<not> df_empty summary then
        (let s = hd summary in
         and_then (format_usd_doc (series_get s ''total_liquidated_usd'' (Num 0))) (\<lambda>liq.
         and_then (int_of_cell (series_get s ''total_positions_liquidated'' (Num 0))) (\<lambda>p.
         and_then (int_of_cell (series_get s ''total_markets'' (Num 0))) (\<lambda>m.
         and_then (int_of_cell (series_get s ''total_chains'' (Num 0))) (\<lambda>c.
           Inr \<lparr>total_liq = liq, positions = p, markets = m, chain_count = c,
                bad_debt = series_get s ''total_bad_debt_usd'' (Num 0)\<rparr>)))))
      else
        Inr \<lparr>total_liq = Verbatim ''$0'', positions = 0, markets = 0, chain_count = 0,
             bad_debt = Num 0\<rparr>)"

text \<open>
  \<open>bad_debt_text\<close>: the phrase of the TLDR line, chosen by \<open>bad_debt == 0\<close>.
\<close>

definition bad_debt_text :: "cell \<Rightarrow> error + bad_debt_phrase" where
  "bad_debt_text debt =
     (if is_zero debt then Inr ZeroRealizedBadDebt
      else and_then (format_usd_doc debt) (\<lambda>amount. Inr (RealizedBadDebt amount)))"

text \<open>
  The paragraph of the Bad Debt Overview section, chosen by the same test.
\<close>

definition bad_debt_section :: "cell \<Rightarrow> error + flowable" where
  "bad_debt_section debt =
     (if is_zero debt then Inr NoBadDebtEvents
      else and_then (format_usd_doc debt) (\<lambda>amount. Inr (BadDebtRecorded amount)))"

section \<open>pdf_generator.py: generate_report\<close>

text \<open>\<open>if key in charts and os.path.exists(charts[key])\<close>: the image and a spacer.\<close>

definition chart_picture ::
  "charts \<Rightarrow> files \<Rightarrow> string \<Rightarrow> (string \<Rightarrow> flowable list) \<Rightarrow> flowable list" where
  "chart_picture charts fs key shown =
     (case charts key of
        None \<Rightarrow> []
      | Some path \<Rightarrow> if fs path \<noteq> None then shown path else [])"

text \<open>A line of the chain table: \<open>row["..."]\<close> raises \<open>KeyError\<close> on a missing column.\<close>

definition chain_table_line :: "row \<Rightarrow> error + (string \<times> usd_text \<times> int \<times> int)" where
  "chain_table_line r =
     and_then (getitem r ''blockchain'') (\<lambda>chain.
     and_then (str_of_cell chain) (\<lambda>name.
     and_then (getitem r ''total_liquidated_usd'') (\<lambda>volume.
     and_then (format_usd_doc volume) (\<lambda>text.
     and_then (getitem r ''num_liquidations'') (\<lambda>n.
     and_then (int_of_cell n) (\<lambda>liquidations.
     and_then (getitem r ''markets_affected'') (\<lambda>m.
     and_then (int_of_cell m) (\<lambda>affected.
       Inr (capitalize name, text, liquidations, affected)))))))))"

definition chain_table :: "frame \<Rightarrow> error + flowable list" where
  "chain_table chain_df =
     (if \<not> df_empty chain_df then
        and_then (each chain_table_line (take 8 chain_df)) (\<lambda>table_data.
          Inr [ChainTableTitle, ChainTable table_data, Spacer])
      else Inr [])"

text \<open>
  The story, in the order in which \<open>generate_report\<close> appends to it, given the values
  of the summary, the phrase of the TLDR line, the chain table and the paragraph of the
  bad debt section.
\<close>

definition story_layout ::
  "environment \<Rightarrow> summary_values \<Rightarrow> bad_debt_phrase \<Rightarrow> flowable list \<Rightarrow> flowable
     \<Rightarrow> charts \<Rightarrow> files \<Rightarrow> flowable list" where
  "story_layout env v phrase table section charts fs =
     [Spacer, ReportTitle, ReportSubtitle (week_start env) (week_end env), HRFlowable,
      SectionHeader ''TLDR'',
      TLDR (total_liq v) (positions v) (markets v) (chain_count v) phrase,
      Spacer]
     @ chart_picture charts fs ''kpi'' (\<lambda>path. [Picture path, Spacer])
     @ [SectionHeader ''1. Liquidations & Bad Debt'',
        LiquidationsIntro (total_liq v) (chain_count v) (markets v)]
     @ chart_picture charts fs ''daily_liquidations'' (\<lambda>path. [Spacer, Picture path, Spacer])
     @ chart_picture charts fs ''liq_by_chain'' (\<lambda>path. [Picture path, Spacer])
     @ table
     @ [SectionHeader ''2. Bad Debt Overview'', section]
     @ chart_picture charts fs ''bad_debt'' (\<lambda>path. [Spacer, Picture path, Spacer])
     @ [SectionHeader ''3. Key Takeaways'',
        Takeaway1 (total_liq v) (positions v) (markets v) (chain_count v), Spacer,
        Takeaway2, Spacer, Takeaway3, Spacer,
        Spacer, HRFlowable, SectionHeader ''Data Sources'',
        DataSource1, DataSource2, ReportGenerated (generated_at env)]"

text \<open>
  The values are computed in the order of the source: the summary, the phrase, the chain
  table, the paragraph.
\<close>

definition story_of ::
  "environment \<Rightarrow> report_data \<Rightarrow> charts \<Rightarrow> files \<Rightarrow> error + flowable list" where
  "story_of env report_data charts fs =
     and_then (get_frame report_data ''weekly_summary'') (\<lambda>summary.
     and_then (read_summary summary) (\<lambda>v.
     and_then (bad_debt_text (bad_debt v)) (\<lambda>phrase.
     and_then (get_frame report_data ''liquidations_by_chain'') (\<lambda>chain_df.
     and_then (chain_table chain_df) (\<lambda>table.
     and_then (bad_debt_section (bad_debt v)) (\<lambda>section.
       Inr (story_layout env v phrase table section charts fs)))))))"

text \<open>\<open>doc.build(story, ...)\<close> writes the document to \<open>output_path\<close>.\<close>

definition generate_report ::
  "environment \<Rightarrow> report_data \<Rightarrow> charts \<Rightarrow> string \<Rightarrow> files \<Rightarrow> string writing" where
  "generate_report env report_data charts output_path fs =
     (case story_of env report_data charts fs of
        Inl e \<Rightarrow> (Inl e, fs)
      | Inr story \<Rightarrow>
          if can_write env output_path
          then (Inr output_path, fs(output_path \<mapsto> PdfFile story))
          else (Inl (OSError output_path), fs))"

section \<open>generate_html_report.py: generate_html\<close>

text \<open>
  \<open>_img_to_base64(charts.get(key, ""))\<close>: the file at the path, if there is one; no file
  is at the empty path.
\<close>

definition img_to_base64 :: "charts \<Rightarrow> files \<Rightarrow> string \<Rightarrow> file_content option" where
  "img_to_base64 charts fs key =
     (case charts key of
        None \<Rightarrow> None
      | Some path \<Rightarrow> if path = [] then None else fs path)"

definition html_chain_line ::
  "row \<Rightarrow> error + (string \<times> string \<times> usd_text \<times> int \<times> int)" where
  "html_chain_line r =
     and_then (getitem r ''blockchain'') (\<lambda>chain.
     and_then (str_of_cell chain) (\<lambda>name.
     and_then (getitem r ''total_liquidated_usd'') (\<lambda>volume.
     and_then (format_usd_doc volume) (\<lambda>text.
     and_then (getitem r ''num_liquidations'') (\<lambda>n.
     and_then (int_of_cell n) (\<lambda>liquidations.
     and_then (getitem r ''markets_affected'') (\<lambda>m.
     and_then (int_of_cell m) (\<lambda>affected.
       Inr (map lower_char name, capitalize name, text, liquidations, affected)))))))))"

definition build_chain_table_rows :: "frame \<Rightarrow> error + chain_rows" where
  "build_chain_table_rows chain_df =
     (if df_empty chain_df then Inr NoChainData
      else and_then (each html_chain_line (take 8 chain_df)) (\<lambda>rows. Inr (ChainRows rows)))"

definition html_debt_line :: "environment \<Rightarrow> row \<Rightarrow> error + (cell \<times> cell \<times> usd_text)" where
  "html_debt_line env r =
     and_then (debt_of env r) (\<lambda>debt.
     and_then (format_usd_doc debt) (\<lambda>text.
       Inr (series_get r ''market'' (series_get r ''Market'' (Str ''N/A'')),
            (case series_get r ''chain'' (series_get r ''Chain'' (Str ''N/A'')) of
               Str chain \<Rightarrow> Str (capitalize chain)
             | other \<Rightarrow> other),
            text)))"

definition build_bad_debt_table_rows :: "environment \<Rightarrow> frame \<Rightarrow> error + bad_debt_rows" where
  "build_bad_debt_table_rows env unrealized_df =
     (if df_empty unrealized_df then Inr NoUnrealizedRow
      else and_then (each (html_debt_line env) (take 5 unrealized_df))
             (\<lambda>rows. Inr (UnrealizedRows rows)))"

definition page_of ::
  "environment \<Rightarrow> report_data \<Rightarrow> charts \<Rightarrow> files \<Rightarrow> error + html_page" where
  "page_of env report_data charts fs =
     and_then (get_frame report_data ''weekly_summary'') (\<lambda>summary.
     and_then (read_summary summary) (\<lambda>v.
     and_then (bad_debt_text (bad_debt v)) (\<lambda>phrase.
     and_then (get_frame report_data ''liquidations_by_chain'') (\<lambda>chain_df.
     and_then (build_chain_table_rows chain_df) (\<lambda>chain_table_rows.
     and_then (get_frame report_data ''unrealized_bad_debt'') (\<lambda>unrealized_df.
     and_then (build_bad_debt_table_rows env unrealized_df) (\<lambda>bad_debt_table_rows.
     and_then (bad_debt_section (bad_debt v)) (\<lambda>section.
     and_then (format_usd_doc (bad_debt v)) (\<lambda>kpi_bad_debt.
       Inr (HtmlPage (week_start env) (week_end env)
              (total_liq v) (positions v) (markets v) (chain_count v)
              (if is_zero (bad_debt v) then ''green'' else ''red'')
              phrase kpi_bad_debt
              [img_to_base64 charts fs ''kpi'',
               img_to_base64 charts fs ''daily_liquidations'',
               img_to_base64 charts fs ''liq_by_chain'',
               img_to_base64 charts fs ''bad_debt'']
              chain_table_rows section bad_debt_table_rows))))))))))"

definition generate_html ::
  "environment \<Rightarrow> report_data \<Rightarrow> charts \<Rightarrow> string \<Rightarrow> files \<Rightarrow> string writing" where
  "generate_html env report_data charts output_path fs =
     (case page_of env report_data charts fs of
        Inl e \<Rightarrow> (Inl e, fs)
      | Inr page \<Rightarrow>
          if can_write env output_path
          then (Inr output_path, fs(output_path \<mapsto> HtmlFile page))
          else (Inl (OSError output_path), fs))"

section \<open>web_app.py: the job runner\<close>

text \<open>
  A job of the table \<open>jobs\<close>: running with a message, done with the file name, the size
  text and the path, or failed with the exception. \<open>KB x\<close> is \<open>f"{x:.0f} KB"\<close> and
  \<open>MB x\<close> is \<open>f"{x:.1f} MB"\<close>.
\<close>

datatype size_text = KB rat | MB rat

datatype job = Running string | Done string size_text string | Failed error

text \<open>
  A vault of the lists of \<open>config\<close> is a dictionary; the runner reads its entry \<open>name\<close>.
\<close>

type_synonym vault = "(string \<times> string) list"

text \<open>
  Where the programs run: what the module \<open>config\<close> defines, the directory of the
  reports of the web application (created when its module is loaded), the service, the
  environment of the renderers and the source of the sample data.
  \<^item> \<open>DUNE_API_KEY\<close> is the key as \<open>config\<close> read it from the environment when it was
    loaded.
  \<^item> \<open>BLUECHIP_VAULTS\<close>, \<open>LONGTAIL_VAULTS\<close> and \<open>ALL_TRACKED_VAULTS\<close> are the vault lists
    that the web application imports from \<open>config\<close>: \<open>None\<close> for a name that the module
    does not define. The configuration at hand defines none of the three.
\<close>

record deployment =
  DUNE_API_KEY :: string
  BLUECHIP_VAULTS :: "vault list option"
  LONGTAIL_VAULTS :: "vault list option"
  ALL_TRACKED_VAULTS :: "vault list option"
  queries :: config
  REPORTS_DIR :: string
  service :: dune_api
  renderer :: environment
  sample :: sample_source

text \<open>
  \<open>from config import BLUECHIP_VAULTS, LONGTAIL_VAULTS, ALL_TRACKED_VAULTS\<close>, the first
  statement of \<open>_run_generation\<close>: the names are looked up in this order, and the first
  that the module does not define raises \<open>ImportError\<close>. The runner goes on with
  \<open>ALL_TRACKED_VAULTS\<close>.
\<close>

definition import_vaults :: "deployment \<Rightarrow> error + vault list" where
  "import_vaults d =
     (case BLUECHIP_VAULTS d of
        None \<Rightarrow> Inl (ImportError ''BLUECHIP_VAULTS'')
      | Some bluechip \<Rightarrow>
          (case LONGTAIL_VAULTS d of
             None \<Rightarrow> Inl (ImportError ''LONGTAIL_VAULTS'')
           | Some longtail \<Rightarrow>
               (case ALL_TRACKED_VAULTS d of
                  None \<Rightarrow> Inl (ImportError ''ALL_TRACKED_VAULTS'')
                | Some tracked \<Rightarrow> Inr tracked)))"

text \<open>
  \<open>[v for v in ALL_TRACKED_VAULTS if v["name"] in selected_vaults]\<close>: a vault without the
  entry \<open>name\<close> raises \<open>KeyError\<close>.
\<close>

definition vault_name :: "vault \<Rightarrow> error + string" where
  "vault_name v = (case map_of v ''name'' of None \<Rightarrow> Inl (KeyError ''name'') | Some n \<Rightarrow> Inr n)"

definition active_vaults :: "vault list \<Rightarrow> string list \<Rightarrow> error + vault list" where
  "active_vaults tracked selected_vaults =
     and_then (each vault_name tracked)
       (\<lambda>names. Inr (map fst (filter (\<lambda>vn. snd vn \<in> set selected_vaults) (zip tracked names))))"

text \<open>\<open>d.items()\<close> of a dictionary of tables; of a table, its columns.\<close>

definition items :: "entry \<Rightarrow> (string \<times> frame) list" where
  "items e =
     (case e of
        Vaults vs \<Rightarrow> vs
      | Frame df \<Rightarrow> map (\<lambda>c. (c, map (filter (\<lambda>kv. fst kv = c)) df)) (columns df))"

text \<open>
  Step 1 of \<open>_run_generation\<close>. With sample data the runner indexes
  \<open>report_data["vault_liquidity"]\<close>. With live data it builds the fetcher, which raises
  when there is no key, reads \<open>config.ALL_TRACKED_VAULTS\<close> and fetches; while the fetch
  runs the list of \<open>config\<close> is the list of the active vaults, which
  \<open>fetch_all_report_data\<close> does not read, and after it the list is restored.
\<close>

definition fetch_step ::
  "deployment \<Rightarrow> bool \<Rightarrow> string \<Rightarrow> string list \<Rightarrow> (error + report_data) option" where
  "fetch_step d use_sample api_key selected_vaults =
     (if use_sample then
        Some (let report_data = generate_sample_data (sample d)
              in case report_data ''vault_liquidity'' of
                   None \<Rightarrow> Inl (KeyError ''vault_liquidity'')
                 | Some e \<Rightarrow>
                     Inr (report_data(''vault_liquidity'' \<mapsto>
                       Vaults (filter (\<lambda>kv. fst kv \<in> set selected_vaults) (items e)))))
      else
        (case DuneDataFetcher (DUNE_API_KEY d) (if api_key \<noteq> [] then Some api_key else None) of
           Inl e \<Rightarrow> Some (Inl e)
         | Inr key \<Rightarrow>
             (case ALL_TRACKED_VAULTS d of
                None \<Rightarrow> Some (Inl AttributeError)
              | Some original_vaults \<Rightarrow>
                  map_option Inr (fetch_all_report_data (service d) key (queries d)))))"

text \<open>\<open>os.path.getsize(path)\<close> and the size text.\<close>

definition getsize :: "environment \<Rightarrow> files \<Rightarrow> string \<Rightarrow> error + nat" where
  "getsize env fs path =
     (case fs path of None \<Rightarrow> Inl (OSError path) | Some c \<Rightarrow> Inr (size_of env c))"

definition size_str :: "nat \<Rightarrow> size_text" where
  "size_str bytes =
     (let size_kb = of_nat bytes / 1024
      in if size_kb < 1024 then KB size_kb else MB (size_kb / 1024))"

text \<open>
  The body of the \<open>try\<close>: the import of the vault lists, the filter of the active
  vaults, the message of the job, which must be in the table
  (\<open>jobs[job_id]["message"] = ...\<close>), then the three steps; the result is the record of
  the finished job.
\<close>

definition run_steps ::
  "deployment \<Rightarrow> (string \<rightharpoonup> job) \<Rightarrow> string \<Rightarrow> bool \<Rightarrow> string \<Rightarrow> string list \<Rightarrow> files
     \<Rightarrow> job writing option" where
  "run_steps d jobs job_id use_sample api_key selected_vaults fs =
     (case import_vaults d of
        Inl e \<Rightarrow> Some (Inl e, fs)
      | Inr tracked \<Rightarrow>
          (case active_vaults tracked selected_vaults of
             Inl e \<Rightarrow> Some (Inl e, fs)
           | Inr active \<Rightarrow>
               if jobs job_id = None then Some (Inl (KeyError job_id), fs)
               else
                 map_option
                   (\<lambda>fetched.
                      case fetched of
                        Inl e \<Rightarrow> (Inl e, fs)
                      | Inr report_data \<Rightarrow>
                          then_write
                            (generate_all_charts (renderer d) report_data (REPORTS_DIR d) fs)
                            (\<lambda>charts fs1.
                          let filename = ''morpho_risk_report_'' @ date_str (renderer d) @ ''.pdf'';
                              output_path = path_join (REPORTS_DIR d) filename
                          in then_write
                               (generate_report (renderer d) report_data charts output_path fs1)
                               (\<lambda>path fs2.
                                  (and_then (getsize (renderer d) fs2 output_path)
                                     (\<lambda>bytes. Inr (Done filename (size_str bytes) output_path)),
                                   fs2))))
                   (fetch_step d use_sample api_key selected_vaults)))"

text \<open>
  \<open>_run_generation\<close>: \<open>except Exception as e\<close> turns every exception into the failed
  job. The result is the job table and the files when the run has ended.
\<close>

definition run_generation ::
  "deployment \<Rightarrow> (string \<rightharpoonup> job) \<Rightarrow> string \<Rightarrow> bool \<Rightarrow> string \<Rightarrow> string list \<Rightarrow> files
     \<Rightarrow> ((string \<rightharpoonup> job) \<times> files) option" where
  "run_generation d jobs job_id use_sample api_key selected_vaults fs =
     map_option
       (\<lambda>r. (case fst r of
                 Inl e \<Rightarrow> jobs(job_id \<mapsto> Failed e)
               | Inr finished \<Rightarrow> jobs(job_id \<mapsto> finished),
              snd r))
       (run_steps d jobs job_id use_sample api_key selected_vaults fs)"

text \<open>\<open>api_generate\<close> enters the job before it starts the run.\<close>

definition api_generate ::
  "deployment \<Rightarrow> (string \<rightharpoonup> job) \<Rightarrow> string \<Rightarrow> bool \<Rightarrow> string \<Rightarrow> string list \<Rightarrow> files
     \<Rightarrow> ((string \<rightharpoonup> job) \<times> files) option" where
  "api_generate d jobs job_id use_sample api_key selected_vaults fs =
     run_generation d (jobs(job_id \<mapsto> Running ''Initializing...'')) job_id
       use_sample api_key selected_vaults fs"

section \<open>generate_html_report.py: main\<close>

text \<open>
  One start of the HTML generator: the arguments \<open>--sample\<close>, \<open>--output\<close> and
  \<open>--api-key\<close>, the directory of the script, and whether \<open>os.makedirs\<close> succeeds on a
  path.
\<close>

record invocation =
  sample_flag :: bool
  output_arg :: "string option"
  api_key_arg :: "string option"
  script_dir :: string
  can_makedirs :: "string \<Rightarrow> bool"

text \<open>
  \<open>main\<close>. The module imports \<open>config\<close> when it is loaded, so \<open>DUNE_API_KEY\<close> is read
  before \<open>main\<close> stores \<open>--api-key\<close> in the environment: the fetcher, built without an
  argument, has the key that \<open>config\<close> read. \<open>except ValueError\<close> ends the program with
  \<open>sys.exit(1)\<close>; the fetcher raises no other exception, and the fetch raises none. The
  exceptions of the chart stage and of \<open>generate_html\<close> are not caught.
\<close>

definition main :: "deployment \<Rightarrow> invocation \<Rightarrow> files \<Rightarrow> unit writing option" where
  "main d args fs =
     (let output_dir = path_join (script_dir args) ''output''
      in if \<not> can_makedirs args output_dir then Some (Inl (OSError output_dir), fs)
         else
           let output_path =
                 (case output_arg args of
                    None \<Rightarrow> path_join (script_dir args) ''index.html''
                  | Some path \<Rightarrow>
                      if path \<noteq> [] then path else path_join (script_dir args) ''index.html'')
           in map_option
                (\<lambda>fetched.
                   case fetched of
                     Inl e \<Rightarrow> (Inl e, fs)
                   | Inr report_data \<Rightarrow>
                       then_write (generate_all_charts (renderer d) report_data output_dir fs)
                         (\<lambda>charts fs1.
                       then_write (generate_html (renderer d) report_data charts output_path fs1)
                         (\<lambda>path fs2. (Inr (), fs2))))
                (if sample_flag args then Some (Inr (generate_sample_data (sample d)))
                 else
                   (case DuneDataFetcher (DUNE_API_KEY d) None of
                      Inl e \<Rightarrow> Some (Inl (SystemExit 1))
                    | Inr key \<Rightarrow>
                        map_option Inr (fetch_all_report_data (service d) key (queries d)))))"

section \<open>Concrete services and environments\<close>

text \<open>A service that rejects the key of every request with status 401.\<close>

definition rejecting_api :: dune_api where
  "rejecting_api =
     \<lparr>get_query_results = (\<lambda>key query_id. Inl (HTTPError 401)),
      post_execute_sql = (\<lambda>key sql. Inl (HTTPError 401)),
      get_execution_status = (\<lambda>key execution_id k. Inl (HTTPError 401)),
      get_execution_results = (\<lambda>key execution_id. Inl (HTTPError 401))\<rparr>"

text \<open>
  A service that starts every query as execution \<open>x1\<close>, reports the given states poll by
  poll and \<open>QUERY_STATE_EXECUTING\<close> after them, and has the given rows as every result.
\<close>

definition scripted_api :: "string list \<Rightarrow> row list \<Rightarrow> dune_api" where
  "scripted_api states rows =
     \<lparr>get_query_results = (\<lambda>key query_id. Inr rows),
      post_execute_sql = (\<lambda>key sql. Inr (Some ''x1'')),
      get_execution_status =
        (\<lambda>key execution_id k.
           Inr (if k < length states then states ! k else ''QUERY_STATE_EXECUTING'', None)),
      get_execution_results = (\<lambda>key execution_id. Inr rows)\<rparr>"

definition plain_environment :: environment where
  "plain_environment =
     \<lparr>can_write = (\<lambda>path. True),
      py_float = (\<lambda>s. None),
      week_start = ''January 01'',
      week_end = ''January 08, 2024'',
      generated_at = ''2024-01-08 09:00 UTC'',
      date_str = ''2024-01-08_0900'',
      size_of = (\<lambda>c. 2048)\<rparr>"

definition plain_sample :: sample_source where
  "plain_sample =
     \<lparr>uniform = (\<lambda>k a b. a), randint = (\<lambda>k a b. a), day_str = (\<lambda>d. ''2024-01-08 00:00:00'')\<rparr>"

text \<open>
  The configuration at hand, which defines no vault list, with no key in the
  environment and with a key in it; and a configuration that also defines the vault
  lists, with one vault.
\<close>

definition plain_deployment :: "dune_api \<Rightarrow> deployment" where
  "plain_deployment api =
     \<lparr>DUNE_API_KEY = [], BLUECHIP_VAULTS = None, LONGTAIL_VAULTS = None,
      ALL_TRACKED_VAULTS = None, queries = morpho_config, REPORTS_DIR = ''output'',
      service = api, renderer = plain_environment, sample = plain_sample\<rparr>"

definition keyed_deployment :: "dune_api \<Rightarrow> string \<Rightarrow> deployment" where
  "keyed_deployment api key = (plain_deployment api)\<lparr>DUNE_API_KEY := key\<rparr>"

definition vaults_deployment :: "dune_api \<Rightarrow> deployment" where
  "vaults_deployment api =
     (plain_deployment api)
       \<lparr>BLUECHIP_VAULTS := Some [[(''name'', ''Gauntlet USDC Prime'')]],
        LONGTAIL_VAULTS := Some [],
        ALL_TRACKED_VAULTS := Some [[(''name'', ''Gauntlet USDC Prime'')]]\<rparr>"

text \<open>A start of the HTML generator with no argument, in a directory that it can use.\<close>

definition plain_invocation :: invocation where
  "plain_invocation =
     \<lparr>sample_flag = False, output_arg = None, api_key_arg = None, script_dir = ''/srv/report'',
      can_makedirs = (\<lambda>path. True)\<rparr>"

text \<open>
  A week without liquidations: the summary query, a \<open>SELECT SUM(...)\<close> over no events,
  answers one row whose sums are null; every other query answers no rows.
\<close>

definition null_sums :: row where
  "null_sums =
     [(''total_liquidated_usd'', Null), (''total_bad_debt_usd'', Null),
      (''total_positions_liquidated'', Num 0), (''total_markets'', Num 0),
      (''total_chains'', Num 0)]"

definition quiet_week_api :: dune_api where
  "quiet_week_api =
     \<lparr>get_query_results = (\<lambda>key query_id. Inr []),
      post_execute_sql =
        (\<lambda>key sql. Inr (Some (if startswith sql ''SELECT SUM'' then ''summary'' else ''other''))),
      get_execution_status = (\<lambda>key execution_id k. Inr (''QUERY_STATE_COMPLETED'', None)),
      get_execution_results =
        (\<lambda>key execution_id. Inr (if execution_id = ''summary'' then [null_sums] else []))\<rparr>"

text \<open>An environment in which the images can be written and nothing else.\<close>

definition images_only_environment :: environment where
  "images_only_environment =
     plain_environment\<lparr>can_write := (\<lambda>path. drop (length path - 4) path = ''.png'')\<rparr>"

section \<open>The fetch stage as the specification words it\<close>

text \<open>The final states of an execution, and a poll that reports none of them.\<close>

definition final_state :: "string \<Rightarrow> bool" where
  "final_state s =
     (s = ''QUERY_STATE_COMPLETED'' \<or> s = ''QUERY_STATE_FAILED''
      \<or> s = ''QUERY_STATE_CANCELLED'')"

definition still_running :: "dune_api \<Rightarrow> string \<Rightarrow> string \<Rightarrow> nat \<Rightarrow> bool" where
  "still_running api key execution_id k =
     (case get_execution_status api key execution_id k of
        Inl e \<Rightarrow> False
      | Inr status \<Rightarrow> \<not> final_state (fst status))"

text \<open>The dataset keys of the ad-hoc queries, each with the name of its query.\<close>

definition custom_keys :: "(string \<times> string) list" where
  "custom_keys =
     [(''weekly_summary'', ''weekly_liquidation_summary''),
      (''daily_liquidations'', ''daily_liquidations_7d''),
      (''liquidations_by_chain'', ''weekly_liquidations_by_chain''),
      (''bad_debt_by_chain'', ''weekly_bad_debt_by_chain'')]"

section \<open>Notions used to state the properties of the renderers\<close>

text \<open>A table that is missing or empty under a key of the report data.\<close>

definition no_data :: "report_data \<Rightarrow> string \<Rightarrow> bool" where
  "no_data report_data key =
     (case get_frame report_data key of Inl e \<Rightarrow> False | Inr df \<Rightarrow> df_empty df)"

text \<open>
  The realized bad debt that the document generators read from the summary: the cell of
  the first row, 0 for a missing column and for an empty table.
\<close>

definition reported_bad_debt :: "frame \<Rightarrow> cell" where
  "reported_bad_debt summary =
     (if df_empty summary then Num 0
      else series_get (hd summary) ''total_bad_debt_usd'' (Num 0))"

text \<open>
  The phrases of the TLDR lines of a story, and its paragraphs of the bad debt section.
\<close>

fun tldr_phrases :: "flowable list \<Rightarrow> bad_debt_phrase list" where
  "tldr_phrases [] = []"
| "tldr_phrases (TLDR liq p m c phrase # rest) = phrase # tldr_phrases rest"
| "tldr_phrases (other # rest) = tldr_phrases rest"

fun bad_debt_paragraphs :: "flowable list \<Rightarrow> flowable list" where
  "bad_debt_paragraphs [] = []"
| "bad_debt_paragraphs (NoBadDebtEvents # rest) = NoBadDebtEvents # bad_debt_paragraphs rest"
| "bad_debt_paragraphs (BadDebtRecorded amount # rest) =
     BadDebtRecorded amount # bad_debt_paragraphs rest"
| "bad_debt_paragraphs (other # rest) = bad_debt_paragraphs rest"

text \<open>
  Four charts saved one after the other, each under its key: the shape of
  \<open>generate_all_charts\<close>, with the keys, paths and images as parameters.
\<close>

definition write_four ::
  "environment \<Rightarrow> string \<Rightarrow> string \<Rightarrow> error + image \<Rightarrow> string \<Rightarrow> string \<Rightarrow> error + image
   \<Rightarrow> string \<Rightarrow> string \<Rightarrow> error + image \<Rightarrow> string \<Rightarrow> string \<Rightarrow> error + image
   \<Rightarrow> files \<Rightarrow> charts writing" where
  "write_four env k1 p1 e1 k2 p2 e2 k3 p3 e3 k4 p4 e4 fs =
     then_write (save_chart env p1 e1 fs) (\<lambda>x1 fs1.
     then_write (save_chart env p2 e2 fs1) (\<lambda>x2 fs2.
     then_write (save_chart env p3 e3 fs2) (\<lambda>x3 fs3.
     then_write (save_chart env p4 e4 fs3) (\<lambda>x4 fs4.
       (Inr (Map.empty(k1 \<mapsto> x1, k2 \<mapsto> x2, k3 \<mapsto> x3, k4 \<mapsto> x4)), fs4)))))"

section \<open>Notions used to state the properties of the runners\<close>

text \<open>
  The key that a live job of the web application sends with its requests: the key of
  the form, or else the key of the environment.
\<close>

definition request_key :: "deployment \<Rightarrow> string \<Rightarrow> string" where
  "request_key d api_key = (if api_key \<noteq> [] then api_key else DUNE_API_KEY d)"

text \<open>The file name and the path of the report of a job.\<close>

definition report_filename :: "deployment \<Rightarrow> string" where
  "report_filename d = ''morpho_risk_report_'' @ date_str (renderer d) @ ''.pdf''"

definition report_path :: "deployment \<Rightarrow> string" where
  "report_path d = path_join (REPORTS_DIR d) (report_filename d)"

text \<open>The directory of the charts and the path of the page of a start of the HTML generator.\<close>

definition charts_dir :: "invocation \<Rightarrow> string" where
  "charts_dir args = path_join (script_dir args) ''output''"

definition page_path :: "invocation \<Rightarrow> string" where
  "page_path args =
     (case output_arg args of
        None \<Rightarrow> path_join (script_dir args) ''index.html''
      | Some path \<Rightarrow> if path \<noteq> [] then path else path_join (script_dir args) ''index.html'')"

text \<open>
  Steps 2 and 3 of a run, given what the chart stage returns, the document stage as a
  function of the charts, and what the runner makes of the files at the end: the shape
  of both runners after the fetch.
\<close>

definition staged ::
  "charts writing \<Rightarrow> (charts \<Rightarrow> files \<Rightarrow> string writing) \<Rightarrow> (files \<Rightarrow> error + 'a)
   \<Rightarrow> 'a writing" where
  "staged drawn document finish =
     then_write drawn (\<lambda>charts fs1.
     then_write (document charts fs1) (\<lambda>path fs2. (finish fs2, fs2)))"

section \<open>Properties of the cron matcher\<close>

lemmas cron_eval =
  parse_simple_cron_def split_def strip_def is_space_def time_fields_def startswith_def
  py_int_def int_unsigned_def split_on_def is_digit_def digits_val_def digit_val_def
  cron_weekday_def weekday_def read_field_def

lemma int_items_Some: "all_some (map py_int xs) = Some ns \<Longrightarrow> int_items xs = Inr ns"
  by (induction xs arbitrary: ns) (auto split: option.splits sum.splits)

lemma int_items_None:
  "all_some (map py_int xs) = None \<Longrightarrow> \<exists>x. int_items xs = Inl (InvalidIntLiteral x)"
  by (induction xs) (auto split: option.splits sum.splits)

lemma int_items_not_format: "int_items xs \<noteq> Inl (InvalidCronFormat m)"
  by (induction xs) (auto split: option.splits sum.splits)

lemma match_fields_not_format: "match_fields xs \<noteq> Inl (InvalidCronFormat m)"
  by (induction xs rule: match_fields.induct)
     (auto simp: int_items_not_format split: option.splits sum.splits)

text \<open>A field of one of the four forms, with a step that is not zero, is decided by
  \<open>field_matches\<close>; the loop goes on only if it matches.\<close>

lemma match_fields_step:
  assumes "read_field p = Some f" and "step_ok f"
  shows "match_fields ((v, p) # rest) =
    (if field_matches f v then match_fields rest else Inr False)"
  using assms
  by (cases f)
     (auto simp: read_field_def int_items_Some split: if_splits option.splits sum.splits)

lemma match_fields_unsupported:
  assumes "read_field p = None"
  shows "\<exists>x. match_fields ((v, p) # rest) = Inl (InvalidIntLiteral x)"
  using assms int_items_None [of "split_on (CHR '','') p"]
  by (auto simp: read_field_def split: if_splits option.splits sum.splits)

lemma match_fields_supported:
  "map read_field ps = map Some fs \<Longrightarrow> list_all step_ok fs \<Longrightarrow> length vs = length ps \<Longrightarrow>
   match_fields (zip vs ps) = Inr (list_all2 field_matches fs vs)"
proof (induction ps arbitrary: fs vs)
  case Nil
  then show ?case by simp
next
  case (Cons p ps)
  from Cons.prems obtain f fs' where fs: "fs = f # fs'" by (cases fs) auto
  from Cons.prems obtain v vs' where vs: "vs = v # vs'" by (cases vs) auto
  from Cons.prems fs have rf: "read_field p = Some f" and ok: "step_ok f" by auto
  from Cons.prems fs vs
  have IH: "match_fields (zip vs' ps) = Inr (list_all2 field_matches fs' vs')"
    by (intro Cons.IH) auto
  show ?case unfolding fs vs using match_fields_step [OF rf ok] IH by simp
qed

text \<open>Fields that pass are skipped: the result is that of the remaining fields.\<close>

lemma match_fields_passed:
  "list_all2 passes pre vpre \<Longrightarrow>
   match_fields (zip (vpre @ vs) (pre @ ps)) = match_fields (zip vs ps)"
proof (induction pre arbitrary: vpre)
  case Nil
  then show ?case by simp
next
  case (Cons p pre)
  then obtain v vpre' where v: "vpre = v # vpre'" and p: "passes p v"
    and rest: "list_all2 passes pre vpre'"
    by (auto simp: list_all2_Cons1)
  from p obtain f where f: "read_field p = Some f" "step_ok f" "field_matches f v"
    by (auto simp: passes_def split: option.splits)
  show ?case
    unfolding v using match_fields_step [OF f(1) f(2)] f(3) Cons.IH [OF rest] by simp
qed

lemma parse_format_error_iff:
  "(\<exists>m. parse_simple_cron cron_str now = Inl (InvalidCronFormat m)) =
   (length (split (strip cron_str)) \<noteq> 5)"
  by (auto simp: parse_simple_cron_def Let_def match_fields_not_format)

lemma every_15: "parse_simple_cron ''*/15 * * * *'' now = Inr (minute now mod 15 = 0)"
  by (simp add: cron_eval)

text \<open>
  Claim C4, as amended. The matcher raises the format error exactly when the expression
  does not split into five fields. For an expression of five fields that each have one of
  the four forms (\<open>*\<close>, \<open>*/N\<close> with an integer \<open>N\<close> other than zero, a comma-separated
  list of integers, an integer), the result is a truth value, and it is true exactly when
  every field matches its time component: \<open>*\<close> always, \<open>*/N\<close> when the value is
  divisible by \<open>N\<close>, a list when the value is a member, an integer on equality. In
  particular \<open>*/15 * * * *\<close> matches exactly the minutes divisible by 15.
\<close>

theorem cron_matcher_contract:
  "((\<exists>m. parse_simple_cron cron_str now = Inl (InvalidCronFormat m)) =
      (length (split (strip cron_str)) \<noteq> 5))
   \<and> (length (split (strip cron_str)) = 5
        \<and> map read_field (split (strip cron_str)) = map Some fs
        \<and> list_all step_ok fs
      \<longrightarrow> parse_simple_cron cron_str now =
            Inr (list_all2 field_matches fs (time_fields now)))
   \<and> parse_simple_cron ''*/15 * * * *'' now = Inr (minute now mod 15 = 0)"
proof (intro conjI impI)
  show "(\<exists>m. parse_simple_cron cron_str now = Inl (InvalidCronFormat m)) =
      (length (split (strip cron_str)) \<noteq> 5)"
    by (rule parse_format_error_iff)
next
  assume a: "length (split (strip cron_str)) = 5
        \<and> map read_field (split (strip cron_str)) = map Some fs
        \<and> list_all step_ok fs"
  then have "match_fields (zip (time_fields now) (split (strip cron_str))) =
      Inr (list_all2 field_matches fs (time_fields now))"
    by (intro match_fields_supported) (simp_all add: time_fields_def)
  with a show "parse_simple_cron cron_str now =
      Inr (list_all2 field_matches fs (time_fields now))"
    by (simp add: parse_simple_cron_def)
next
  show "parse_simple_cron ''*/15 * * * *'' now = Inr (minute now mod 15 = 0)"
    by (rule every_15)
qed

theorem cron_matcher_contract_witness:
  "length (split (strip ''*/15 0,9 * * 1'')) = 5
   \<and> map read_field (split (strip ''*/15 0,9 * * 1'')) =
       map Some [Every 15, OneOf [0, 9], Any, Any, Exactly 1]
   \<and> list_all step_ok [Every 15, OneOf [0, 9], Any, Any, Exactly 1]
   \<and> parse_simple_cron ''*/15 0,9 * * 1'' (monday_jan_2024 8 9 30 0) = Inr True
   \<and> parse_simple_cron ''*/15 0,9 * * 1'' (monday_jan_2024 8 9 31 0) = Inr False"
proof -
  have h: "length (split (strip ''*/15 0,9 * * 1'')) = 5
   \<and> map read_field (split (strip ''*/15 0,9 * * 1'')) =
       map Some [Every 15, OneOf [0, 9], Any, Any, Exactly 1]
   \<and> list_all step_ok [Every 15, OneOf [0, 9], Any, Any, Exactly 1]"
    by (simp add: cron_eval)
  from h cron_matcher_contract [of "''*/15 0,9 * * 1''" "monday_jan_2024 8 9 30 0"
      "[Every 15, OneOf [0, 9], Any, Any, Exactly 1]"]
    cron_matcher_contract [of "''*/15 0,9 * * 1''" "monday_jan_2024 8 9 31 0"
      "[Every 15, OneOf [0, 9], Any, Any, Exactly 1]"]
  show ?thesis
    by (simp add: time_fields_def monday_jan_2024_def cron_weekday_def weekday_def)
qed

text \<open>
  The claim C4 as first stated promises a truth value for every expression of five fields.
  A step of zero is a field of the form \<open>*/N\<close>, and the matcher divides by it.
\<close>

theorem cron_step_zero_counterexample:
  "length (split (strip ''*/0 * * * *'')) = 5
   \<and> parse_simple_cron ''*/0 * * * *'' (monday_jan_2024 1 9 0 0) = Inl ZeroDivisionError"
  by (simp add: cron_eval monday_jan_2024_def)

text \<open>
  Claim C5. The day-of-week field is compared with the day numbered as cron does, Sunday
  0 to Saturday 6, whatever the day; so \<open>0 9 * * 1\<close> matches exactly at minute 0 of hour
  9 on a Monday.
\<close>

theorem weekday_remap:
  "cron_weekday now = cron_dow (wday now)
   \<and> parse_simple_cron ''0 9 * * 1'' now =
       Inr (minute now = 0 \<and> hour now = 9 \<and> wday now = Monday)"
  by (cases "wday now") (simp_all add: cron_eval)

text \<open>
  Claim C10, as amended. In an expression of five fields, let a token have none of the
  four forms. If every field before it passes, the matcher raises the error of the
  integer conversion. If a field before it has one of the four forms and does not match,
  while the fields before that one pass, the matcher returns false and never converts
  the token.
\<close>

theorem unsupported_token_reached:
  assumes "split (strip cron_str) = pre @ tok # post"
    and "length (pre @ tok # post) = 5"
    and "read_field tok = None"
  shows "(list_all2 passes pre (take (length pre) (time_fields now))
          \<longrightarrow> (\<exists>x. parse_simple_cron cron_str now = Inl (InvalidIntLiteral x)))
       \<and> (pre = pre1 @ p # pre2
          \<and> list_all2 passes pre1 (take (length pre1) (time_fields now))
          \<and> read_field p = Some f \<and> step_ok f
          \<and> \<not> field_matches f (time_fields now ! length pre1)
          \<longrightarrow> parse_simple_cron cron_str now = Inr False)"
proof (intro conjI impI)
  let ?vs = "time_fields now"
  have len: "length ?vs = 5" by (simp add: time_fields_def)
  assume pass: "list_all2 passes pre (take (length pre) ?vs)"
  have lp: "length pre < 5" using assms(2) by simp
  have vs: "?vs = take (length pre) ?vs @ (?vs ! length pre) # drop (Suc (length pre)) ?vs"
    using lp len by (simp add: id_take_nth_drop)
  have "match_fields (zip ?vs (pre @ tok # post)) =
      match_fields (zip ((?vs ! length pre) # drop (Suc (length pre)) ?vs) (tok # post))"
    using match_fields_passed [OF pass, of "(?vs ! length pre) # drop (Suc (length pre)) ?vs" "tok # post"]
      vs by simp
  moreover obtain x where "match_fields (((?vs ! length pre), tok) # zip (drop (Suc (length pre)) ?vs) post)
      = Inl (InvalidIntLiteral x)"
    using match_fields_unsupported [OF assms(3)] by blast
  ultimately show "\<exists>x. parse_simple_cron cron_str now = Inl (InvalidIntLiteral x)"
    using assms(1,2) by (simp add: parse_simple_cron_def)
next
  let ?vs = "time_fields now"
  have len: "length ?vs = 5" by (simp add: time_fields_def)
  assume a: "pre = pre1 @ p # pre2
          \<and> list_all2 passes pre1 (take (length pre1) (time_fields now))
          \<and> read_field p = Some f \<and> step_ok f
          \<and> \<not> field_matches f (time_fields now ! length pre1)"
  then have pass: "list_all2 passes pre1 (take (length pre1) ?vs)" by simp
  have lp: "length pre1 < 5" using assms(2) a by simp
  have vs: "?vs = take (length pre1) ?vs @ (?vs ! length pre1) # drop (Suc (length pre1)) ?vs"
    using lp len by (simp add: id_take_nth_drop)
  have "match_fields (zip ?vs (pre1 @ p # pre2 @ tok # post)) =
      match_fields (zip ((?vs ! length pre1) # drop (Suc (length pre1)) ?vs) (p # pre2 @ tok # post))"
    using match_fields_passed [OF pass, of "(?vs ! length pre1) # drop (Suc (length pre1)) ?vs" "p # pre2 @ tok # post"]
      vs by simp
  also have "\<dots> = Inr False"
    using a match_fields_step [of p f] by simp
  finally show "parse_simple_cron cron_str now = Inr False"
    using assms(1,2) a by (simp add: parse_simple_cron_def)
qed

theorem unsupported_token_reached_witness:
  "split (strip ''0 1-5 * * *'') = [''0''] @ ''1-5'' # [''*'', ''*'', ''*'']
   \<and> read_field ''1-5'' = None
   \<and> list_all2 passes [''0''] (take (length [''0'']) (time_fields (monday_jan_2024 1 9 0 0)))
   \<and> (\<exists>x. parse_simple_cron ''0 1-5 * * *'' (monday_jan_2024 1 9 0 0) = Inl (InvalidIntLiteral x))
   \<and> read_field ''0'' = Some (Exactly 0) \<and> step_ok (Exactly 0)
   \<and> \<not> field_matches (Exactly 0) (time_fields (monday_jan_2024 1 9 30 0) ! length ([] :: string list))
   \<and> parse_simple_cron ''0 1-5 * * *'' (monday_jan_2024 1 9 30 0) = Inr False"
proof -
  have s: "split (strip ''0 1-5 * * *'') = [''0''] @ ''1-5'' # [''*'', ''*'', ''*'']"
    by (simp add: cron_eval)
  have l: "length ([''0''] @ ''1-5'' # [''*'', ''*'', ''*'']) = 5" by simp
  have u: "read_field ''1-5'' = None" by (simp add: cron_eval)
  have p: "list_all2 passes [''0''] (take (length [''0'']) (time_fields (monday_jan_2024 1 9 0 0)))"
    by (simp add: passes_def cron_eval monday_jan_2024_def)
  have r: "read_field ''0'' = Some (Exactly 0) \<and> step_ok (Exactly 0)"
    by (simp add: cron_eval)
  have n: "\<not> field_matches (Exactly 0) (time_fields (monday_jan_2024 1 9 30 0) ! length ([] :: string list))"
    by (simp add: time_fields_def monday_jan_2024_def)
  from unsupported_token_reached [OF s l u, where now = "monday_jan_2024 1 9 0 0"] p
  have a: "\<exists>x. parse_simple_cron ''0 1-5 * * *'' (monday_jan_2024 1 9 0 0) = Inl (InvalidIntLiteral x)"
    by blast
  from unsupported_token_reached [OF s l u, where now = "monday_jan_2024 1 9 30 0"
      and ?pre1.0 = "[]" and p = "''0''" and ?pre2.0 = "[]" and f = "Exactly 0"] r n
  have b: "parse_simple_cron ''0 1-5 * * *'' (monday_jan_2024 1 9 30 0) = Inr False"
    by simp
  from s u p a r n b show ?thesis by blast
qed

text \<open>
  The claim C10 as first stated has the error raised wherever the token stands. The range
  \<open>1-5\<close> in the hour field is not looked at when the minute field has not matched.
\<close>

theorem unsupported_token_counterexample:
  "length (split (strip ''0 1-5 * * *'')) = 5
   \<and> read_field ''1-5'' = None
   \<and> parse_simple_cron ''0 1-5 * * *'' (monday_jan_2024 1 9 30 0) = Inr False"
  by (simp add: cron_eval monday_jan_2024_def)

section \<open>Properties of the polling loop\<close>

text \<open>
  An iteration in the minute of the day of the last run changes nothing, and neither does
  an iteration at a time that does not match.
\<close>

lemma iteration_same_minute:
  "current_minute (main_now r) = last_run_minute st \<Longrightarrow> iteration cron r st = Inr st"
  by (simp add: iteration_def)

lemma iteration_no_match:
  "parse_simple_cron cron (cron_now r) = Inr False \<Longrightarrow> iteration cron r st = Inr st"
  by (simp add: iteration_def)

lemma monday_9_only:
  "parse_simple_cron ''0 9 * * 1'' now =
     Inr (minute now = 0 \<and> hour now = 9 \<and> wday now = Monday)"
  by (cases "wday now") (simp_all add: cron_eval)

lemma default_schedule_never_again:
  "list_all (\<lambda>r. cron_now r = main_now r) rs \<Longrightarrow> last_run_minute st = 540 \<Longrightarrow>
   scheduler_loop ''0 9 * * 1'' rs st = Inr st"
proof (induction rs)
  case Nil
  then show ?case by simp
next
  case (Cons r rs)
  have "iteration ''0 9 * * 1'' r st = Inr st"
  proof (cases "minute (main_now r) = 0 \<and> hour (main_now r) = 9 \<and> wday (main_now r) = Monday")
    case True
    with Cons.prems show ?thesis
      by (intro iteration_same_minute) (simp add: current_minute_def)
  next
    case False
    with Cons.prems show ?thesis
      by (intro iteration_no_match) (simp add: monday_9_only)
  qed
  with Cons show ?case by simp
qed

text \<open>
  Claim C1 asks that a matching minute is never skipped, the same minute of the day on a
  later day included. The loop remembers the minute of the day only. With the schedule
  \<open>0 9 * * 1\<close>, polled every 30 seconds: the first Monday's 09:00 starts one run; the
  iterations up to the next Monday keep the state (\<open>default_schedule_never_again\<close>);
  the next Monday's 09:00 matches, and no iteration in it starts a run.
\<close>

theorem scheduler_skips_next_monday:
  "scheduler_loop ''0 9 * * 1''
     [poll_at (monday_jan_2024 1 8 59 45), poll_at (monday_jan_2024 1 9 0 15),
      poll_at (monday_jan_2024 1 9 0 45), poll_at (monday_jan_2024 1 9 1 15)]
     initial_state
   = Inr \<lparr>last_run_minute = 540, runs = [monday_jan_2024 1 9 0 15]\<rparr>
   \<and> parse_simple_cron ''0 9 * * 1'' (monday_jan_2024 8 9 0 15) = Inr True
   \<and> scheduler_loop ''0 9 * * 1''
     [poll_at (monday_jan_2024 8 8 59 45), poll_at (monday_jan_2024 8 9 0 15),
      poll_at (monday_jan_2024 8 9 0 45), poll_at (monday_jan_2024 8 9 1 15)]
     \<lparr>last_run_minute = 540, runs = [monday_jan_2024 1 9 0 15]\<rparr>
   = Inr \<lparr>last_run_minute = 540, runs = [monday_jan_2024 1 9 0 15]\<rparr>"
  by (simp add: iteration_def poll_at_def monday_jan_2024_def current_minute_def
      initial_state_def monday_9_only)

section \<open>Properties of the fetch stage\<close>

text \<open>One round of the polling loop, by what the status poll reports.\<close>

lemma poll_loop_running:
  assumes "still_running api key eid k" "waited < max_wait" "0 \<le> poll_interval"
  shows "poll_loop api key eid poll_interval max_wait waited k =
         poll_loop api key eid poll_interval max_wait (waited + poll_interval) (Suc k)"
proof -
  from assms(1) obtain status where st: "get_execution_status api key eid k = Inr status"
    and nf: "\<not> final_state (fst status)"
    by (auto simp: still_running_def split: sum.splits)
  from nf have "fst status \<noteq> ''QUERY_STATE_COMPLETED''" "fst status \<noteq> ''QUERY_STATE_FAILED''"
    "fst status \<noteq> ''QUERY_STATE_CANCELLED''"
    unfolding final_state_def by blast+
  with st assms(2,3) show ?thesis
    by (subst poll_loop.simps) (simp del: list.inject)
qed


lemma poll_loop_expired:
  "\<not> waited < max_wait \<Longrightarrow>
   poll_loop api key eid poll_interval max_wait waited k = Some (Inl TimeoutError)"
  by (subst poll_loop.simps) simp

lemma poll_loop_status_error:
  assumes "get_execution_status api key eid k = Inl e" "waited < max_wait" "0 \<le> poll_interval"
  shows "poll_loop api key eid poll_interval max_wait waited k = Some (Inl e)"
  using assms by (subst poll_loop.simps) simp

lemma poll_loop_completed:
  assumes "get_execution_status api key eid k = Inr status"
    and "fst status = ''QUERY_STATE_COMPLETED''" "waited < max_wait" "0 \<le> poll_interval"
  shows "poll_loop api key eid poll_interval max_wait waited k =
    Some (case get_execution_results api key eid of
            Inl e \<Rightarrow> Inl e | Inr rows \<Rightarrow> Inr (rows_frame rows))"
  using assms by (subst poll_loop.simps) (simp split: sum.splits)

lemma poll_loop_failed:
  assumes "get_execution_status api key eid k = Inr status"
    and "fst status = ''QUERY_STATE_FAILED'' \<or> fst status = ''QUERY_STATE_CANCELLED''"
    and "waited < max_wait" "0 \<le> poll_interval"
  shows "poll_loop api key eid poll_interval max_wait waited k =
    Some (Inl (QueryFailed (case snd status of None \<Rightarrow> ''Unknown error'' | Some msg \<Rightarrow> msg)))"
proof -
  from assms(2) have "fst status \<noteq> ''QUERY_STATE_COMPLETED''" by auto
  with assms show ?thesis by (subst poll_loop.simps) (simp del: list.inject)
qed

lemma poll_loop_returns:
  assumes "0 < poll_interval"
  shows "\<exists>r. poll_loop api key eid poll_interval max_wait waited k = Some r"
proof (induction "nat (max_wait - waited)" arbitrary: waited k rule: less_induct)
  case less
  show ?case
  proof (cases "waited < max_wait")
    case False
    then show ?thesis by (simp add: poll_loop_expired)
  next
    case True
    show ?thesis
    proof (cases "still_running api key eid k")
      case True
      from \<open>waited < max_wait\<close> assms
      have "nat (max_wait - (waited + poll_interval)) < nat (max_wait - waited)" by simp
      from less [OF this] poll_loop_running [OF True \<open>waited < max_wait\<close>] assms
      show ?thesis by simp
    next
      case False
      show ?thesis
      proof (cases "get_execution_status api key eid k")
        case (Inl e)
        with \<open>waited < max_wait\<close> assms show ?thesis by (simp add: poll_loop_status_error)
      next
        case (Inr status)
        with False have "final_state (fst status)" by (simp add: still_running_def)
        then consider "fst status = ''QUERY_STATE_COMPLETED''"
          | "fst status = ''QUERY_STATE_FAILED'' \<or> fst status = ''QUERY_STATE_CANCELLED''"
          unfolding final_state_def by blast
        then show ?thesis
        proof cases
          case 1
          from poll_loop_completed [OF Inr 1 \<open>waited < max_wait\<close>] assms show ?thesis by simp
        next
          case 2
          from poll_loop_failed [OF Inr 2 \<open>waited < max_wait\<close>] assms show ?thesis by simp
        qed
      qed
    qed
  qed
qed

lemma poll_loop_skip:
  assumes "0 < poll_interval"
    and "\<forall>j<n. still_running api key eid (k + j)"
    and "n = 0 \<or> waited + int (n - 1) * poll_interval < max_wait"
  shows "poll_loop api key eid poll_interval max_wait waited k =
         poll_loop api key eid poll_interval max_wait (waited + int n * poll_interval) (k + n)"
  using assms(2,3)
proof (induction n arbitrary: waited k)
  case 0
  then show ?case by simp
next
  case (Suc n)
  from Suc.prems(1) have r0: "still_running api key eid k" by force
  have "0 \<le> int n * poll_interval" using assms(1) by simp
  with Suc.prems(2) have w: "waited < max_wait" by simp
  have "\<forall>j<n. still_running api key eid (Suc k + j)" using Suc.prems(1) by force
  moreover have "n = 0 \<or> (waited + poll_interval) + int (n - 1) * poll_interval < max_wait"
    using Suc.prems(2) by (cases n) (auto simp: algebra_simps)
  ultimately have "poll_loop api key eid poll_interval max_wait (waited + poll_interval) (Suc k) =
     poll_loop api key eid poll_interval max_wait (waited + poll_interval + int n * poll_interval) (Suc k + n)"
    by (rule Suc.IH)
  with poll_loop_running [OF r0 w] assms(1) show ?case by (simp add: algebra_simps)
qed

lemma poll_loop_timeout:
  assumes "0 < poll_interval"
  shows "(\<And>j. waited + int j * poll_interval < max_wait \<Longrightarrow> still_running api key eid (k + j)) \<Longrightarrow>
    poll_loop api key eid poll_interval max_wait waited k = Some (Inl TimeoutError)"
proof (induction "nat (max_wait - waited)" arbitrary: waited k rule: less_induct)
  case less
  show ?case
  proof (cases "waited < max_wait")
    case False
    then show ?thesis by (simp add: poll_loop_expired)
  next
    case True
    with less.prems [of 0] have r0: "still_running api key eid k" by simp
    from True assms have m: "nat (max_wait - (waited + poll_interval)) < nat (max_wait - waited)"
      by simp
    have "poll_loop api key eid poll_interval max_wait (waited + poll_interval) (Suc k) = Some (Inl TimeoutError)"
    proof (rule less.hyps [OF m])
      fix j assume "waited + poll_interval + int j * poll_interval < max_wait"
      then have "waited + int (Suc j) * poll_interval < max_wait" by (simp add: algebra_simps)
      from less.prems [OF this] show "still_running api key eid (Suc k + j)" by simp
    qed
    with poll_loop_running [OF r0 True] assms show ?thesis by simp
  qed
qed

text \<open>With a positive interval the polling ends, so the fetch stage always returns.\<close>

lemma execute_sql_returns:
  "0 < poll_interval \<Longrightarrow> \<exists>r. execute_sql api key sql poll_interval max_wait = Some r"
  using poll_loop_returns [of poll_interval]
  by (auto simp: execute_sql_def split: sum.splits option.splits)

lemma execute_custom_returns: "\<exists>r. execute_custom api key cfg name = Some r"
  using execute_sql_returns [of 2]
  by (auto simp: execute_custom_def split: option.splits)

lemma fetch_dashboards_dom:
  "dom (fetch_dashboards api key qs rd) = dom rd \<union> fst ` set qs"
proof (induction qs arbitrary: rd)
  case Nil
  then show ?case by simp
next
  case (Cons q qs)
  obtain n i where q: "q = (n, i)" by (cases q)
  let ?rd = "rd(n \<mapsto> Frame (or_empty (get_latest_result api key i)))"
  have "dom (fetch_dashboards api key (q # qs) rd) = dom (fetch_dashboards api key qs ?rd)"
    using q by simp
  also have "\<dots> = dom ?rd \<union> fst ` set qs" by (rule Cons.IH)
  also have "\<dots> = dom rd \<union> fst ` set (q # qs)" using q by auto
  finally show ?case .
qed

lemma fetch_dashboards_other:
  "name \<notin> fst ` set qs \<Longrightarrow> fetch_dashboards api key qs rd name = rd name"
proof (induction qs arbitrary: rd)
  case Nil
  then show ?case by simp
next
  case (Cons q qs)
  obtain n i where q: "q = (n, i)" by (cases q)
  let ?rd = "rd(n \<mapsto> Frame (or_empty (get_latest_result api key i)))"
  from Cons.prems q have "name \<noteq> n" and "name \<notin> fst ` set qs" by auto
  then have "fetch_dashboards api key qs ?rd name = ?rd name" using Cons.IH by blast
  with q \<open>name \<noteq> n\<close> show ?case by simp
qed

lemma fetch_dashboards_entry:
  "distinct (map fst qs) \<Longrightarrow> (name, qid) \<in> set qs \<Longrightarrow>
   fetch_dashboards api key qs rd name = Some (Frame (or_empty (get_latest_result api key qid)))"
proof (induction qs arbitrary: rd)
  case Nil
  then show ?case by simp
next
  case (Cons q qs)
  obtain n i where q: "q = (n, i)" by (cases q)
  show ?case
  proof (cases "(name, qid) = q")
    case True
    with Cons.prems q have "name \<notin> fst ` set qs" by auto
    with True q show ?thesis by (simp add: fetch_dashboards_other)
  next
    case False
    with Cons q show ?thesis by auto
  qed
qed

lemma fetch_dashboards_frames:
  "(\<And>k e. rd k = Some e \<Longrightarrow> \<exists>df. e = Frame df) \<Longrightarrow>
   fetch_dashboards api key qs rd k = Some e \<Longrightarrow> \<exists>df. e = Frame df"
proof (induction qs arbitrary: rd)
  case Nil
  then show ?case by simp
next
  case (Cons q qs)
  obtain n i where q: "q = (n, i)" by (cases q)
  show ?case
  proof (rule Cons.IH [of "rd(n \<mapsto> Frame (or_empty (get_latest_result api key i)))"])
    fix k' e' assume "(rd(n \<mapsto> Frame (or_empty (get_latest_result api key i)))) k' = Some e'"
    then show "\<exists>df. e' = Frame df" using Cons.prems(1) [of k' e'] by (auto split: if_splits)
  next
    from Cons.prems(2) q
    show "fetch_dashboards api key qs (rd(n \<mapsto> Frame (or_empty (get_latest_result api key i)))) k = Some e"
      by simp
  qed
qed

text \<open>What the stage returns, given the outcomes of the four ad-hoc queries.\<close>

lemma fetch_all_report_data_eq:
  assumes "execute_custom api key cfg ''weekly_liquidation_summary'' = Some r1"
    and "execute_custom api key cfg ''daily_liquidations_7d'' = Some r2"
    and "execute_custom api key cfg ''weekly_liquidations_by_chain'' = Some r3"
    and "execute_custom api key cfg ''weekly_bad_debt_by_chain'' = Some r4"
  shows "fetch_all_report_data api key cfg =
    Some (fetch_dashboards api key (QUERY_IDS cfg)
      (Map.empty
        (''weekly_summary'' \<mapsto> Frame (or_empty r1),
         ''daily_liquidations'' \<mapsto> Frame (or_empty r2),
         ''liquidations_by_chain'' \<mapsto> Frame (or_empty r3),
         ''bad_debt_by_chain'' \<mapsto> Frame (or_empty r4))))"
  unfolding fetch_all_report_data_def using assms by simp

text \<open>The four entries that the stage writes before the dashboard queries.\<close>

lemma base_dom:
  "dom (Map.empty
        (''weekly_summary'' \<mapsto> a,
         ''daily_liquidations'' \<mapsto> b,
         ''liquidations_by_chain'' \<mapsto> c,
         ''bad_debt_by_chain'' \<mapsto> d)) =
   {''weekly_summary'', ''daily_liquidations'', ''liquidations_by_chain'', ''bad_debt_by_chain''}"
  by (simp add: insert_commute)

lemma custom_keys_cases:
  assumes "(name, q) \<in> set custom_keys"
  obtains "name = ''weekly_summary''" "q = ''weekly_liquidation_summary''"
  | "name = ''daily_liquidations''" "q = ''daily_liquidations_7d''"
  | "name = ''liquidations_by_chain''" "q = ''weekly_liquidations_by_chain''"
  | "name = ''bad_debt_by_chain''" "q = ''weekly_bad_debt_by_chain''"
proof -
  from assms have
    "(name = ''weekly_summary'' \<and> q = ''weekly_liquidation_summary'')
     \<or> (name = ''daily_liquidations'' \<and> q = ''daily_liquidations_7d'')
     \<or> (name = ''liquidations_by_chain'' \<and> q = ''weekly_liquidations_by_chain'')
     \<or> (name = ''bad_debt_by_chain'' \<and> q = ''weekly_bad_debt_by_chain'')"
    unfolding custom_keys_def by simp
  then show thesis
    by (elim disjE conjE) (rule that; assumption)+
qed

lemma base_custom:
  assumes "(name, q) \<in> set custom_keys"
    and r: "execute_custom api key cfg ''weekly_liquidation_summary'' = Some r1"
      "execute_custom api key cfg ''daily_liquidations_7d'' = Some r2"
      "execute_custom api key cfg ''weekly_liquidations_by_chain'' = Some r3"
      "execute_custom api key cfg ''weekly_bad_debt_by_chain'' = Some r4"
    and e: "execute_custom api key cfg q = Some (Inl e)"
  shows "(Map.empty
        (''weekly_summary'' \<mapsto> Frame (or_empty r1),
         ''daily_liquidations'' \<mapsto> Frame (or_empty r2),
         ''liquidations_by_chain'' \<mapsto> Frame (or_empty r3),
         ''bad_debt_by_chain'' \<mapsto> Frame (or_empty r4))) name = Some (Frame [])"
  using assms(1)
proof (cases rule: custom_keys_cases)
  case 1
  with r e have "r1 = Inl e" by simp
  with 1 show ?thesis by (simp add: or_empty_def)
next
  case 2
  with r e have "r2 = Inl e" by simp
  with 2 show ?thesis by (simp add: or_empty_def)
next
  case 3
  with r e have "r3 = Inl e" by simp
  with 3 show ?thesis by (simp add: or_empty_def)
next
  case 4
  with r e have "r4 = Inl e" by simp
  with 4 show ?thesis by (simp add: or_empty_def)
qed

lemma base_frames:
  assumes "(Map.empty
        (''weekly_summary'' \<mapsto> Frame a,
         ''daily_liquidations'' \<mapsto> Frame b,
         ''liquidations_by_chain'' \<mapsto> Frame c,
         ''bad_debt_by_chain'' \<mapsto> Frame d)) k = Some e"
  shows "\<exists>df. e = Frame df"
proof -
  from assms have "e = Frame a \<or> e = Frame b \<or> e = Frame c \<or> e = Frame d"
    by (simp del: list.inject split: if_splits)
  then show ?thesis by blast
qed

lemma fetch_stage:
  "\<exists>rd. fetch_all_report_data api key cfg = Some rd
     \<and> {''weekly_summary'', ''daily_liquidations'', ''liquidations_by_chain'',
         ''bad_debt_by_chain''} \<union> fst ` set (QUERY_IDS cfg) \<subseteq> dom rd
     \<and> (\<forall>k e. rd k = Some e \<longrightarrow> (\<exists>df. e = Frame df))
     \<and> (\<forall>name q e. (name, q) \<in> set custom_keys \<and> name \<notin> fst ` set (QUERY_IDS cfg)
            \<and> execute_custom api key cfg q = Some (Inl e)
          \<longrightarrow> rd name = Some (Frame []))
     \<and> (\<forall>name qid e. distinct (map fst (QUERY_IDS cfg)) \<and> (name, qid) \<in> set (QUERY_IDS cfg)
            \<and> get_latest_result api key qid = Inl e
          \<longrightarrow> rd name = Some (Frame []))"
proof -
  obtain r1 r2 r3 r4 where
    r: "execute_custom api key cfg ''weekly_liquidation_summary'' = Some r1"
      "execute_custom api key cfg ''daily_liquidations_7d'' = Some r2"
      "execute_custom api key cfg ''weekly_liquidations_by_chain'' = Some r3"
      "execute_custom api key cfg ''weekly_bad_debt_by_chain'' = Some r4"
    using execute_custom_returns by metis
  let ?base = "Map.empty
        (''weekly_summary'' \<mapsto> Frame (or_empty r1),
         ''daily_liquidations'' \<mapsto> Frame (or_empty r2),
         ''liquidations_by_chain'' \<mapsto> Frame (or_empty r3),
         ''bad_debt_by_chain'' \<mapsto> Frame (or_empty r4))"
  let ?rd = "fetch_dashboards api key (QUERY_IDS cfg) ?base"
  have eq: "fetch_all_report_data api key cfg = Some ?rd"
    by (rule fetch_all_report_data_eq [OF r])
  have keys: "{''weekly_summary'', ''daily_liquidations'', ''liquidations_by_chain'',
         ''bad_debt_by_chain''} \<union> fst ` set (QUERY_IDS cfg) \<subseteq> dom ?rd"
    unfolding fetch_dashboards_dom base_dom by blast
  have frames: "\<forall>k e. ?rd k = Some e \<longrightarrow> (\<exists>df. e = Frame df)"
    using fetch_dashboards_frames [of ?base api key "QUERY_IDS cfg"] base_frames by blast
  have custom: "\<forall>name q e. (name, q) \<in> set custom_keys \<and> name \<notin> fst ` set (QUERY_IDS cfg)
            \<and> execute_custom api key cfg q = Some (Inl e)
          \<longrightarrow> ?rd name = Some (Frame [])"
  proof (intro allI impI)
    fix name q e
    assume a: "(name, q) \<in> set custom_keys \<and> name \<notin> fst ` set (QUERY_IDS cfg)
            \<and> execute_custom api key cfg q = Some (Inl e)"
    from a have m: "(name, q) \<in> set custom_keys" and n: "name \<notin> fst ` set (QUERY_IDS cfg)"
      and e: "execute_custom api key cfg q = Some (Inl e)" by blast+
    have "?rd name = ?base name" by (rule fetch_dashboards_other [OF n])
    also have "\<dots> = Some (Frame [])" by (rule base_custom [OF m r e])
    finally show "?rd name = Some (Frame [])" .
  qed
  have dash: "\<forall>name qid e. distinct (map fst (QUERY_IDS cfg)) \<and> (name, qid) \<in> set (QUERY_IDS cfg)
            \<and> get_latest_result api key qid = Inl e
          \<longrightarrow> ?rd name = Some (Frame [])"
  proof (intro allI impI)
    fix name qid e
    assume a: "distinct (map fst (QUERY_IDS cfg)) \<and> (name, qid) \<in> set (QUERY_IDS cfg)
            \<and> get_latest_result api key qid = Inl e"
    then have "?rd name = Some (Frame (or_empty (get_latest_result api key qid)))"
      by (intro fetch_dashboards_entry) blast+
    with a show "?rd name = Some (Frame [])" by (simp add: or_empty_def)
  qed
  from eq keys frames custom dash show ?thesis by blast
qed

lemma rejecting_custom:
  "execute_custom rejecting_api ''k'' morpho_config ''weekly_liquidation_summary'' =
     Some (Inl (HTTPError 401))"
  by (simp add: execute_custom_def morpho_config_def execute_sql_def rejecting_api_def)

text \<open>
  Claim C3. The live fetch stage always returns, and what it returns has every expected
  key: the four keys of the ad-hoc queries and every key of the dashboard queries, each
  with a table. Where the fetch of one key raises, its table is the empty one. (A
  dashboard query named like another key overwrites that key; the keys of a dictionary
  are distinct.)
\<close>

theorem fetch_stage_keys:
  "\<exists>rd. fetch_all_report_data api key cfg = Some rd
     \<and> {''weekly_summary'', ''daily_liquidations'', ''liquidations_by_chain'',
         ''bad_debt_by_chain''} \<union> fst ` set (QUERY_IDS cfg) \<subseteq> dom rd
     \<and> (\<forall>k e. rd k = Some e \<longrightarrow> (\<exists>df. e = Frame df))
     \<and> (\<forall>name q e. (name, q) \<in> set custom_keys \<and> name \<notin> fst ` set (QUERY_IDS cfg)
            \<and> execute_custom api key cfg q = Some (Inl e)
          \<longrightarrow> rd name = Some (Frame []))
     \<and> (\<forall>name qid e. distinct (map fst (QUERY_IDS cfg)) \<and> (name, qid) \<in> set (QUERY_IDS cfg)
            \<and> get_latest_result api key qid = Inl e
          \<longrightarrow> rd name = Some (Frame []))"
  by (rule fetch_stage)

theorem fetch_stage_keys_witness:
  "(''weekly_summary'', ''weekly_liquidation_summary'') \<in> set custom_keys
   \<and> ''weekly_summary'' \<notin> fst ` set (QUERY_IDS morpho_config)
   \<and> execute_custom rejecting_api ''k'' morpho_config ''weekly_liquidation_summary'' =
       Some (Inl (HTTPError 401))
   \<and> distinct (map fst (QUERY_IDS morpho_config))
   \<and> (''unrealized_bad_debt'', 6015286) \<in> set (QUERY_IDS morpho_config)
   \<and> get_latest_result rejecting_api ''k'' 6015286 = Inl (HTTPError 401)
   \<and> (\<exists>rd. fetch_all_report_data rejecting_api ''k'' morpho_config = Some rd
         \<and> rd ''weekly_summary'' = Some (Frame [])
         \<and> rd ''unrealized_bad_debt'' = Some (Frame [])
         \<and> ''bad_debt_events_24h'' \<in> dom rd)"
proof -
  have c: "(''weekly_summary'', ''weekly_liquidation_summary'') \<in> set custom_keys"
    by (simp add: custom_keys_def)
  have n: "''weekly_summary'' \<notin> fst ` set (QUERY_IDS morpho_config)"
    by (simp add: morpho_config_def)
  have d: "distinct (map fst (QUERY_IDS morpho_config))"
    by (simp add: morpho_config_def)
  have m: "(''unrealized_bad_debt'', 6015286) \<in> set (QUERY_IDS morpho_config)"
    by (simp add: morpho_config_def)
  have b: "''bad_debt_events_24h'' \<in> fst ` set (QUERY_IDS morpho_config)"
    by (simp add: morpho_config_def)
  have g: "get_latest_result rejecting_api ''k'' 6015286 = Inl (HTTPError 401)"
    by (simp add: get_latest_result_def rejecting_api_def)
  from fetch_stage_keys [of rejecting_api "''k''" morpho_config]
  obtain rd where all: "fetch_all_report_data rejecting_api ''k'' morpho_config = Some rd
     \<and> {''weekly_summary'', ''daily_liquidations'', ''liquidations_by_chain'',
         ''bad_debt_by_chain''} \<union> fst ` set (QUERY_IDS morpho_config) \<subseteq> dom rd
     \<and> (\<forall>k e. rd k = Some e \<longrightarrow> (\<exists>df. e = Frame df))
     \<and> (\<forall>name q e. (name, q) \<in> set custom_keys
            \<and> name \<notin> fst ` set (QUERY_IDS morpho_config)
            \<and> execute_custom rejecting_api ''k'' morpho_config q = Some (Inl e)
          \<longrightarrow> rd name = Some (Frame []))
     \<and> (\<forall>name qid e. distinct (map fst (QUERY_IDS morpho_config))
            \<and> (name, qid) \<in> set (QUERY_IDS morpho_config)
            \<and> get_latest_result rejecting_api ''k'' qid = Inl e
          \<longrightarrow> rd name = Some (Frame []))" ..
  from all have rd: "fetch_all_report_data rejecting_api ''k'' morpho_config = Some rd"
    by (rule conjunct1)
  from all have keys: "fst ` set (QUERY_IDS morpho_config) \<subseteq> dom rd"
    by (elim conjE) (rule subset_trans [OF Un_upper2])
  from all have custom: "\<forall>name q e. (name, q) \<in> set custom_keys
            \<and> name \<notin> fst ` set (QUERY_IDS morpho_config)
            \<and> execute_custom rejecting_api ''k'' morpho_config q = Some (Inl e)
          \<longrightarrow> rd name = Some (Frame [])"
    by (elim conjE)
  from all have dash: "\<forall>name qid e. distinct (map fst (QUERY_IDS morpho_config))
            \<and> (name, qid) \<in> set (QUERY_IDS morpho_config)
            \<and> get_latest_result rejecting_api ''k'' qid = Inl e
          \<longrightarrow> rd name = Some (Frame [])"
    by (elim conjE)
  have w: "rd ''weekly_summary'' = Some (Frame [])"
    by (rule custom [rule_format, OF conjI [OF c conjI [OF n rejecting_custom]]])
  have u: "rd ''unrealized_bad_debt'' = Some (Frame [])"
    by (rule dash [rule_format, OF conjI [OF d conjI [OF m g]]])
  from keys b have k: "''bad_debt_events_24h'' \<in> dom rd" by (rule subsetD)
  show ?thesis
    by (intro conjI exI [of _ rd]) (fact c n rejecting_custom d m g rd w u k)+
qed

text \<open>The outcome of \<open>execute_sql\<close> once the query has been started.\<close>

lemma execute_sql_started:
  assumes "post_execute_sql api key sql = Inr (Some eid)" and "eid \<noteq> []"
  shows "execute_sql api key sql poll_interval max_wait =
         poll_loop api key eid poll_interval max_wait 0 0"
  using assms by (simp add: execute_sql_def)

lemma execute_sql_at_poll:
  assumes "post_execute_sql api key sql = Inr (Some eid)" and "eid \<noteq> []"
    and "0 < poll_interval" and "\<forall>j<n. still_running api key eid j"
    and "int n * poll_interval < max_wait"
  shows "execute_sql api key sql poll_interval max_wait =
         poll_loop api key eid poll_interval max_wait (int n * poll_interval) n"
proof -
  have "n = 0 \<or> 0 + int (n - 1) * poll_interval < max_wait"
  proof (cases n)
    case 0
    then show ?thesis by simp
  next
    case (Suc m)
    have "int m * poll_interval \<le> int (Suc m) * poll_interval"
      using assms(3) by (simp add: algebra_simps)
    with assms(5) Suc show ?thesis by simp
  qed
  with poll_loop_skip [OF assms(3), of n api key eid 0 0 max_wait] assms(4)
  have "poll_loop api key eid poll_interval max_wait 0 0 =
        poll_loop api key eid poll_interval max_wait (int n * poll_interval) n"
    by simp
  with execute_sql_started [OF assms(1,2)] show ?thesis by simp
qed

lemma execute_sql_timeout:
  assumes "post_execute_sql api key sql = Inr (Some eid)" and "eid \<noteq> []"
    and "0 < poll_interval" and "\<forall>j<n. still_running api key eid j"
    and "max_wait \<le> int n * poll_interval"
  shows "execute_sql api key sql poll_interval max_wait = Some (Inl TimeoutError)"
proof -
  have "poll_loop api key eid poll_interval max_wait 0 0 = Some (Inl TimeoutError)"
  proof (rule poll_loop_timeout [OF assms(3)])
    fix j assume "0 + int j * poll_interval < max_wait"
    with assms(5) have "int j * poll_interval < int n * poll_interval" by simp
    with assms(3) have "j < n" by (simp add: mult_less_cancel_right)
    with assms(4) show "still_running api key eid (0 + j)" by simp
  qed
  with execute_sql_started [OF assms(1,2)] show ?thesis by simp
qed

lemma scripted_post: "post_execute_sql (scripted_api states rows) key sql = Inr (Some ''x1'')"
  by (simp add: scripted_api_def)

lemma scripted_status:
  "get_execution_status (scripted_api states rows) key eid k =
     Inr (if k < length states then states ! k else ''QUERY_STATE_EXECUTING'', None)"
  by (simp add: scripted_api_def)

lemma scripted_results: "get_execution_results (scripted_api states rows) key eid = Inr rows"
  by (simp add: scripted_api_def)

lemma never_final: "still_running (scripted_api [] rows) key eid j"
  by (simp add: still_running_def scripted_status final_state_def)

text \<open>
  Claim C6. Let the query be started, the interval be positive, and the polls before
  number \<open>n\<close> report no final state, so that polling goes on up to poll \<open>n\<close>. If poll
  \<open>n\<close> is made and reports \<open>QUERY_STATE_COMPLETED\<close>, the call returns the rows of the
  result (or raises what the request for them raises). If it reports
  \<open>QUERY_STATE_FAILED\<close> or \<open>QUERY_STATE_CANCELLED\<close>, the call fails with the query
  error. If the maximum wait is over before poll \<open>n\<close>, the call fails with the timeout
  error; and with the stage's interval of 2 and wait of 120 seconds the fetch stage
  still returns every key, with the empty table for the key of that query.
\<close>

theorem execute_sql_outcomes:
  assumes "post_execute_sql api key sql = Inr (Some eid)" and "eid \<noteq> []"
    and "0 < poll_interval" and "\<forall>j<n. still_running api key eid j"
  shows
    "(int n * poll_interval < max_wait
        \<and> get_execution_status api key eid n = Inr status
        \<and> fst status = ''QUERY_STATE_COMPLETED''
      \<longrightarrow> execute_sql api key sql poll_interval max_wait =
            Some (case get_execution_results api key eid of
                    Inl e \<Rightarrow> Inl e | Inr rows \<Rightarrow> Inr (rows_frame rows)))
   \<and> (int n * poll_interval < max_wait
        \<and> get_execution_status api key eid n = Inr status
        \<and> (fst status = ''QUERY_STATE_FAILED'' \<or> fst status = ''QUERY_STATE_CANCELLED'')
      \<longrightarrow> execute_sql api key sql poll_interval max_wait =
            Some (Inl (QueryFailed
              (case snd status of None \<Rightarrow> ''Unknown error'' | Some msg \<Rightarrow> msg))))
   \<and> (max_wait \<le> int n * poll_interval
      \<longrightarrow> execute_sql api key sql poll_interval max_wait = Some (Inl TimeoutError))
   \<and> (poll_interval = 2 \<and> 120 \<le> int n * poll_interval
        \<and> (name, q) \<in> set custom_keys \<and> map_of (CUSTOM_QUERIES cfg) q = Some sql
        \<and> name \<notin> fst ` set (QUERY_IDS cfg)
      \<longrightarrow> (\<exists>rd. fetch_all_report_data api key cfg = Some rd
             \<and> rd name = Some (Frame [])
             \<and> {''weekly_summary'', ''daily_liquidations'', ''liquidations_by_chain'',
                 ''bad_debt_by_chain''} \<union> fst ` set (QUERY_IDS cfg) \<subseteq> dom rd))"
proof (intro conjI impI)
  assume a: "int n * poll_interval < max_wait
        \<and> get_execution_status api key eid n = Inr status
        \<and> fst status = ''QUERY_STATE_COMPLETED''"
  from a have l: "int n * poll_interval < max_wait"
    and s: "get_execution_status api key eid n = Inr status"
    and c: "fst status = ''QUERY_STATE_COMPLETED''" by simp_all
  from execute_sql_at_poll [OF assms l]
    poll_loop_completed [OF s c l less_imp_le [OF assms(3)]]
  show "execute_sql api key sql poll_interval max_wait =
            Some (case get_execution_results api key eid of
                    Inl e \<Rightarrow> Inl e | Inr rows \<Rightarrow> Inr (rows_frame rows))"
    by (rule trans)
next
  assume a: "int n * poll_interval < max_wait
        \<and> get_execution_status api key eid n = Inr status
        \<and> (fst status = ''QUERY_STATE_FAILED'' \<or> fst status = ''QUERY_STATE_CANCELLED'')"
  from a have l: "int n * poll_interval < max_wait"
    and s: "get_execution_status api key eid n = Inr status"
    and c: "fst status = ''QUERY_STATE_FAILED'' \<or> fst status = ''QUERY_STATE_CANCELLED''"
    by simp_all
  from execute_sql_at_poll [OF assms l]
    poll_loop_failed [OF s c l less_imp_le [OF assms(3)]]
  show "execute_sql api key sql poll_interval max_wait =
            Some (Inl (QueryFailed
              (case snd status of None \<Rightarrow> ''Unknown error'' | Some msg \<Rightarrow> msg)))"
    by (rule trans)
next
  assume "max_wait \<le> int n * poll_interval"
  then show "execute_sql api key sql poll_interval max_wait = Some (Inl TimeoutError)"
    by (rule execute_sql_timeout [OF assms])
next
  assume a: "poll_interval = 2 \<and> 120 \<le> int n * poll_interval
        \<and> (name, q) \<in> set custom_keys \<and> map_of (CUSTOM_QUERIES cfg) q = Some sql
        \<and> name \<notin> fst ` set (QUERY_IDS cfg)"
  from a have p: "poll_interval = 2" by (elim conjE)
  from a have w: "120 \<le> int n * poll_interval" by (elim conjE)
  from a have m: "(name, q) \<in> set custom_keys" by (elim conjE)
  from a have sql: "map_of (CUSTOM_QUERIES cfg) q = Some sql" by (elim conjE)
  from a have nd: "name \<notin> fst ` set (QUERY_IDS cfg)" by (elim conjE)
  have "execute_sql api key sql poll_interval 120 = Some (Inl TimeoutError)"
    by (rule execute_sql_timeout [OF assms w])
  with p sql have t: "execute_custom api key cfg q = Some (Inl TimeoutError)"
    by (simp add: execute_custom_def)
  from fetch_stage [of api key cfg]
  obtain rd where all: "fetch_all_report_data api key cfg = Some rd
     \<and> {''weekly_summary'', ''daily_liquidations'', ''liquidations_by_chain'',
         ''bad_debt_by_chain''} \<union> fst ` set (QUERY_IDS cfg) \<subseteq> dom rd
     \<and> (\<forall>k e. rd k = Some e \<longrightarrow> (\<exists>df. e = Frame df))
     \<and> (\<forall>name q e. (name, q) \<in> set custom_keys \<and> name \<notin> fst ` set (QUERY_IDS cfg)
            \<and> execute_custom api key cfg q = Some (Inl e)
          \<longrightarrow> rd name = Some (Frame []))
     \<and> (\<forall>name qid e. distinct (map fst (QUERY_IDS cfg)) \<and> (name, qid) \<in> set (QUERY_IDS cfg)
            \<and> get_latest_result api key qid = Inl e
          \<longrightarrow> rd name = Some (Frame []))" ..
  from all have rd: "fetch_all_report_data api key cfg = Some rd" by (rule conjunct1)
  from all have keys: "{''weekly_summary'', ''daily_liquidations'', ''liquidations_by_chain'',
         ''bad_debt_by_chain''} \<union> fst ` set (QUERY_IDS cfg) \<subseteq> dom rd"
    by (elim conjE)
  from all have custom: "\<forall>name q e. (name, q) \<in> set custom_keys
            \<and> name \<notin> fst ` set (QUERY_IDS cfg)
            \<and> execute_custom api key cfg q = Some (Inl e)
          \<longrightarrow> rd name = Some (Frame [])"
    by (elim conjE)
  have "rd name = Some (Frame [])"
    by (rule custom [rule_format, OF conjI [OF m conjI [OF nd t]]])
  with rd keys
  show "\<exists>rd. fetch_all_report_data api key cfg = Some rd
             \<and> rd name = Some (Frame [])
             \<and> {''weekly_summary'', ''daily_liquidations'', ''liquidations_by_chain'',
                 ''bad_debt_by_chain''} \<union> fst ` set (QUERY_IDS cfg) \<subseteq> dom rd"
    by (intro exI [of _ rd] conjI)
qed

theorem execute_sql_outcomes_witness:
  "post_execute_sql
     (scripted_api [''QUERY_STATE_PENDING'', ''QUERY_STATE_EXECUTING'', ''QUERY_STATE_COMPLETED'']
        [[(''blockchain'', Str ''base'')]]) ''k'' ''SELECT 1'' = Inr (Some ''x1'')
   \<and> list_all (still_running
        (scripted_api [''QUERY_STATE_PENDING'', ''QUERY_STATE_EXECUTING'', ''QUERY_STATE_COMPLETED'']
          [[(''blockchain'', Str ''base'')]]) ''k'' ''x1'') [0..<2]
   \<and> execute_sql
        (scripted_api [''QUERY_STATE_PENDING'', ''QUERY_STATE_EXECUTING'', ''QUERY_STATE_COMPLETED'']
          [[(''blockchain'', Str ''base'')]]) ''k'' ''SELECT 1'' 2 120 =
       Some (Inr [[(''blockchain'', Str ''base'')]])
   \<and> list_all (still_running
        (scripted_api [''QUERY_STATE_PENDING'', ''QUERY_STATE_FAILED''] []) ''k'' ''x1'') [0..<1]
   \<and> execute_sql (scripted_api [''QUERY_STATE_PENDING'', ''QUERY_STATE_FAILED''] [])
        ''k'' ''SELECT 1'' 2 120 = Some (Inl (QueryFailed ''Unknown error''))
   \<and> list_all (still_running (scripted_api [] []) ''k'' ''x1'') [0..<60]
   \<and> execute_sql (scripted_api [] []) ''k''
        (snd (CUSTOM_QUERIES morpho_config ! 3)) 2 120 = Some (Inl TimeoutError)
   \<and> (''weekly_summary'', ''weekly_liquidation_summary'') \<in> set custom_keys
   \<and> map_of (CUSTOM_QUERIES morpho_config) ''weekly_liquidation_summary'' =
       Some (snd (CUSTOM_QUERIES morpho_config ! 3))
   \<and> ''weekly_summary'' \<notin> fst ` set (QUERY_IDS morpho_config)
   \<and> (\<exists>rd. fetch_all_report_data (scripted_api [] []) ''k'' morpho_config = Some rd
         \<and> rd ''weekly_summary'' = Some (Frame [])
         \<and> {''weekly_summary'', ''daily_liquidations'', ''liquidations_by_chain'',
             ''bad_debt_by_chain''} \<union> fst ` set (QUERY_IDS morpho_config) \<subseteq> dom rd)"
proof -
  let ?a1 = "scripted_api [''QUERY_STATE_PENDING'', ''QUERY_STATE_EXECUTING'', ''QUERY_STATE_COMPLETED'']
        [[(''blockchain'', Str ''base'')]]"
  let ?a2 = "scripted_api [''QUERY_STATE_PENDING'', ''QUERY_STATE_FAILED''] []"
  let ?a3 = "scripted_api [] []"
  let ?sql = "snd (CUSTOM_QUERIES morpho_config ! 3)"
  have ne: "''x1'' \<noteq> []" by simp
  have pos: "(0::int) < 2" by simp
  have r1: "\<forall>j<2. still_running ?a1 ''k'' ''x1'' j"
    by (simp add: still_running_def scripted_status final_state_def less_Suc_eq numeral_2_eq_2)
  have l1: "list_all (still_running ?a1 ''k'' ''x1'') [0..<2]"
    using r1 by (simp add: list_all_iff)
  have s1: "get_execution_status ?a1 ''k'' ''x1'' 2 = Inr (''QUERY_STATE_COMPLETED'', None)"
    by (simp add: scripted_status)
  have e1: "execute_sql ?a1 ''k'' ''SELECT 1'' 2 120 = Some (Inr [[(''blockchain'', Str ''base'')]])"
    using execute_sql_outcomes [OF scripted_post ne pos r1, of 120 "(''QUERY_STATE_COMPLETED'', None)"] s1
    by (simp add: scripted_results rows_frame_def DataFrame_def columns_def)
  have r2: "\<forall>j<1. still_running ?a2 ''k'' ''x1'' j"
    by (simp add: still_running_def scripted_status final_state_def)
  have l2: "list_all (still_running ?a2 ''k'' ''x1'') [0..<1]"
    using r2 by (simp add: list_all_iff)
  have s2: "get_execution_status ?a2 ''k'' ''x1'' 1 = Inr (''QUERY_STATE_FAILED'', None)"
    by (simp add: scripted_status)
  have e2: "execute_sql ?a2 ''k'' ''SELECT 1'' 2 120 = Some (Inl (QueryFailed ''Unknown error''))"
    using execute_sql_outcomes [OF scripted_post ne pos r2, of 120 "(''QUERY_STATE_FAILED'', None)"] s2
    by simp
  have r3: "\<forall>j<60. still_running ?a3 ''k'' ''x1'' j"
    by (simp add: never_final)
  have l3: "list_all (still_running ?a3 ''k'' ''x1'') [0..<60]"
    using r3 by (simp add: list_all_iff)
  have c: "(''weekly_summary'', ''weekly_liquidation_summary'') \<in> set custom_keys"
    by (simp add: custom_keys_def)
  have m: "map_of (CUSTOM_QUERIES morpho_config) ''weekly_liquidation_summary'' = Some ?sql"
    by (simp add: morpho_config_def)
  have n: "''weekly_summary'' \<notin> fst ` set (QUERY_IDS morpho_config)"
    by (simp add: morpho_config_def)
  note o3 = execute_sql_outcomes [OF scripted_post ne pos r3,
      where max_wait = 120 and name = "''weekly_summary''" and q = "''weekly_liquidation_summary''"
      and cfg = morpho_config and sql = ?sql]
  have e3: "execute_sql ?a3 ''k'' ?sql 2 120 = Some (Inl TimeoutError)"
    using o3 by simp
  have f3: "\<exists>rd. fetch_all_report_data ?a3 ''k'' morpho_config = Some rd
         \<and> rd ''weekly_summary'' = Some (Frame [])
         \<and> {''weekly_summary'', ''daily_liquidations'', ''liquidations_by_chain'',
             ''bad_debt_by_chain''} \<union> fst ` set (QUERY_IDS morpho_config) \<subseteq> dom rd"
    using o3 c m n by simp
  show ?thesis
    by (intro conjI) (fact scripted_post l1 e1 l2 e2 l3 e3 c m n f3)+
qed

section \<open>Properties of the sample data\<close>

lemma sample_dom:
  "dom (generate_sample_data src) =
     {''weekly_summary'', ''daily_liquidations'', ''liquidations_by_chain'',
      ''bad_debt_by_chain'', ''liquidation_stats_24h'', ''bad_debt_stats_24h'',
      ''unrealized_bad_debt'', ''bad_debt_events_24h''}"
  unfolding generate_sample_data_def by (simp add: insert_commute)

lemma sample_no_vaults: "generate_sample_data src ''vault_liquidity'' = None"
  unfolding generate_sample_data_def by simp

lemma sample_step:
  "fetch_step d True api_key selected_vaults = Some (Inl (KeyError ''vault_liquidity''))"
  by (simp add: fetch_step_def sample_no_vaults)

lemma sample_job:
  "api_generate d jobs job_id True api_key selected_vaults fs =
     Some (jobs(job_id \<mapsto> Failed
             (case import_vaults d of
                Inl e \<Rightarrow> e
              | Inr tracked \<Rightarrow>
                  (case active_vaults tracked selected_vaults of
                     Inl e \<Rightarrow> e
                   | Inr active \<Rightarrow> KeyError ''vault_liquidity''))), fs)"
  by (simp add: api_generate_def run_generation_def run_steps_def sample_step
      split: sum.splits)

lemma import_examples:
  "import_vaults (plain_deployment api) = Inl (ImportError ''BLUECHIP_VAULTS'')"
  "import_vaults (vaults_deployment api) = Inr [[(''name'', ''Gauntlet USDC Prime'')]]"
  "active_vaults [[(''name'', ''Gauntlet USDC Prime'')]] [''Gauntlet USDC Prime''] =
     Inr [[(''name'', ''Gauntlet USDC Prime'')]]"
  "active_vaults [[(''name'', ''Gauntlet USDC Prime'')]] [] = Inr []"
  by (simp_all add: import_vaults_def plain_deployment_def vaults_deployment_def
      active_vaults_def vault_name_def and_then_def)

text \<open>
  Claim C9. The sample data has exactly the eight keys, whatever is drawn, and no entry
  \<open>vault_liquidity\<close>. Step 1 of the web job runner with sample data, which indexes that
  entry, raises the missing-key error. A job with sample data ends failed, with no file
  written: with that missing-key error when the import of the vault lists and the filter
  of the active vaults have not raised before it, and else with what they raised.
\<close>

theorem sample_data_keys:
  "dom (generate_sample_data src) =
     {''weekly_summary'', ''daily_liquidations'', ''liquidations_by_chain'',
      ''bad_debt_by_chain'', ''liquidation_stats_24h'', ''bad_debt_stats_24h'',
      ''unrealized_bad_debt'', ''bad_debt_events_24h''}
   \<and> generate_sample_data src ''vault_liquidity'' = None
   \<and> fetch_step d True api_key selected_vaults = Some (Inl (KeyError ''vault_liquidity''))
   \<and> api_generate d jobs job_id True api_key selected_vaults fs =
       Some (jobs(job_id \<mapsto> Failed
               (case import_vaults d of
                  Inl e \<Rightarrow> e
                | Inr tracked \<Rightarrow>
                    (case active_vaults tracked selected_vaults of
                       Inl e \<Rightarrow> e
                     | Inr active \<Rightarrow> KeyError ''vault_liquidity''))), fs)"
  by (intro conjI) (rule sample_dom sample_no_vaults sample_step sample_job)+

theorem sample_data_keys_witness:
  "api_generate (vaults_deployment rejecting_api) Map.empty ''job1'' True []
     [''Gauntlet USDC Prime''] Map.empty =
     Some (Map.empty(''job1'' \<mapsto> Failed (KeyError ''vault_liquidity'')), Map.empty)
   \<and> api_generate (plain_deployment rejecting_api) Map.empty ''job1'' True []
     [''Gauntlet USDC Prime''] Map.empty =
     Some (Map.empty(''job1'' \<mapsto> Failed (ImportError ''BLUECHIP_VAULTS'')), Map.empty)"
  using sample_data_keys [of plain_sample "vaults_deployment rejecting_api" "[]"
      "[''Gauntlet USDC Prime'']" Map.empty "''job1''" Map.empty]
    sample_data_keys [of plain_sample "plain_deployment rejecting_api" "[]"
      "[''Gauntlet USDC Prime'']" Map.empty "''job1''" Map.empty]
  by (simp add: import_examples)

section \<open>Properties of the chart stage\<close>

lemma and_then_Inr: "(and_then r f = Inr y) = (\<exists>x. r = Inr x \<and> f x = Inr y)"
  by (cases r) (simp_all add: and_then_def)

lemma and_then_simps [simp]:
  "and_then (Inr x) f = f x" "and_then (Inl e) f = Inl e"
  by (simp_all add: and_then_def)

lemma save_chart_Inr:
  "(save_chart env p img fs = (Inr q, fs')) =
   (\<exists>i. img = Inr i \<and> can_write env p \<and> q = p \<and> fs' = fs(p \<mapsto> ImageFile i))"
  by (cases img) (auto simp: save_chart_def savefig_def)

lemma then_write_Inr:
  "(then_write r f = (Inr y, fs')) = (\<exists>x fs1. r = (Inr x, fs1) \<and> f x fs1 = (Inr y, fs'))"
  by (cases r; cases "fst r") (auto simp: then_write_def)

text \<open>File names in one directory give different paths.\<close>

lemma path_join_inject:
  assumes "n \<noteq> []" "hd n \<noteq> CHR ''/''" "m \<noteq> []" "hd m \<noteq> CHR ''/''"
  shows "(path_join d n = path_join d m) = (n = m)"
  using assms by (simp add: path_join_def)

lemma empty_images:
  assumes "df_empty df"
  shows "daily_liquidation_image df = Inr (NoDataChart ''Daily Liquidations (7d)'')"
    and "liquidation_by_chain_image df = Inr (NoDataChart ''Liquidations by Chain'')"
    and "realized df = Inr ZeroRealized"
    and "unrealized env df = Inr NoUnrealized"
    and "summary_metrics df = zero_metrics"
  using assms
  by (simp_all add: daily_liquidation_image_def liquidation_by_chain_image_def realized_def
      unrealized_def summary_metrics_def)

lemma zero_kpi: "\<exists>img. kpi_card_image zero_metrics = Inr img"
  by (simp add: kpi_card_image_def zero_metrics_def series_get_def format_usd_def grouped_def)

lemma generate_all_charts_four:
  "generate_all_charts env rd dir fs =
     write_four env
       ''kpi'' (path_join dir ''chart_kpi_cards.png'')
       (and_then (and_then (get_frame rd ''weekly_summary'') (\<lambda>s. Inr (summary_metrics s)))
          kpi_card_image)
       ''daily_liquidations'' (path_join dir ''chart_daily_liquidations.png'')
       (and_then (get_frame rd ''daily_liquidations'') daily_liquidation_image)
       ''liq_by_chain'' (path_join dir ''chart_liq_by_chain.png'')
       (and_then (get_frame rd ''liquidations_by_chain'') liquidation_by_chain_image)
       ''bad_debt'' (path_join dir ''chart_bad_debt.png'')
       (and_then (get_frame rd ''bad_debt_by_chain'') (\<lambda>b.
        and_then (realized b) (\<lambda>left.
        and_then (get_frame rd ''unrealized_bad_debt'') (\<lambda>u.
        and_then (unrealized env u) (\<lambda>right.
          Inr (BadDebtSummaryChart left right))))))
       fs"
  unfolding generate_all_charts_def write_four_def create_kpi_card_image_def
    create_daily_liquidation_chart_def create_liquidation_by_chain_chart_def
    create_bad_debt_summary_chart_def ..

lemma write_four_Inr:
  assumes "write_four env k1 p1 e1 k2 p2 e2 k3 p3 e3 k4 p4 e4 fs = (Inr charts, fs')"
  shows "\<exists>i1 i2 i3 i4. e1 = Inr i1 \<and> e2 = Inr i2 \<and> e3 = Inr i3 \<and> e4 = Inr i4
    \<and> charts = Map.empty(k1 \<mapsto> p1, k2 \<mapsto> p2, k3 \<mapsto> p3, k4 \<mapsto> p4)
    \<and> fs' = fs(p1 \<mapsto> ImageFile i1, p2 \<mapsto> ImageFile i2, p3 \<mapsto> ImageFile i3,
                p4 \<mapsto> ImageFile i4)"
  using assms unfolding write_four_def then_write_Inr save_chart_Inr by auto

lemma write_four_ok:
  assumes "e1 = Inr i1" "e2 = Inr i2" "e3 = Inr i3" "e4 = Inr i4"
    and "can_write env p1" "can_write env p2" "can_write env p3" "can_write env p4"
  shows "write_four env k1 p1 e1 k2 p2 e2 k3 p3 e3 k4 p4 e4 fs =
    (Inr (Map.empty(k1 \<mapsto> p1, k2 \<mapsto> p2, k3 \<mapsto> p3, k4 \<mapsto> p4)),
     fs(p1 \<mapsto> ImageFile i1, p2 \<mapsto> ImageFile i2, p3 \<mapsto> ImageFile i3,
        p4 \<mapsto> ImageFile i4))"
  using assms by (simp add: write_four_def then_write_def save_chart_def savefig_def)

lemma write_four_third_fails:
  assumes "e1 = Inr i1" "e2 = Inr i2" "e3 = Inl e"
    and "can_write env p1" "can_write env p2"
  shows "fst (write_four env k1 p1 e1 k2 p2 e2 k3 p3 e3 k4 p4 e4 fs) = Inl e"
  using assms by (simp add: write_four_def then_write_def save_chart_def savefig_def)

lemma write_four_first_fails:
  assumes "e1 = Inl e"
  shows "fst (write_four env k1 p1 e1 k2 p2 e2 k3 p3 e3 k4 p4 e4 fs) = Inl e"
  using assms by (simp add: write_four_def then_write_def save_chart_def savefig_def)

lemma no_dataD: "no_data rd key \<Longrightarrow> \<exists>df. get_frame rd key = Inr df \<and> df_empty df"
  by (cases "get_frame rd key") (simp_all add: no_data_def)

lemma four_images:
  assumes "charts = Map.empty(k1 \<mapsto> p1, k2 \<mapsto> p2, k3 \<mapsto> p3, k4 \<mapsto> p4)"
    and "fs' = fs(p1 \<mapsto> ImageFile i1, p2 \<mapsto> ImageFile i2, p3 \<mapsto> ImageFile i3,
                p4 \<mapsto> ImageFile i4)"
    and "charts key = Some path"
  shows "\<exists>img. fs' path = Some (ImageFile img)"
  using assms by (auto split: if_splits)

lemma placeholder_written:
  assumes "can_write env output_path" and "df_empty chain_df"
  shows "create_liquidation_by_chain_chart env (Inr chain_df) output_path fs =
    (Inr output_path,
     fs(output_path \<mapsto> ImageFile (NoDataChart ''Liquidations by Chain'')))"
  using assms
  by (simp add: create_liquidation_by_chain_chart_def save_chart_def savefig_def
      empty_images(2))

lemma chart_paths_differ:
  "path_join dir ''chart_liq_by_chain.png'' \<noteq> path_join dir ''chart_bad_debt.png''"
  by (simp add: path_join_inject)

lemma chart_stage_result:
  assumes "generate_all_charts env rd dir fs = (Inr charts, fs')"
  shows "charts = Map.empty
          (''kpi'' \<mapsto> path_join dir ''chart_kpi_cards.png'',
           ''daily_liquidations'' \<mapsto> path_join dir ''chart_daily_liquidations.png'',
           ''liq_by_chain'' \<mapsto> path_join dir ''chart_liq_by_chain.png'',
           ''bad_debt'' \<mapsto> path_join dir ''chart_bad_debt.png'')"
    and "charts key = Some path \<Longrightarrow> \<exists>img. fs' path = Some (ImageFile img)"
    and "get_frame rd ''liquidations_by_chain'' = Inr df \<Longrightarrow> df_empty df \<Longrightarrow>
      fs' (path_join dir ''chart_liq_by_chain.png'') =
        Some (ImageFile (NoDataChart ''Liquidations by Chain''))"
proof -
  from write_four_Inr [OF assms [unfolded generate_all_charts_four]]
  obtain i1 i2 i3 i4 where
    e3: "and_then (get_frame rd ''liquidations_by_chain'') liquidation_by_chain_image = Inr i3"
    and c: "charts = Map.empty
          (''kpi'' \<mapsto> path_join dir ''chart_kpi_cards.png'',
           ''daily_liquidations'' \<mapsto> path_join dir ''chart_daily_liquidations.png'',
           ''liq_by_chain'' \<mapsto> path_join dir ''chart_liq_by_chain.png'',
           ''bad_debt'' \<mapsto> path_join dir ''chart_bad_debt.png'')"
    and f: "fs' = fs
          (path_join dir ''chart_kpi_cards.png'' \<mapsto> ImageFile i1,
           path_join dir ''chart_daily_liquidations.png'' \<mapsto> ImageFile i2,
           path_join dir ''chart_liq_by_chain.png'' \<mapsto> ImageFile i3,
           path_join dir ''chart_bad_debt.png'' \<mapsto> ImageFile i4)"
    by (elim exE conjE)
  show "charts = Map.empty
          (''kpi'' \<mapsto> path_join dir ''chart_kpi_cards.png'',
           ''daily_liquidations'' \<mapsto> path_join dir ''chart_daily_liquidations.png'',
           ''liq_by_chain'' \<mapsto> path_join dir ''chart_liq_by_chain.png'',
           ''bad_debt'' \<mapsto> path_join dir ''chart_bad_debt.png'')"
    by (rule c)
  show "\<exists>img. fs' path = Some (ImageFile img)" if "charts key = Some path"
    by (rule four_images [OF c f that])
  show "fs' (path_join dir ''chart_liq_by_chain.png'') =
        Some (ImageFile (NoDataChart ''Liquidations by Chain''))"
    if g: "get_frame rd ''liquidations_by_chain'' = Inr df" and d: "df_empty df"
  proof -
    from e3 g d have "i3 = NoDataChart ''Liquidations by Chain''"
      by (simp add: empty_images(2))
    with f chart_paths_differ [of dir] show ?thesis by simp
  qed
qed

lemma chart_stage_returns:
  assumes "no_data rd ''weekly_summary''" "no_data rd ''daily_liquidations''"
    "no_data rd ''liquidations_by_chain''" "no_data rd ''bad_debt_by_chain''"
    "no_data rd ''unrealized_bad_debt''"
    and "can_write env (path_join dir ''chart_kpi_cards.png'')"
    "can_write env (path_join dir ''chart_daily_liquidations.png'')"
    "can_write env (path_join dir ''chart_liq_by_chain.png'')"
    "can_write env (path_join dir ''chart_bad_debt.png'')"
  shows "\<exists>charts fs'. generate_all_charts env rd dir fs = (Inr charts, fs')"
proof -
  from assms(1) [THEN no_dataD] obtain s where
    s: "get_frame rd ''weekly_summary'' = Inr s" "df_empty s" by (elim exE conjE)
  from assms(2) [THEN no_dataD] obtain d where
    d: "get_frame rd ''daily_liquidations'' = Inr d" "df_empty d" by (elim exE conjE)
  from assms(3) [THEN no_dataD] obtain c where
    c: "get_frame rd ''liquidations_by_chain'' = Inr c" "df_empty c" by (elim exE conjE)
  from assms(4) [THEN no_dataD] obtain b where
    b: "get_frame rd ''bad_debt_by_chain'' = Inr b" "df_empty b" by (elim exE conjE)
  from assms(5) [THEN no_dataD] obtain u where
    u: "get_frame rd ''unrealized_bad_debt'' = Inr u" "df_empty u" by (elim exE conjE)
  obtain img where k: "kpi_card_image zero_metrics = Inr img" using zero_kpi ..
  have e1: "and_then (and_then (get_frame rd ''weekly_summary'') (\<lambda>s. Inr (summary_metrics s)))
       kpi_card_image = Inr img"
    using s k by (simp add: empty_images(5))
  have e2: "and_then (get_frame rd ''daily_liquidations'') daily_liquidation_image =
      Inr (NoDataChart ''Daily Liquidations (7d)'')"
    using d by (simp add: empty_images(1))
  have e3: "and_then (get_frame rd ''liquidations_by_chain'') liquidation_by_chain_image =
      Inr (NoDataChart ''Liquidations by Chain'')"
    using c by (simp add: empty_images(2))
  have e4: "and_then (get_frame rd ''bad_debt_by_chain'') (\<lambda>b.
        and_then (realized b) (\<lambda>left.
        and_then (get_frame rd ''unrealized_bad_debt'') (\<lambda>u.
        and_then (unrealized env u) (\<lambda>right.
          Inr (BadDebtSummaryChart left right))))) =
      Inr (BadDebtSummaryChart ZeroRealized NoUnrealized)"
    using b u by (simp add: empty_images(3,4))
  show ?thesis
    unfolding generate_all_charts_four
    by (intro exI) (rule write_four_ok [OF e1 e2 e3 e4 assms(6-9)])
qed

lemma no_data_absent: "no_data Map.empty key"
  by (simp add: no_data_def get_frame_def df_empty_def)

lemma plain_writes: "can_write plain_environment path"
  by (simp add: plain_environment_def)

text \<open>
  Claim C7, as amended. With an empty \<open>liquidations_by_chain\<close> table and a path that can
  be written, the chart function writes the placeholder of \<open>Liquidations by Chain\<close> to
  the path and returns the path. Whenever the chart stage returns, it returns the paths
  of the four keys \<open>kpi\<close>, \<open>daily_liquidations\<close>, \<open>liq_by_chain\<close> and \<open>bad_debt\<close> in the
  output directory, each path holds an image, and the image of \<open>liq_by_chain\<close> is the
  placeholder when the table is missing or empty. The stage does return when every
  table it reads is missing or empty and the four paths can be written.
\<close>

theorem chart_stage_paths:
  "(can_write env output_path \<and> df_empty chain_df
      \<longrightarrow> create_liquidation_by_chain_chart env (Inr chain_df) output_path fs =
            (Inr output_path,
             fs(output_path \<mapsto> ImageFile (NoDataChart ''Liquidations by Chain''))))
   \<and> (generate_all_charts env rd dir fs = (Inr charts, fs')
      \<longrightarrow> charts = Map.empty
            (''kpi'' \<mapsto> path_join dir ''chart_kpi_cards.png'',
             ''daily_liquidations'' \<mapsto> path_join dir ''chart_daily_liquidations.png'',
             ''liq_by_chain'' \<mapsto> path_join dir ''chart_liq_by_chain.png'',
             ''bad_debt'' \<mapsto> path_join dir ''chart_bad_debt.png'')
          \<and> (\<forall>key path. charts key = Some path
                \<longrightarrow> (\<exists>img. fs' path = Some (ImageFile img)))
          \<and> (no_data rd ''liquidations_by_chain''
                \<longrightarrow> fs' (path_join dir ''chart_liq_by_chain.png'') =
                      Some (ImageFile (NoDataChart ''Liquidations by Chain''))))
   \<and> (no_data rd ''weekly_summary'' \<and> no_data rd ''daily_liquidations''
        \<and> no_data rd ''liquidations_by_chain'' \<and> no_data rd ''bad_debt_by_chain''
        \<and> no_data rd ''unrealized_bad_debt''
        \<and> can_write env (path_join dir ''chart_kpi_cards.png'')
        \<and> can_write env (path_join dir ''chart_daily_liquidations.png'')
        \<and> can_write env (path_join dir ''chart_liq_by_chain.png'')
        \<and> can_write env (path_join dir ''chart_bad_debt.png'')
      \<longrightarrow> (\<exists>charts fs'. generate_all_charts env rd dir fs = (Inr charts, fs')))"
proof (intro conjI impI allI)
  assume "can_write env output_path \<and> df_empty chain_df"
  then show "create_liquidation_by_chain_chart env (Inr chain_df) output_path fs =
            (Inr output_path,
             fs(output_path \<mapsto> ImageFile (NoDataChart ''Liquidations by Chain'')))"
    by (intro placeholder_written) simp_all
next
  assume "generate_all_charts env rd dir fs = (Inr charts, fs')"
  then show "charts = Map.empty
            (''kpi'' \<mapsto> path_join dir ''chart_kpi_cards.png'',
             ''daily_liquidations'' \<mapsto> path_join dir ''chart_daily_liquidations.png'',
             ''liq_by_chain'' \<mapsto> path_join dir ''chart_liq_by_chain.png'',
             ''bad_debt'' \<mapsto> path_join dir ''chart_bad_debt.png'')"
    by (rule chart_stage_result(1))
next
  fix key path
  assume "generate_all_charts env rd dir fs = (Inr charts, fs')" and "charts key = Some path"
  then show "\<exists>img. fs' path = Some (ImageFile img)"
    by (rule chart_stage_result(2))
next
  assume g: "generate_all_charts env rd dir fs = (Inr charts, fs')"
    and n: "no_data rd ''liquidations_by_chain''"
  from no_dataD [OF n]
  obtain df where "get_frame rd ''liquidations_by_chain'' = Inr df" "df_empty df"
    by (elim exE conjE)
  with g show "fs' (path_join dir ''chart_liq_by_chain.png'') =
                      Some (ImageFile (NoDataChart ''Liquidations by Chain''))"
    by (rule chart_stage_result(3))
next
  assume a: "no_data rd ''weekly_summary'' \<and> no_data rd ''daily_liquidations''
        \<and> no_data rd ''liquidations_by_chain'' \<and> no_data rd ''bad_debt_by_chain''
        \<and> no_data rd ''unrealized_bad_debt''
        \<and> can_write env (path_join dir ''chart_kpi_cards.png'')
        \<and> can_write env (path_join dir ''chart_daily_liquidations.png'')
        \<and> can_write env (path_join dir ''chart_liq_by_chain.png'')
        \<and> can_write env (path_join dir ''chart_bad_debt.png'')"
  show "\<exists>charts fs'. generate_all_charts env rd dir fs = (Inr charts, fs')"
    by (rule chart_stage_returns) (use a in simp_all)
qed

theorem chart_stage_paths_witness:
  "can_write plain_environment ''out.png'' \<and> df_empty []
   \<and> create_liquidation_by_chain_chart plain_environment (Inr []) ''out.png'' Map.empty =
       (Inr ''out.png'', [''out.png'' \<mapsto> ImageFile (NoDataChart ''Liquidations by Chain'')])
   \<and> no_data Map.empty ''weekly_summary'' \<and> no_data Map.empty ''daily_liquidations''
   \<and> no_data Map.empty ''liquidations_by_chain'' \<and> no_data Map.empty ''bad_debt_by_chain''
   \<and> no_data Map.empty ''unrealized_bad_debt''
   \<and> can_write plain_environment (path_join ''output'' ''chart_kpi_cards.png'')
   \<and> can_write plain_environment (path_join ''output'' ''chart_daily_liquidations.png'')
   \<and> can_write plain_environment (path_join ''output'' ''chart_liq_by_chain.png'')
   \<and> can_write plain_environment (path_join ''output'' ''chart_bad_debt.png'')
   \<and> (\<exists>charts fs'.
         generate_all_charts plain_environment Map.empty ''output'' Map.empty = (Inr charts, fs')
         \<and> charts ''liq_by_chain'' = Some ''output/chart_liq_by_chain.png''
         \<and> (\<exists>img. fs' ''output/chart_liq_by_chain.png'' = Some (ImageFile img))
         \<and> fs' ''output/chart_liq_by_chain.png'' =
             Some (ImageFile (NoDataChart ''Liquidations by Chain'')))"
proof -
  have e: "df_empty []" by (simp add: df_empty_def)
  note t = chart_stage_paths [of plain_environment]
  from t [of "''out.png''" "[]" Map.empty] plain_writes e
  have p: "create_liquidation_by_chain_chart plain_environment (Inr []) ''out.png'' Map.empty =
       (Inr ''out.png'', [''out.png'' \<mapsto> ImageFile (NoDataChart ''Liquidations by Chain'')])"
    by simp
  have "\<exists>charts fs'. generate_all_charts plain_environment Map.empty ''output'' Map.empty =
      (Inr charts, fs')"
    using t [where rd = Map.empty and dir = "''output''" and fs = Map.empty]
      no_data_absent plain_writes by simp
  then obtain charts fs' where
    g: "generate_all_charts plain_environment Map.empty ''output'' Map.empty = (Inr charts, fs')"
    by (elim exE)
  have j: "path_join ''output'' ''chart_liq_by_chain.png'' = ''output/chart_liq_by_chain.png''"
    by (simp add: path_join_def)
  from t [where rd = Map.empty and dir = "''output''" and fs = Map.empty and charts = charts
      and fs' = fs'] g
  have c: "charts = Map.empty
            (''kpi'' \<mapsto> path_join ''output'' ''chart_kpi_cards.png'',
             ''daily_liquidations'' \<mapsto> path_join ''output'' ''chart_daily_liquidations.png'',
             ''liq_by_chain'' \<mapsto> path_join ''output'' ''chart_liq_by_chain.png'',
             ''bad_debt'' \<mapsto> path_join ''output'' ''chart_bad_debt.png'')"
    and i: "\<forall>key path. charts key = Some path \<longrightarrow> (\<exists>img. fs' path = Some (ImageFile img))"
    and n: "no_data Map.empty ''liquidations_by_chain''
                \<longrightarrow> fs' (path_join ''output'' ''chart_liq_by_chain.png'') =
                      Some (ImageFile (NoDataChart ''Liquidations by Chain''))"
    by simp_all
  from c j have c': "charts ''liq_by_chain'' = Some ''output/chart_liq_by_chain.png''"
    by simp
  from i c' have i': "\<exists>img. fs' ''output/chart_liq_by_chain.png'' = Some (ImageFile img)"
    by simp
  from n no_data_absent j
  have n': "fs' ''output/chart_liq_by_chain.png'' =
      Some (ImageFile (NoDataChart ''Liquidations by Chain''))"
    by simp
  show ?thesis
    by (intro conjI exI [of _ charts] exI [of _ fs'])
       (fact plain_writes e p no_data_absent g c' i' n')+
qed

text \<open>
  The claim C7 as first stated has a path for every key whatever the data. A table of
  liquidations by chain that has rows but no column \<open>total_liquidated_usd\<close> makes
  \<open>sort_values\<close> raise, and the stage returns no path at all.
\<close>

theorem chart_stage_counterexample:
  "fst (generate_all_charts plain_environment
         (Map.empty(''liquidations_by_chain'' \<mapsto> Frame [[(''blockchain'', Str ''base'')]]))
         ''output'' Map.empty)
   = Inl (KeyError ''total_liquidated_usd'')"
proof -
  let ?rd = "Map.empty(''liquidations_by_chain'' \<mapsto> Frame [[(''blockchain'', Str ''base'')]])"
  obtain img where k: "kpi_card_image zero_metrics = Inr img" using zero_kpi ..
  have e1: "and_then (and_then (get_frame ?rd ''weekly_summary'') (\<lambda>s. Inr (summary_metrics s)))
       kpi_card_image = Inr img"
    using k by (simp add: get_frame_def summary_metrics_def df_empty_def)
  have e2: "and_then (get_frame ?rd ''daily_liquidations'') daily_liquidation_image =
      Inr (NoDataChart ''Daily Liquidations (7d)'')"
    by (simp add: get_frame_def daily_liquidation_image_def df_empty_def)
  have e3: "and_then (get_frame ?rd ''liquidations_by_chain'') liquidation_by_chain_image =
      Inl (KeyError ''total_liquidated_usd'')"
    by (simp add: get_frame_def liquidation_by_chain_image_def df_empty_def columns_def)
  show ?thesis
    unfolding generate_all_charts_four
    by (rule write_four_third_fails [OF e1 e2 e3 plain_writes plain_writes])
qed

section \<open>Properties of the document stage\<close>

lemma chart_picture_plain:
  "tldr_phrases (chart_picture charts fs key (\<lambda>path. [Picture path, Spacer])) = []"
  "tldr_phrases (chart_picture charts fs key (\<lambda>path. [Spacer, Picture path, Spacer])) = []"
  "bad_debt_paragraphs (chart_picture charts fs key (\<lambda>path. [Picture path, Spacer])) = []"
  "bad_debt_paragraphs (chart_picture charts fs key (\<lambda>path. [Spacer, Picture path, Spacer])) = []"
  by (simp_all add: chart_picture_def split: option.splits)

lemma tldr_phrases_append: "tldr_phrases (xs @ ys) = tldr_phrases xs @ tldr_phrases ys"
  by (induction xs rule: tldr_phrases.induct) simp_all

lemma bad_debt_paragraphs_append:
  "bad_debt_paragraphs (xs @ ys) = bad_debt_paragraphs xs @ bad_debt_paragraphs ys"
  by (induction xs rule: bad_debt_paragraphs.induct) simp_all

lemma chain_table_plain:
  assumes "chain_table df = Inr table"
  shows "tldr_phrases table = []" and "bad_debt_paragraphs table = []"
  using assms by (auto simp: chain_table_def and_then_Inr split: if_splits)

lemma section_cases:
  assumes "bad_debt_section debt = Inr section"
  shows "section = NoBadDebtEvents \<or> (\<exists>amount. section = BadDebtRecorded amount)"
  using assms by (auto simp: bad_debt_section_def and_then_Inr split: if_splits)

lemma story_layout_phrases:
  assumes "chain_table df = Inr table" and "bad_debt_section debt = Inr section"
  shows "tldr_phrases (story_layout env v phrase table section charts fs) = [phrase]"
    and "bad_debt_paragraphs (story_layout env v phrase table section charts fs) = [section]"
  using chain_table_plain [OF assms(1)] section_cases [OF assms(2)]
  by (auto simp: story_layout_def tldr_phrases_append bad_debt_paragraphs_append
      chart_picture_plain)

lemma read_summary_bad_debt:
  assumes "read_summary summary = Inr v"
  shows "bad_debt v = reported_bad_debt summary"
proof (cases "df_empty summary")
  case True
  with assms show ?thesis by (auto simp: read_summary_def reported_bad_debt_def)
next
  case False
  with assms obtain liq p m c where
    "v = \<lparr>total_liq = liq, positions = p, markets = m, chain_count = c,
          bad_debt = series_get (hd summary) ''total_bad_debt_usd'' (Num 0)\<rparr>"
    by (auto simp: read_summary_def Let_def and_then_Inr)
  with False show ?thesis by (simp add: reported_bad_debt_def)
qed

lemma phrase_by_value:
  assumes "bad_debt_text debt = Inr phrase"
  shows "if debt = Num 0 then phrase = ZeroRealizedBadDebt
         else \<exists>amount. format_usd_doc debt = Inr amount \<and> phrase = RealizedBadDebt amount"
  using assms by (auto simp: bad_debt_text_def is_zero_def and_then_Inr split: if_splits)

lemma section_by_value:
  assumes "bad_debt_section debt = Inr section"
  shows "if debt = Num 0 then section = NoBadDebtEvents
         else \<exists>amount. format_usd_doc debt = Inr amount \<and> section = BadDebtRecorded amount"
  using assms by (auto simp: bad_debt_section_def is_zero_def and_then_Inr split: if_splits)

lemma story_of_Inr:
  assumes "story_of env rd charts fs = Inr story"
    and "get_frame rd ''weekly_summary'' = Inr summary"
  shows "\<exists>phrase section.
    bad_debt_text (reported_bad_debt summary) = Inr phrase
    \<and> bad_debt_section (reported_bad_debt summary) = Inr section
    \<and> tldr_phrases story = [phrase] \<and> bad_debt_paragraphs story = [section]"
proof -
  from assms have "and_then (read_summary summary) (\<lambda>v.
     and_then (bad_debt_text (bad_debt v)) (\<lambda>phrase.
     and_then (get_frame rd ''liquidations_by_chain'') (\<lambda>chain_df.
     and_then (chain_table chain_df) (\<lambda>table.
     and_then (bad_debt_section (bad_debt v)) (\<lambda>section.
       Inr (story_layout env v phrase table section charts fs)))))) = Inr story"
    by (simp add: story_of_def)
  then obtain v phrase chain_df table para where
    v: "read_summary summary = Inr v"
    and p: "bad_debt_text (bad_debt v) = Inr phrase"
    and t: "chain_table chain_df = Inr table"
    and s: "bad_debt_section (bad_debt v) = Inr para"
    and story: "story = story_layout env v phrase table para charts fs"
    by (auto simp: and_then_Inr)
  from story_layout_phrases [OF t s, of env v phrase charts fs] story
  have "tldr_phrases story = [phrase]" "bad_debt_paragraphs story = [para]" by simp_all
  with p s read_summary_bad_debt [OF v] show ?thesis by auto
qed

lemma generate_report_Inr:
  assumes "generate_report env rd charts output_path fs = (Inr p, fs')"
  shows "\<exists>story. story_of env rd charts fs = Inr story \<and> fs' output_path = Some (PdfFile story)"
  using assms by (auto simp: generate_report_def split: sum.splits if_splits)

lemma page_of_Inr:
  assumes "page_of env rd charts fs = Inr page"
    and "get_frame rd ''weekly_summary'' = Inr summary"
  shows "\<exists>phrase section.
    bad_debt_text (reported_bad_debt summary) = Inr phrase
    \<and> bad_debt_section (reported_bad_debt summary) = Inr section
    \<and> page_bad_debt_text page = phrase \<and> page_bad_debt_section page = section
    \<and> page_bad_debt_class page =
        (if reported_bad_debt summary = Num 0 then ''green'' else ''red'')"
proof -
  from assms have "and_then (read_summary summary) (\<lambda>v.
     and_then (bad_debt_text (bad_debt v)) (\<lambda>phrase.
     and_then (get_frame rd ''liquidations_by_chain'') (\<lambda>chain_df.
     and_then (build_chain_table_rows chain_df) (\<lambda>chain_table_rows.
     and_then (get_frame rd ''unrealized_bad_debt'') (\<lambda>unrealized_df.
     and_then (build_bad_debt_table_rows env unrealized_df) (\<lambda>bad_debt_table_rows.
     and_then (bad_debt_section (bad_debt v)) (\<lambda>section.
     and_then (format_usd_doc (bad_debt v)) (\<lambda>kpi_bad_debt.
       Inr (HtmlPage (week_start env) (week_end env)
              (total_liq v) (positions v) (markets v) (chain_count v)
              (if is_zero (bad_debt v) then ''green'' else ''red'')
              phrase kpi_bad_debt
              [img_to_base64 charts fs ''kpi'',
               img_to_base64 charts fs ''daily_liquidations'',
               img_to_base64 charts fs ''liq_by_chain'',
               img_to_base64 charts fs ''bad_debt'']
              chain_table_rows section bad_debt_table_rows))))))))) = Inr page"
    by (simp add: page_of_def)
  then obtain v phrase para where
    v: "read_summary summary = Inr v"
    and p: "bad_debt_text (bad_debt v) = Inr phrase"
    and s: "bad_debt_section (bad_debt v) = Inr para"
    and "page_bad_debt_text page = phrase" "page_bad_debt_section page = para"
    and "page_bad_debt_class page = (if is_zero (bad_debt v) then ''green'' else ''red'')"
    by (auto simp: and_then_Inr)
  with read_summary_bad_debt [OF v] show ?thesis by (auto simp: is_zero_def)
qed

lemma generate_html_Inr:
  assumes "generate_html env rd charts output_path fs = (Inr p, fs')"
  shows "\<exists>page. page_of env rd charts fs = Inr page \<and> fs' output_path = Some (HtmlFile page)"
  using assms by (auto simp: generate_html_def split: sum.splits if_splits)

lemma story_of_no_data:
  assumes "no_data rd ''weekly_summary''" and "no_data rd ''liquidations_by_chain''"
  shows "\<exists>story. story_of env rd charts fs = Inr story"
proof -
  from no_dataD [OF assms(1)] obtain s where
    s: "get_frame rd ''weekly_summary'' = Inr s" "df_empty s" by (elim exE conjE)
  from no_dataD [OF assms(2)] obtain c where
    c: "get_frame rd ''liquidations_by_chain'' = Inr c" "df_empty c" by (elim exE conjE)
  show ?thesis
    using s c
    by (simp add: story_of_def read_summary_def bad_debt_text_def is_zero_def chain_table_def
        bad_debt_section_def)
qed

lemma report_of_no_data:
  assumes "no_data rd ''weekly_summary''" and "no_data rd ''liquidations_by_chain''"
    and "can_write env output_path"
  shows "\<exists>p fs'. generate_report env rd charts output_path fs = (Inr p, fs')"
proof -
  obtain story where "story_of env rd charts fs = Inr story"
    using story_of_no_data [OF assms(1,2)] ..
  with assms(3) show ?thesis by (simp add: generate_report_def)
qed

lemma one_row_summary:
  "get_frame (Map.empty(''weekly_summary'' \<mapsto> Frame [[(''total_bad_debt_usd'', debt)]]))
     ''weekly_summary'' = Inr [[(''total_bad_debt_usd'', debt)]]"
  "reported_bad_debt [[(''total_bad_debt_usd'', debt)]] = debt"
  by (simp_all add: get_frame_def reported_bad_debt_def df_empty_def series_get_def)

lemma one_row_story:
  assumes "format_usd_doc debt = Inr amount"
  shows "\<exists>story. story_of plain_environment
      (Map.empty(''weekly_summary'' \<mapsto> Frame [[(''total_bad_debt_usd'', debt)]]))
      Map.empty Map.empty = Inr story"
  using assms
  by (simp add: story_of_def get_frame_def read_summary_def df_empty_def series_get_def
      format_usd_doc_def int_of_cell_def bad_debt_text_def chain_table_def
      bad_debt_section_def)

lemma one_row_page:
  assumes "format_usd_doc debt = Inr amount"
  shows "\<exists>page. page_of plain_environment
      (Map.empty(''weekly_summary'' \<mapsto> Frame [[(''total_bad_debt_usd'', debt)]]))
      Map.empty Map.empty = Inr page"
  using assms
  by (simp add: page_of_def get_frame_def read_summary_def df_empty_def series_get_def
      format_usd_doc_def int_of_cell_def bad_debt_text_def build_chain_table_rows_def
      build_bad_debt_table_rows_def bad_debt_section_def)

lemma one_row_report:
  assumes "format_usd_doc debt = Inr amount"
  shows "\<exists>fs'. generate_report plain_environment
      (Map.empty(''weekly_summary'' \<mapsto> Frame [[(''total_bad_debt_usd'', debt)]]))
      Map.empty ''report.pdf'' Map.empty = (Inr ''report.pdf'', fs')"
  using one_row_story [OF assms] by (auto simp: generate_report_def plain_environment_def)

lemma one_row_html:
  assumes "format_usd_doc debt = Inr amount"
  shows "\<exists>fs'. generate_html plain_environment
      (Map.empty(''weekly_summary'' \<mapsto> Frame [[(''total_bad_debt_usd'', debt)]]))
      Map.empty ''index.html'' Map.empty = (Inr ''index.html'', fs')"
  using one_row_page [OF assms] by (auto simp: generate_html_def plain_environment_def)

lemma format_examples:
  "format_usd_doc (Num 0) = Inr (Units2 0)"
  "format_usd_doc (Num 1500) = Inr (Thousands (3 / 2))"
  by (simp_all add: format_usd_doc_def)

text \<open>
  Claim C8. A document that is produced from a \<open>weekly_summary\<close> table whose bad debt is
  0, or from an empty one, has the zero realized bad debt phrase as its one TLDR phrase
  and the no bad debt events paragraph as its one Bad Debt Overview paragraph; with any
  other value both are the phrases of the formatted amount. This holds for the PDF and
  for the HTML page. With the summary and the chain table missing or empty and a path
  that can be written, the PDF is produced.
\<close>

theorem zero_bad_debt_branch:
  "(generate_report env rd charts output_path fs = (Inr p, fs')
      \<and> get_frame rd ''weekly_summary'' = Inr summary
    \<longrightarrow> (\<exists>story. fs' output_path = Some (PdfFile story)
          \<and> (if reported_bad_debt summary = Num 0
              then tldr_phrases story = [ZeroRealizedBadDebt]
                   \<and> bad_debt_paragraphs story = [NoBadDebtEvents]
              else \<exists>amount. format_usd_doc (reported_bad_debt summary) = Inr amount
                   \<and> tldr_phrases story = [RealizedBadDebt amount]
                   \<and> bad_debt_paragraphs story = [BadDebtRecorded amount])))
   \<and> (generate_html env rd charts output_path fs = (Inr p, fs')
      \<and> get_frame rd ''weekly_summary'' = Inr summary
    \<longrightarrow> (\<exists>page. fs' output_path = Some (HtmlFile page)
          \<and> (if reported_bad_debt summary = Num 0
              then page_bad_debt_text page = ZeroRealizedBadDebt
                   \<and> page_bad_debt_section page = NoBadDebtEvents
              else \<exists>amount. format_usd_doc (reported_bad_debt summary) = Inr amount
                   \<and> page_bad_debt_text page = RealizedBadDebt amount
                   \<and> page_bad_debt_section page = BadDebtRecorded amount)))
   \<and> (no_data rd ''weekly_summary'' \<and> no_data rd ''liquidations_by_chain''
      \<and> can_write env output_path
    \<longrightarrow> (\<exists>p fs'. generate_report env rd charts output_path fs = (Inr p, fs')))"
proof (intro conjI impI)
  assume a: "generate_report env rd charts output_path fs = (Inr p, fs')
      \<and> get_frame rd ''weekly_summary'' = Inr summary"
  then obtain story where st: "story_of env rd charts fs = Inr story"
    and f: "fs' output_path = Some (PdfFile story)"
    using generate_report_Inr by blast
  from story_of_Inr [OF st] a obtain phrase para where
    ph: "bad_debt_text (reported_bad_debt summary) = Inr phrase"
    and s: "bad_debt_section (reported_bad_debt summary) = Inr para"
    and t: "tldr_phrases story = [phrase]" and b: "bad_debt_paragraphs story = [para]"
    by blast
  from phrase_by_value [OF ph] section_by_value [OF s] t b
  have "if reported_bad_debt summary = Num 0
        then tldr_phrases story = [ZeroRealizedBadDebt]
             \<and> bad_debt_paragraphs story = [NoBadDebtEvents]
        else \<exists>amount. format_usd_doc (reported_bad_debt summary) = Inr amount
             \<and> tldr_phrases story = [RealizedBadDebt amount]
             \<and> bad_debt_paragraphs story = [BadDebtRecorded amount]"
    by (auto split: if_splits)
  with f show "\<exists>story. fs' output_path = Some (PdfFile story)
          \<and> (if reported_bad_debt summary = Num 0
              then tldr_phrases story = [ZeroRealizedBadDebt]
                   \<and> bad_debt_paragraphs story = [NoBadDebtEvents]
              else \<exists>amount. format_usd_doc (reported_bad_debt summary) = Inr amount
                   \<and> tldr_phrases story = [RealizedBadDebt amount]
                   \<and> bad_debt_paragraphs story = [BadDebtRecorded amount])"
    by blast
next
  assume a: "generate_html env rd charts output_path fs = (Inr p, fs')
      \<and> get_frame rd ''weekly_summary'' = Inr summary"
  then obtain page where pg: "page_of env rd charts fs = Inr page"
    and f: "fs' output_path = Some (HtmlFile page)"
    using generate_html_Inr by blast
  from page_of_Inr [OF pg] a obtain phrase para where
    ph: "bad_debt_text (reported_bad_debt summary) = Inr phrase"
    and s: "bad_debt_section (reported_bad_debt summary) = Inr para"
    and t: "page_bad_debt_text page = phrase" and b: "page_bad_debt_section page = para"
    by blast
  from phrase_by_value [OF ph] section_by_value [OF s] t b
  have "if reported_bad_debt summary = Num 0
              then page_bad_debt_text page = ZeroRealizedBadDebt
                   \<and> page_bad_debt_section page = NoBadDebtEvents
              else \<exists>amount. format_usd_doc (reported_bad_debt summary) = Inr amount
                   \<and> page_bad_debt_text page = RealizedBadDebt amount
                   \<and> page_bad_debt_section page = BadDebtRecorded amount"
    by (auto split: if_splits)
  with f show "\<exists>page. fs' output_path = Some (HtmlFile page)
          \<and> (if reported_bad_debt summary = Num 0
              then page_bad_debt_text page = ZeroRealizedBadDebt
                   \<and> page_bad_debt_section page = NoBadDebtEvents
              else \<exists>amount. format_usd_doc (reported_bad_debt summary) = Inr amount
                   \<and> page_bad_debt_text page = RealizedBadDebt amount
                   \<and> page_bad_debt_section page = BadDebtRecorded amount)"
    by blast
next
  assume "no_data rd ''weekly_summary'' \<and> no_data rd ''liquidations_by_chain''
      \<and> can_write env output_path"
  then show "\<exists>p fs'. generate_report env rd charts output_path fs = (Inr p, fs')"
    by (intro report_of_no_data) simp_all
qed

theorem zero_bad_debt_branch_witness:
  "get_frame (Map.empty(''weekly_summary'' \<mapsto> Frame [[(''total_bad_debt_usd'', Num 0)]]))
     ''weekly_summary'' = Inr [[(''total_bad_debt_usd'', Num 0)]]
   \<and> reported_bad_debt [[(''total_bad_debt_usd'', Num 0)]] = Num 0
   \<and> (\<exists>fs' story.
        generate_report plain_environment
          (Map.empty(''weekly_summary'' \<mapsto> Frame [[(''total_bad_debt_usd'', Num 0)]]))
          Map.empty ''report.pdf'' Map.empty = (Inr ''report.pdf'', fs')
        \<and> fs' ''report.pdf'' = Some (PdfFile story)
        \<and> tldr_phrases story = [ZeroRealizedBadDebt]
        \<and> bad_debt_paragraphs story = [NoBadDebtEvents])
   \<and> (\<exists>fs' page.
        generate_html plain_environment
          (Map.empty(''weekly_summary'' \<mapsto> Frame [[(''total_bad_debt_usd'', Num 0)]]))
          Map.empty ''index.html'' Map.empty = (Inr ''index.html'', fs')
        \<and> fs' ''index.html'' = Some (HtmlFile page)
        \<and> page_bad_debt_text page = ZeroRealizedBadDebt
        \<and> page_bad_debt_section page = NoBadDebtEvents)
   \<and> get_frame (Map.empty(''weekly_summary'' \<mapsto> Frame [[(''total_bad_debt_usd'', Num 1500)]]))
     ''weekly_summary'' = Inr [[(''total_bad_debt_usd'', Num 1500)]]
   \<and> reported_bad_debt [[(''total_bad_debt_usd'', Num 1500)]] = Num 1500
   \<and> (\<exists>fs' story.
        generate_report plain_environment
          (Map.empty(''weekly_summary'' \<mapsto> Frame [[(''total_bad_debt_usd'', Num 1500)]]))
          Map.empty ''report.pdf'' Map.empty = (Inr ''report.pdf'', fs')
        \<and> fs' ''report.pdf'' = Some (PdfFile story)
        \<and> tldr_phrases story = [RealizedBadDebt (Thousands (3 / 2))]
        \<and> bad_debt_paragraphs story = [BadDebtRecorded (Thousands (3 / 2))])
   \<and> no_data Map.empty ''weekly_summary'' \<and> no_data Map.empty ''liquidations_by_chain''
   \<and> can_write plain_environment ''report.pdf''
   \<and> (\<exists>p fs'. generate_report plain_environment Map.empty Map.empty ''report.pdf'' Map.empty
         = (Inr p, fs'))"
proof -
  let ?rd0 = "Map.empty(''weekly_summary'' \<mapsto> Frame [[(''total_bad_debt_usd'', Num 0)]])"
  let ?rd1 = "Map.empty(''weekly_summary'' \<mapsto> Frame [[(''total_bad_debt_usd'', Num 1500)]])"
  note t = zero_bad_debt_branch [where env = plain_environment and charts = Map.empty
      and fs = Map.empty]
  obtain f0 where g0: "generate_report plain_environment ?rd0 Map.empty ''report.pdf'' Map.empty
      = (Inr ''report.pdf'', f0)"
    using one_row_report [OF format_examples(1)] ..
  from t [where rd = ?rd0 and output_path = "''report.pdf''" and p = "''report.pdf''"
      and fs' = f0 and summary = "[[(''total_bad_debt_usd'', Num 0)]]"] g0
  obtain s0 where s0: "f0 ''report.pdf'' = Some (PdfFile s0)"
    "tldr_phrases s0 = [ZeroRealizedBadDebt]" "bad_debt_paragraphs s0 = [NoBadDebtEvents]"
    by (auto simp: one_row_summary)
  obtain h0 where k0: "generate_html plain_environment ?rd0 Map.empty ''index.html'' Map.empty
      = (Inr ''index.html'', h0)"
    using one_row_html [OF format_examples(1)] ..
  from t [where rd = ?rd0 and output_path = "''index.html''" and p = "''index.html''"
      and fs' = h0 and summary = "[[(''total_bad_debt_usd'', Num 0)]]"] k0
  obtain pg where pg: "h0 ''index.html'' = Some (HtmlFile pg)"
    "page_bad_debt_text pg = ZeroRealizedBadDebt" "page_bad_debt_section pg = NoBadDebtEvents"
    by (auto simp: one_row_summary)
  obtain f1 where g1: "generate_report plain_environment ?rd1 Map.empty ''report.pdf'' Map.empty
      = (Inr ''report.pdf'', f1)"
    using one_row_report [OF format_examples(2)] ..
  from t [where rd = ?rd1 and output_path = "''report.pdf''" and p = "''report.pdf''"
      and fs' = f1 and summary = "[[(''total_bad_debt_usd'', Num 1500)]]"] g1
  obtain s1 where s1: "f1 ''report.pdf'' = Some (PdfFile s1)"
    "tldr_phrases s1 = [RealizedBadDebt (Thousands (3 / 2))]"
    "bad_debt_paragraphs s1 = [BadDebtRecorded (Thousands (3 / 2))]"
    by (auto simp: one_row_summary format_examples)
  have e: "\<exists>p fs'. generate_report plain_environment Map.empty Map.empty ''report.pdf'' Map.empty
         = (Inr p, fs')"
    using t [where rd = Map.empty and output_path = "''report.pdf''"]
      no_data_absent plain_writes by simp
  show ?thesis
    apply (intro conjI)
    apply (rule one_row_summary)
    apply (rule one_row_summary)
    apply (rule exI [of _ f0], rule exI [of _ s0], intro conjI; fact g0 s0)
    apply (rule exI [of _ h0], rule exI [of _ pg], intro conjI; fact k0 pg)
    apply (rule one_row_summary)
    apply (rule one_row_summary)
    apply (rule exI [of _ f1], rule exI [of _ s1], intro conjI; fact g1 s1)
    apply (rule no_data_absent)
    apply (rule no_data_absent)
    apply (rule plain_writes)
    apply (rule e)
    done
qed

section \<open>Properties of the runners\<close>

lemma fetcher_key:
  "DuneDataFetcher (DUNE_API_KEY d) (if api_key \<noteq> [] then Some api_key else None) =
     (if request_key d api_key = [] then Inl CredentialMissing else Inr (request_key d api_key))"
  by (simp add: DuneDataFetcher_def request_key_def)

lemma fetcher_environment:
  "DuneDataFetcher key None = (if key = [] then Inl CredentialMissing else Inr key)"
  by (simp add: DuneDataFetcher_def)

lemma fetch_returns: "\<exists>rd. fetch_all_report_data api key cfg = Some rd"
  using fetch_stage [of api key cfg] by (elim exE conjE) (rule exI)

lemma import_vaults_Inr:
  assumes "import_vaults d = Inr tracked"
  shows "ALL_TRACKED_VAULTS d = Some tracked"
  using assms by (simp add: import_vaults_def split: option.splits)

lemma staged_cases:
  "drawn = (Inl e, fs1) \<Longrightarrow> staged drawn document finish = (Inl e, fs1)"
  "drawn = (Inr charts, fs1) \<Longrightarrow> document charts fs1 = (Inl e, fs2)
     \<Longrightarrow> staged drawn document finish = (Inl e, fs2)"
  "drawn = (Inr charts, fs1) \<Longrightarrow> document charts fs1 = (Inr p, fs2)
     \<Longrightarrow> staged drawn document finish = (finish fs2, fs2)"
  by (simp_all add: staged_def then_write_def)

text \<open>The web job runner, step by step.\<close>

lemma api_generate_eq:
  "api_generate d jobs job_id use_sample api_key vaults fs =
     map_option
       (\<lambda>r. (case fst r of Inl e \<Rightarrow> jobs(job_id \<mapsto> Failed e)
                           | Inr finished \<Rightarrow> jobs(job_id \<mapsto> finished),
              snd r))
       (run_steps d (jobs(job_id \<mapsto> Running ''Initializing...'')) job_id use_sample api_key
          vaults fs)"
  by (simp add: api_generate_def run_generation_def cong: sum.case_cong)

lemma run_steps_import_error:
  assumes "import_vaults d = Inl e"
  shows "run_steps d jobs job_id use_sample api_key vaults fs = Some (Inl e, fs)"
  using assms by (simp add: run_steps_def)

lemma run_steps_no_key:
  assumes "import_vaults d = Inr tracked" and "active_vaults tracked vaults = Inr active"
    and "request_key d api_key = []"
  shows "run_steps d (jobs(job_id \<mapsto> j)) job_id False api_key vaults fs =
    Some (Inl CredentialMissing, fs)"
  using assms by (simp add: run_steps_def fetch_step_def fetcher_key)

lemma run_steps_live:
  assumes "import_vaults d = Inr tracked" and "active_vaults tracked vaults = Inr active"
    and "request_key d api_key \<noteq> []"
    and "fetch_all_report_data (service d) (request_key d api_key) (queries d) = Some rd"
  shows "run_steps d (jobs(job_id \<mapsto> j)) job_id False api_key vaults fs =
    Some (staged (generate_all_charts (renderer d) rd (REPORTS_DIR d) fs)
            (\<lambda>charts. generate_report (renderer d) rd charts (report_path d))
            (\<lambda>fs2. and_then (getsize (renderer d) fs2 (report_path d))
                     (\<lambda>bytes. Inr (Done (report_filename d) (size_str bytes) (report_path d)))))"
  using assms import_vaults_Inr [OF assms(1)]
  by (simp add: run_steps_def fetch_step_def fetcher_key staged_def report_path_def
      report_filename_def Let_def)

text \<open>The HTML generator, step by step.\<close>

lemma main_no_directory:
  assumes "\<not> can_makedirs args (charts_dir args)"
  shows "main d args fs = Some (Inl (OSError (charts_dir args)), fs)"
  using assms by (simp add: main_def charts_dir_def)

lemma main_no_key:
  assumes "\<not> sample_flag args" and "can_makedirs args (charts_dir args)"
    and "DUNE_API_KEY d = []"
  shows "main d args fs = Some (Inl (SystemExit 1), fs)"
  using assms by (simp add: main_def charts_dir_def fetcher_environment)

lemma main_live:
  assumes "\<not> sample_flag args" and "can_makedirs args (charts_dir args)"
    and "DUNE_API_KEY d \<noteq> []"
    and "fetch_all_report_data (service d) (DUNE_API_KEY d) (queries d) = Some rd"
  shows "main d args fs =
    Some (staged (generate_all_charts (renderer d) rd (charts_dir args) fs)
            (\<lambda>charts. generate_html (renderer d) rd charts (page_path args))
            (\<lambda>fs2. Inr ()))"
  using assms
  by (simp add: main_def charts_dir_def page_path_def fetcher_environment staged_def Let_def)

lemma failing_custom:
  assumes "\<forall>sql. isl (post_execute_sql api key sql)"
  shows "\<exists>e. execute_custom api key cfg name = Some (Inl e)"
proof (cases "map_of (CUSTOM_QUERIES cfg) name")
  case None
  then show ?thesis by (simp add: execute_custom_def)
next
  case (Some sql)
  from assms have "isl (post_execute_sql api key sql)" ..
  then obtain e where "post_execute_sql api key sql = Inl e"
    by (cases "post_execute_sql api key sql") simp_all
  with Some show ?thesis by (simp add: execute_custom_def execute_sql_def)
qed

lemma failing_latest:
  assumes "\<forall>q. isl (get_query_results api key q)"
  shows "or_empty (get_latest_result api key qid) = []"
proof -
  from assms have "isl (get_query_results api key qid)" ..
  then obtain e where "get_query_results api key qid = Inl e"
    by (cases "get_query_results api key qid") simp_all
  then show ?thesis by (simp add: get_latest_result_def or_empty_def)
qed

lemma fetch_dashboards_empty:
  "(\<And>k e. rd k = Some e \<Longrightarrow> e = Frame []) \<Longrightarrow> \<forall>q. isl (get_query_results api key q) \<Longrightarrow>
   fetch_dashboards api key qs rd k = Some e \<Longrightarrow> e = Frame []"
proof (induction qs arbitrary: rd)
  case Nil
  then show ?case by simp
next
  case (Cons q qs)
  obtain n i where q: "q = (n, i)" by (cases q)
  have l: "or_empty (get_latest_result api key i) = []"
    using Cons.prems(2) by (rule failing_latest)
  show ?case
  proof (rule Cons.IH [of "rd(n \<mapsto> Frame [])"])
    fix k' e' assume "(rd(n \<mapsto> Frame [])) k' = Some e'"
    then show "e' = Frame []" using Cons.prems(1) [of k' e'] by (auto split: if_splits)
  next
    show "\<forall>q. isl (get_query_results api key q)" by (rule Cons.prems(2))
  next
    from Cons.prems(3) q l
    show "fetch_dashboards api key qs (rd(n \<mapsto> Frame [])) k = Some e" by simp
  qed
qed

lemma base_empty:
  assumes "(Map.empty
        (''weekly_summary'' \<mapsto> Frame [],
         ''daily_liquidations'' \<mapsto> Frame [],
         ''liquidations_by_chain'' \<mapsto> Frame [],
         ''bad_debt_by_chain'' \<mapsto> Frame [])) k = Some e"
  shows "e = Frame []"
  using assms by (simp split: if_splits)

lemma failing_fetch:
  assumes "\<forall>q. isl (get_query_results api key q)" and "\<forall>sql. isl (post_execute_sql api key sql)"
    and "fetch_all_report_data api key cfg = Some rd"
  shows "no_data rd k"
proof -
  obtain e1 where r1: "execute_custom api key cfg ''weekly_liquidation_summary'' = Some (Inl e1)"
    using failing_custom [OF assms(2)] ..
  obtain e2 where r2: "execute_custom api key cfg ''daily_liquidations_7d'' = Some (Inl e2)"
    using failing_custom [OF assms(2)] ..
  obtain e3 where r3: "execute_custom api key cfg ''weekly_liquidations_by_chain'' = Some (Inl e3)"
    using failing_custom [OF assms(2)] ..
  obtain e4 where r4: "execute_custom api key cfg ''weekly_bad_debt_by_chain'' = Some (Inl e4)"
    using failing_custom [OF assms(2)] ..
  have o: "or_empty (Inl e1) = []" "or_empty (Inl e2) = []" "or_empty (Inl e3) = []"
    "or_empty (Inl e4) = []"
    by (simp_all add: or_empty_def)
  from fetch_all_report_data_eq [OF r1 r2 r3 r4] assms(3)
  have rd: "rd = fetch_dashboards api key (QUERY_IDS cfg)
      (Map.empty
        (''weekly_summary'' \<mapsto> Frame [],
         ''daily_liquidations'' \<mapsto> Frame [],
         ''liquidations_by_chain'' \<mapsto> Frame [],
         ''bad_debt_by_chain'' \<mapsto> Frame []))"
    unfolding o by simp
  have "rd k = None \<or> rd k = Some (Frame [])"
  proof (cases "rd k")
    case None
    then show ?thesis by simp
  next
    case (Some e)
    have "e = Frame []"
    proof (rule fetch_dashboards_empty [OF _ assms(1)])
      fix k' e'
      assume "(Map.empty
        (''weekly_summary'' \<mapsto> Frame [],
         ''daily_liquidations'' \<mapsto> Frame [],
         ''liquidations_by_chain'' \<mapsto> Frame [],
         ''bad_debt_by_chain'' \<mapsto> Frame [])) k' = Some e'"
      then show "e' = Frame []" by (rule base_empty)
    next
      from Some show "fetch_dashboards api key (QUERY_IDS cfg)
        (Map.empty
          (''weekly_summary'' \<mapsto> Frame [],
           ''daily_liquidations'' \<mapsto> Frame [],
           ''liquidations_by_chain'' \<mapsto> Frame [],
           ''bad_debt_by_chain'' \<mapsto> Frame [])) k = Some e"
        unfolding rd .
    qed
    with Some show ?thesis by simp
  qed
  then show ?thesis by (auto simp: no_data_def get_frame_def df_empty_def)
qed


lemma generate_report_path:
  assumes "generate_report env rd charts output_path fs = (Inr p, fs')"
  shows "p = output_path"
  using assms by (auto simp: generate_report_def split: sum.splits if_splits)

lemma generate_html_path:
  assumes "generate_html env rd charts output_path fs = (Inr p, fs')"
  shows "p = output_path"
  using assms by (auto simp: generate_html_def split: sum.splits if_splits)

lemma page_of_no_data:
  assumes "no_data rd ''weekly_summary''" and "no_data rd ''liquidations_by_chain''"
    and "no_data rd ''unrealized_bad_debt''"
  shows "\<exists>page. page_of env rd charts fs = Inr page"
proof -
  from no_dataD [OF assms(1)] obtain s where
    s: "get_frame rd ''weekly_summary'' = Inr s" "df_empty s" by (elim exE conjE)
  from no_dataD [OF assms(2)] obtain c where
    c: "get_frame rd ''liquidations_by_chain'' = Inr c" "df_empty c" by (elim exE conjE)
  from no_dataD [OF assms(3)] obtain u where
    u: "get_frame rd ''unrealized_bad_debt'' = Inr u" "df_empty u" by (elim exE conjE)
  show ?thesis
    using s c u
    by (simp add: page_of_def read_summary_def bad_debt_text_def is_zero_def
        build_chain_table_rows_def build_bad_debt_table_rows_def bad_debt_section_def
        format_usd_doc_def)
qed

lemma html_of_no_data:
  assumes "no_data rd ''weekly_summary''" and "no_data rd ''liquidations_by_chain''"
    and "no_data rd ''unrealized_bad_debt''" and "can_write env output_path"
  shows "\<exists>page. generate_html env rd charts output_path fs =
    (Inr output_path, fs(output_path \<mapsto> HtmlFile page))"
proof -
  obtain page where "page_of env rd charts fs = Inr page"
    using page_of_no_data [OF assms(1-3)] ..
  with assms(4) have "generate_html env rd charts output_path fs =
    (Inr output_path, fs(output_path \<mapsto> HtmlFile page))"
    by (simp add: generate_html_def)
  then show ?thesis by (rule exI)
qed

lemma failing_job:
  assumes i: "import_vaults d = Inr tracked" and a: "active_vaults tracked vaults = Inr active"
    and k: "request_key d api_key \<noteq> []"
    and q: "\<forall>q. isl (get_query_results (service d) (request_key d api_key) q)"
    and p: "\<forall>sql. isl (post_execute_sql (service d) (request_key d api_key) sql)"
    and w: "can_write (renderer d) (path_join (REPORTS_DIR d) ''chart_kpi_cards.png'')"
      "can_write (renderer d) (path_join (REPORTS_DIR d) ''chart_daily_liquidations.png'')"
      "can_write (renderer d) (path_join (REPORTS_DIR d) ''chart_liq_by_chain.png'')"
      "can_write (renderer d) (path_join (REPORTS_DIR d) ''chart_bad_debt.png'')"
      "can_write (renderer d) (report_path d)"
  shows "\<exists>story fs'.
    api_generate d jobs job_id False api_key vaults fs =
      Some (jobs(job_id \<mapsto>
              Done (report_filename d) (size_str (size_of (renderer d) (PdfFile story)))
                (report_path d)), fs')
    \<and> fs' (report_path d) = Some (PdfFile story)"
proof -
  obtain rd where rd:
    "fetch_all_report_data (service d) (request_key d api_key) (queries d) = Some rd"
    using fetch_returns ..
  note n = failing_fetch [OF q p rd]
  obtain charts fs1 where c:
    "generate_all_charts (renderer d) rd (REPORTS_DIR d) fs = (Inr charts, fs1)"
    using chart_stage_returns [OF n n n n n w(1-4), of fs] by (elim exE)
  obtain path fs2 where g:
    "generate_report (renderer d) rd charts (report_path d) fs1 = (Inr path, fs2)"
    using report_of_no_data [OF n n w(5), of charts fs1] by (elim exE)
  obtain story where s: "fs2 (report_path d) = Some (PdfFile story)"
    using generate_report_Inr [OF g] by (elim exE conjE)
  have "run_steps d (jobs(job_id \<mapsto> Running ''Initializing...'')) job_id False api_key vaults fs
    = Some (Inr (Done (report_filename d) (size_str (size_of (renderer d) (PdfFile story)))
                (report_path d)), fs2)"
    unfolding run_steps_live [OF i a k rd]
      staged_cases(3) [where document = "\<lambda>charts. generate_report (renderer d) rd charts (report_path d)",
        OF c g]
    by (simp add: getsize_def s)
  then have "api_generate d jobs job_id False api_key vaults fs =
      Some (jobs(job_id \<mapsto>
              Done (report_filename d) (size_str (size_of (renderer d) (PdfFile story)))
                (report_path d)), fs2)"
    unfolding api_generate_eq by simp
  with s show ?thesis by (intro exI conjI)
qed

lemma failing_main:
  assumes a: "\<not> sample_flag args" "can_makedirs args (charts_dir args)"
    and k: "DUNE_API_KEY d \<noteq> []"
    and q: "\<forall>q. isl (get_query_results (service d) (DUNE_API_KEY d) q)"
    and p: "\<forall>sql. isl (post_execute_sql (service d) (DUNE_API_KEY d) sql)"
    and w: "can_write (renderer d) (path_join (charts_dir args) ''chart_kpi_cards.png'')"
      "can_write (renderer d) (path_join (charts_dir args) ''chart_daily_liquidations.png'')"
      "can_write (renderer d) (path_join (charts_dir args) ''chart_liq_by_chain.png'')"
      "can_write (renderer d) (path_join (charts_dir args) ''chart_bad_debt.png'')"
      "can_write (renderer d) (page_path args)"
  shows "\<exists>page fs'. main d args fs = Some (Inr (), fs')
    \<and> fs' (page_path args) = Some (HtmlFile page)"
proof -
  obtain rd where rd: "fetch_all_report_data (service d) (DUNE_API_KEY d) (queries d) = Some rd"
    using fetch_returns ..
  note n = failing_fetch [OF q p rd]
  obtain charts fs1 where c:
    "generate_all_charts (renderer d) rd (charts_dir args) fs = (Inr charts, fs1)"
    using chart_stage_returns [OF n n n n n w(1-4), of fs] by (elim exE)
  obtain page where g: "generate_html (renderer d) rd charts (page_path args) fs1 =
    (Inr (page_path args), fs1(page_path args \<mapsto> HtmlFile page))"
    using html_of_no_data [OF n n n w(5), of charts fs1] ..
  have "main d args fs = Some (Inr (), fs1(page_path args \<mapsto> HtmlFile page))"
    unfolding main_live [OF a k rd]
      staged_cases(3) [where document = "\<lambda>charts. generate_html (renderer d) rd charts (page_path args)",
        OF c g] ..
  then show ?thesis by (intro exI [of _ page] exI [of _ "fs1(page_path args \<mapsto> HtmlFile page)"]) simp
qed

lemma no_key_job:
  assumes "import_vaults d = Inr tracked" and "active_vaults tracked vaults = Inr active"
    and "api_key = []" and "DUNE_API_KEY d = []"
  shows "api_generate d jobs job_id False api_key vaults fs =
    Some (jobs(job_id \<mapsto> Failed CredentialMissing), fs)"
proof -
  from assms(3,4) have "request_key d api_key = []" by (simp add: request_key_def)
  then show ?thesis
    unfolding api_generate_eq by (simp add: run_steps_no_key [OF assms(1,2)])
qed

text \<open>
  With a configuration that lacks a vault list, as the one at hand does, every job of
  the web application ends with the import error, whatever the request.
\<close>

lemma import_error_job:
  assumes "import_vaults d = Inl e"
  shows "api_generate d jobs job_id use_sample api_key vaults fs =
    Some (jobs(job_id \<mapsto> Failed e), fs)"
  unfolding api_generate_eq by (simp add: run_steps_import_error [OF assms])

lemma job_at_hand:
  "api_generate (plain_deployment api) jobs job_id use_sample api_key vaults fs =
     Some (jobs(job_id \<mapsto> Failed (ImportError ''BLUECHIP_VAULTS'')), fs)"
  by (rule import_error_job) (simp add: import_vaults_def plain_deployment_def)

lemma live_job_outcome:
  assumes i: "import_vaults d = Inr tracked" and a: "active_vaults tracked vaults = Inr active"
    and k: "request_key d api_key \<noteq> []"
    and rd: "fetch_all_report_data (service d) (request_key d api_key) (queries d) = Some rd"
  shows "\<exists>outcome fs'.
    api_generate d jobs job_id False api_key vaults fs = Some (jobs(job_id \<mapsto> outcome), fs')
    \<and> (case outcome of
          Running message \<Rightarrow> False
        | Failed e \<Rightarrow>
            fst (generate_all_charts (renderer d) rd (REPORTS_DIR d) fs) = Inl e
            \<or> (\<exists>charts fs1.
                  generate_all_charts (renderer d) rd (REPORTS_DIR d) fs = (Inr charts, fs1)
                  \<and> fst (generate_report (renderer d) rd charts (report_path d) fs1) = Inl e)
        | Done filename size_text path \<Rightarrow>
            filename = report_filename d \<and> path = report_path d
            \<and> (\<exists>charts fs1 story.
                  generate_all_charts (renderer d) rd (REPORTS_DIR d) fs = (Inr charts, fs1)
                  \<and> generate_report (renderer d) rd charts path fs1 = (Inr path, fs')
                  \<and> fs' path = Some (PdfFile story)))"
proof -
  let ?doc = "\<lambda>charts. generate_report (renderer d) rd charts (report_path d)"
  let ?drawn = "generate_all_charts (renderer d) rd (REPORTS_DIR d) fs"
  note run = run_steps_live [OF i a k rd]
  obtain r fs1 where c: "?drawn = (r, fs1)" by (cases ?drawn)
  show ?thesis
  proof (cases r)
    case (Inl e)
    with c have c': "?drawn = (Inl e, fs1)" by simp
    have "api_generate d jobs job_id False api_key vaults fs =
      Some (jobs(job_id \<mapsto> Failed e), fs1)"
      unfolding api_generate_eq run staged_cases(1) [OF c'] by simp
    moreover have "fst ?drawn = Inl e" using c' by simp
    ultimately show ?thesis by (intro exI [of _ "Failed e"] exI [of _ fs1]) simp
  next
    case (Inr charts)
    with c have c': "?drawn = (Inr charts, fs1)" by simp
    obtain r2 fs2 where g: "?doc charts fs1 = (r2, fs2)" by (cases "?doc charts fs1")
    show ?thesis
    proof (cases r2)
      case (Inl e)
      with g have g': "?doc charts fs1 = (Inl e, fs2)" by simp
      have "api_generate d jobs job_id False api_key vaults fs =
        Some (jobs(job_id \<mapsto> Failed e), fs2)"
        unfolding api_generate_eq run staged_cases(2) [where document = ?doc, OF c' g'] by simp
      moreover have "\<exists>charts fs1. ?drawn = (Inr charts, fs1) \<and> fst (?doc charts fs1) = Inl e"
        using c' g' by (intro exI [of _ charts] exI [of _ fs1]) simp
      ultimately show ?thesis by (intro exI [of _ "Failed e"] exI [of _ fs2]) simp
    next
      case (Inr p)
      with g have g': "?doc charts fs1 = (Inr p, fs2)" by simp
      obtain story where s: "fs2 (report_path d) = Some (PdfFile story)"
        using generate_report_Inr [OF g'] by (elim exE conjE)
      have "api_generate d jobs job_id False api_key vaults fs =
        Some (jobs(job_id \<mapsto>
          Done (report_filename d) (size_str (size_of (renderer d) (PdfFile story)))
            (report_path d)), fs2)"
        unfolding api_generate_eq run staged_cases(3) [where document = ?doc, OF c' g']
        by (simp add: getsize_def s)
      moreover have "\<exists>charts fs1 story.
          ?drawn = (Inr charts, fs1) \<and> ?doc charts fs1 = (Inr (report_path d), fs2)
          \<and> fs2 (report_path d) = Some (PdfFile story)"
        using c' g' s generate_report_path [OF g']
        by (intro exI [of _ charts] exI [of _ fs1] exI [of _ story]) simp
      ultimately show ?thesis
        by (intro exI [of _ "Done (report_filename d)
          (size_str (size_of (renderer d) (PdfFile story))) (report_path d)"] exI [of _ fs2])
          simp
    qed
  qed
qed

lemma unwritable_report:
  assumes i: "import_vaults d = Inr tracked" and a: "active_vaults tracked vaults = Inr active"
    and k: "request_key d api_key \<noteq> []"
    and rd: "fetch_all_report_data (service d) (request_key d api_key) (queries d) = Some rd"
    and c: "generate_all_charts (renderer d) rd (REPORTS_DIR d) fs = (Inr charts, fs1)"
    and s: "story_of (renderer d) rd charts fs1 = Inr story"
    and w: "\<not> can_write (renderer d) (report_path d)"
  shows "api_generate d jobs job_id False api_key vaults fs =
    Some (jobs(job_id \<mapsto> Failed (OSError (report_path d))), fs1)"
proof -
  let ?doc = "\<lambda>charts. generate_report (renderer d) rd charts (report_path d)"
  have g: "?doc charts fs1 = (Inl (OSError (report_path d)), fs1)"
    using s w by (simp add: generate_report_def)
  show ?thesis
    unfolding api_generate_eq run_steps_live [OF i a k rd]
      staged_cases(2) [where document = ?doc, OF c g] by simp
qed

lemma live_main_outcome:
  assumes a: "\<not> sample_flag args" "can_makedirs args (charts_dir args)"
    and k: "DUNE_API_KEY d \<noteq> []"
    and rd: "fetch_all_report_data (service d) (DUNE_API_KEY d) (queries d) = Some rd"
  shows "\<exists>outcome fs'.
    main d args fs = Some (outcome, fs')
    \<and> (case outcome of
          Inl e \<Rightarrow>
            fst (generate_all_charts (renderer d) rd (charts_dir args) fs) = Inl e
            \<or> (\<exists>charts fs1.
                  generate_all_charts (renderer d) rd (charts_dir args) fs = (Inr charts, fs1)
                  \<and> fst (generate_html (renderer d) rd charts (page_path args) fs1) = Inl e)
        | Inr returned \<Rightarrow>
            (\<exists>charts fs1 page.
               generate_all_charts (renderer d) rd (charts_dir args) fs = (Inr charts, fs1)
               \<and> generate_html (renderer d) rd charts (page_path args) fs1 =
                   (Inr (page_path args), fs')
               \<and> fs' (page_path args) = Some (HtmlFile page)))"
proof -
  let ?doc = "\<lambda>charts. generate_html (renderer d) rd charts (page_path args)"
  let ?drawn = "generate_all_charts (renderer d) rd (charts_dir args) fs"
  note run = main_live [OF a k rd]
  obtain r fs1 where c: "?drawn = (r, fs1)" by (cases ?drawn)
  show ?thesis
  proof (cases r)
    case (Inl e)
    with c have c': "?drawn = (Inl e, fs1)" by simp
    have "main d args fs = Some (Inl e, fs1)"
      unfolding run staged_cases(1) [OF c'] ..
    moreover have "fst ?drawn = Inl e" using c' by simp
    ultimately show ?thesis by (intro exI [of _ "Inl e"] exI [of _ fs1]) simp
  next
    case (Inr charts)
    with c have c': "?drawn = (Inr charts, fs1)" by simp
    obtain r2 fs2 where g: "?doc charts fs1 = (r2, fs2)" by (cases "?doc charts fs1")
    show ?thesis
    proof (cases r2)
      case (Inl e)
      with g have g': "?doc charts fs1 = (Inl e, fs2)" by simp
      have "main d args fs = Some (Inl e, fs2)"
        unfolding run staged_cases(2) [where document = ?doc, OF c' g'] ..
      moreover have "\<exists>charts fs1. ?drawn = (Inr charts, fs1) \<and> fst (?doc charts fs1) = Inl e"
        using c' g' by (intro exI [of _ charts] exI [of _ fs1]) simp
      ultimately show ?thesis by (intro exI [of _ "Inl e"] exI [of _ fs2]) simp
    next
      case (Inr p)
      with g have g': "?doc charts fs1 = (Inr p, fs2)" by simp
      obtain page where s: "fs2 (page_path args) = Some (HtmlFile page)"
        using generate_html_Inr [OF g'] by (elim exE conjE)
      have "main d args fs = Some (Inr (), fs2)"
        unfolding run staged_cases(3) [where document = ?doc, OF c' g'] ..
      moreover have "\<exists>charts fs1 page.
          ?drawn = (Inr charts, fs1) \<and> ?doc charts fs1 = (Inr (page_path args), fs2)
          \<and> fs2 (page_path args) = Some (HtmlFile page)"
        using c' g' s generate_html_path [OF g']
        by (intro exI [of _ charts] exI [of _ fs1] exI [of _ page]) simp
      ultimately show ?thesis by (intro exI [of _ "Inr ()"] exI [of _ fs2]) simp
    qed
  qed
qed

lemma unwritable_page:
  assumes a: "\<not> sample_flag args" "can_makedirs args (charts_dir args)"
    and k: "DUNE_API_KEY d \<noteq> []"
    and rd: "fetch_all_report_data (service d) (DUNE_API_KEY d) (queries d) = Some rd"
    and c: "generate_all_charts (renderer d) rd (charts_dir args) fs = (Inr charts, fs1)"
    and s: "page_of (renderer d) rd charts fs1 = Inr page"
    and w: "\<not> can_write (renderer d) (page_path args)"
  shows "main d args fs = Some (Inl (OSError (page_path args)), fs1)"
proof -
  let ?doc = "\<lambda>charts. generate_html (renderer d) rd charts (page_path args)"
  have g: "?doc charts fs1 = (Inl (OSError (page_path args)), fs1)"
    using s w by (simp add: generate_html_def)
  show ?thesis
    unfolding main_live [OF a k rd] staged_cases(2) [where document = ?doc, OF c g] ..
qed

lemma keyed_names:
  "DUNE_API_KEY (keyed_deployment api key) = key"
  "service (keyed_deployment api key) = api"
  "queries (keyed_deployment api key) = morpho_config"
  "renderer (keyed_deployment api key) = plain_environment"
  by (simp_all add: keyed_deployment_def plain_deployment_def)

lemma plain_start:
  "\<not> sample_flag plain_invocation"
  "can_makedirs plain_invocation path"
  "charts_dir plain_invocation = ''/srv/report/output''"
  "page_path plain_invocation = ''/srv/report/index.html''"
  by (simp_all add: plain_invocation_def charts_dir_def page_path_def path_join_def)

lemma vaults_names:
  "import_vaults (vaults_deployment api) = Inr [[(''name'', ''Gauntlet USDC Prime'')]]"
  "DUNE_API_KEY (vaults_deployment api) = []"
  "request_key (vaults_deployment api) ''key'' = ''key''"
  "request_key (vaults_deployment api) ''wrong-key'' = ''wrong-key''"
  "service (vaults_deployment api) = api"
  "queries (vaults_deployment api) = morpho_config"
  "renderer (vaults_deployment api) = plain_environment"
  "REPORTS_DIR (vaults_deployment api) = ''output''"
  "report_filename (vaults_deployment api) = ''morpho_risk_report_2024-01-08_0900.pdf''"
  "report_path (vaults_deployment api) = ''output/morpho_risk_report_2024-01-08_0900.pdf''"
  by (simp_all add: vaults_deployment_def plain_deployment_def import_vaults_def
      request_key_def report_filename_def report_path_def plain_environment_def
      path_join_def)

lemma images_only_job_names:
  "import_vaults ((vaults_deployment api)\<lparr>renderer := images_only_environment\<rparr>) =
     Inr [[(''name'', ''Gauntlet USDC Prime'')]]"
  "request_key ((vaults_deployment api)\<lparr>renderer := images_only_environment\<rparr>) ''key'' =
     ''key''"
  "service ((vaults_deployment api)\<lparr>renderer := images_only_environment\<rparr>) = api"
  "queries ((vaults_deployment api)\<lparr>renderer := images_only_environment\<rparr>) = morpho_config"
  "renderer ((vaults_deployment api)\<lparr>renderer := images_only_environment\<rparr>) =
     images_only_environment"
  "REPORTS_DIR ((vaults_deployment api)\<lparr>renderer := images_only_environment\<rparr>) = ''output''"
  "report_path ((vaults_deployment api)\<lparr>renderer := images_only_environment\<rparr>) =
     ''output/morpho_risk_report_2024-01-08_0900.pdf''"
  by (simp_all add: vaults_deployment_def plain_deployment_def import_vaults_def
      request_key_def report_filename_def report_path_def plain_environment_def
      images_only_environment_def path_join_def)

lemma images_only_main_names:
  "DUNE_API_KEY ((keyed_deployment api key)\<lparr>renderer := images_only_environment\<rparr>) = key"
  "service ((keyed_deployment api key)\<lparr>renderer := images_only_environment\<rparr>) = api"
  "queries ((keyed_deployment api key)\<lparr>renderer := images_only_environment\<rparr>) =
     morpho_config"
  "renderer ((keyed_deployment api key)\<lparr>renderer := images_only_environment\<rparr>) =
     images_only_environment"
  by (simp_all add: keyed_deployment_def plain_deployment_def)

lemma selected_prime:
  "active_vaults [[(''name'', ''Gauntlet USDC Prime'')]] [''Gauntlet USDC Prime''] =
     Inr [[(''name'', ''Gauntlet USDC Prime'')]]"
  by (simp add: active_vaults_def vault_name_def)

lemma plain_size: "size_str (size_of plain_environment c) = KB 2"
  by (simp add: size_str_def plain_environment_def)

lemma rejecting_fails:
  "\<forall>q. isl (get_query_results rejecting_api key q)"
  "\<forall>sql. isl (post_execute_sql rejecting_api key sql)"
  by (simp_all add: rejecting_api_def)

lemma images_only_writes:
  "can_write images_only_environment (path_join ''output'' ''chart_kpi_cards.png'')"
  "can_write images_only_environment (path_join ''output'' ''chart_daily_liquidations.png'')"
  "can_write images_only_environment (path_join ''output'' ''chart_liq_by_chain.png'')"
  "can_write images_only_environment (path_join ''output'' ''chart_bad_debt.png'')"
  "can_write images_only_environment (path_join ''/srv/report/output'' ''chart_kpi_cards.png'')"
  "can_write images_only_environment
     (path_join ''/srv/report/output'' ''chart_daily_liquidations.png'')"
  "can_write images_only_environment
     (path_join ''/srv/report/output'' ''chart_liq_by_chain.png'')"
  "can_write images_only_environment (path_join ''/srv/report/output'' ''chart_bad_debt.png'')"
  "\<not> can_write images_only_environment ''output/morpho_risk_report_2024-01-08_0900.pdf''"
  "\<not> can_write images_only_environment ''/srv/report/index.html''"
  by (simp_all add: images_only_environment_def plain_environment_def path_join_def)

lemma images_only_stages:
  "\<exists>rd charts fs1 story.
     fetch_all_report_data rejecting_api ''key'' morpho_config = Some rd
     \<and> generate_all_charts images_only_environment rd ''output'' Map.empty = (Inr charts, fs1)
     \<and> story_of images_only_environment rd charts fs1 = Inr story"
proof -
  obtain rd where rd: "fetch_all_report_data rejecting_api ''key'' morpho_config = Some rd"
    using fetch_returns ..
  note n = failing_fetch [OF rejecting_fails rd]
  obtain charts fs1 where c:
    "generate_all_charts images_only_environment rd ''output'' Map.empty = (Inr charts, fs1)"
    using chart_stage_returns [OF n n n n n images_only_writes(1-4), of Map.empty]
    by (elim exE)
  obtain story where s: "story_of images_only_environment rd charts fs1 = Inr story"
    using story_of_no_data [OF n n] ..
  from rd c s show ?thesis by (intro exI conjI)
qed

lemma images_only_page_stages:
  "\<exists>rd charts fs1 page.
     fetch_all_report_data rejecting_api ''key'' morpho_config = Some rd
     \<and> generate_all_charts images_only_environment rd ''/srv/report/output'' Map.empty =
         (Inr charts, fs1)
     \<and> page_of images_only_environment rd charts fs1 = Inr page"
proof -
  obtain rd where rd: "fetch_all_report_data rejecting_api ''key'' morpho_config = Some rd"
    using fetch_returns ..
  note n = failing_fetch [OF rejecting_fails rd]
  obtain charts fs1 where c:
    "generate_all_charts images_only_environment rd ''/srv/report/output'' Map.empty =
      (Inr charts, fs1)"
    using chart_stage_returns [OF n n n n n images_only_writes(5-8), of Map.empty]
    by (elim exE)
  obtain page where s: "page_of images_only_environment rd charts fs1 = Inr page"
    using page_of_no_data [OF n n n] ..
  from rd c s show ?thesis by (intro exI conjI)
qed

lemma null_sums_frame: "rows_frame [null_sums] = [null_sums]"
  by (simp add: rows_frame_def DataFrame_def columns_def null_sums_def)

lemma quiet_summary:
  "execute_custom quiet_week_api key morpho_config ''weekly_liquidation_summary'' =
     Some (Inr [null_sums])"
proof -
  have s: "map_of (CUSTOM_QUERIES morpho_config) ''weekly_liquidation_summary'' =
    Some (snd (CUSTOM_QUERIES morpho_config ! 3))"
    by (simp add: morpho_config_def)
  have p: "post_execute_sql quiet_week_api key (snd (CUSTOM_QUERIES morpho_config ! 3)) =
    Inr (Some ''summary'')"
    by (simp add: quiet_week_api_def morpho_config_def startswith_def)
  have st: "get_execution_status quiet_week_api key ''summary'' 0 =
    Inr (''QUERY_STATE_COMPLETED'', None)"
    by (simp add: quiet_week_api_def)
  have r: "get_execution_results quiet_week_api key ''summary'' = Inr [null_sums]"
    by (simp add: quiet_week_api_def)
  have "execute_sql quiet_week_api key (snd (CUSTOM_QUERIES morpho_config ! 3)) 2 120 =
    Some (Inr [null_sums])"
    unfolding execute_sql_started [OF p, simplified]
    by (subst poll_loop_completed [OF st]) (simp_all add: r null_sums_frame)
  with s show ?thesis by (simp add: execute_custom_def)
qed

lemma quiet_fetch:
  "\<exists>rd. fetch_all_report_data quiet_week_api key morpho_config = Some rd
     \<and> get_frame rd ''weekly_summary'' = Inr [null_sums]"
proof -
  obtain r2 where r2: "execute_custom quiet_week_api key morpho_config ''daily_liquidations_7d''
    = Some r2" using execute_custom_returns ..
  obtain r3 where r3:
    "execute_custom quiet_week_api key morpho_config ''weekly_liquidations_by_chain'' = Some r3"
    using execute_custom_returns ..
  obtain r4 where r4:
    "execute_custom quiet_week_api key morpho_config ''weekly_bad_debt_by_chain'' = Some r4"
    using execute_custom_returns ..
  note e = fetch_all_report_data_eq [OF quiet_summary r2 r3 r4]
  have n: "''weekly_summary'' \<notin> fst ` set (QUERY_IDS morpho_config)"
    by (simp add: morpho_config_def)
  show ?thesis
    unfolding e
    by (rule exI, rule conjI, rule refl)
       (simp add: get_frame_def fetch_dashboards_other [OF n] or_empty_def)
qed

lemma null_kpi: "kpi_card_image (summary_metrics [null_sums]) = Inl TypeError"
  by (simp add: summary_metrics_def df_empty_def null_sums_def kpi_card_image_def
      series_get_def format_usd_def)

lemma quiet_charts:
  assumes "get_frame rd ''weekly_summary'' = Inr [null_sums]"
  shows "\<exists>fs1. generate_all_charts env rd dir fs = (Inl TypeError, fs1)"
proof -
  have "fst (generate_all_charts env rd dir fs) = Inl TypeError"
    unfolding generate_all_charts_four
    by (rule write_four_first_fails) (simp add: assms null_kpi)
  then show ?thesis by (cases "generate_all_charts env rd dir fs") simp
qed

lemma quiet_main:
  assumes "key \<noteq> []"
  shows "\<exists>fs'. main (keyed_deployment quiet_week_api key) plain_invocation fs =
    Some (Inl TypeError, fs')"
proof -
  let ?d = "keyed_deployment quiet_week_api key"
  obtain rd where rd: "fetch_all_report_data quiet_week_api key morpho_config = Some rd"
    and s: "get_frame rd ''weekly_summary'' = Inr [null_sums]"
    using quiet_fetch [of key] by (elim exE conjE)
  obtain fs1 where c:
    "generate_all_charts plain_environment rd ''/srv/report/output'' fs = (Inl TypeError, fs1)"
    using quiet_charts [OF s] ..
  from rd have rd': "fetch_all_report_data (service ?d) (DUNE_API_KEY ?d) (queries ?d)
    = Some rd" by (simp add: keyed_names)
  from assms have k: "DUNE_API_KEY ?d \<noteq> []" by (simp add: keyed_names)
  have "main ?d plain_invocation fs = Some (Inl TypeError, fs1)"
    unfolding main_live [OF plain_start(1,2) k rd'] keyed_names plain_start
      staged_cases(1) [OF c] ..
  then show ?thesis by (intro exI)
qed

lemma rejected_main:
  assumes "key \<noteq> []"
  shows "\<exists>page fs'. main (keyed_deployment rejecting_api key) plain_invocation fs =
      Some (Inr (), fs')
    \<and> fs' ''/srv/report/index.html'' = Some (HtmlFile page)"
proof -
  from assms have k: "DUNE_API_KEY (keyed_deployment rejecting_api key) \<noteq> []"
    by (simp add: keyed_names)
  from failing_main [where d = "keyed_deployment rejecting_api key"
      and args = plain_invocation, OF plain_start(1,2) k,
      unfolded keyed_names plain_start, OF rejecting_fails plain_writes plain_writes
      plain_writes plain_writes plain_writes, of fs]
  show ?thesis .
qed

text \<open>
  Claim C2, as amended. The statements are on a live run of the HTML generator that can
  create its directory (the first four) and on a live job of the web application once
  the import of the vault lists and the filter of the active vaults have returned (the
  last four). Such a run ends, and
  \<^item> with no key, it ends on the missing credential before any fetch, with no file
    written: the generator, which has the key of the environment as \<open>config\<close> read it,
    exits with status 1; the job, which has the key of the form or else that key, is
    the failed job of the missing credential;
  \<^item> with a key, whatever the service answers, the fetch stage returns the report data,
    and the run ends with an exception exactly when the chart stage or, after it, the
    document stage raises on these data, with that exception; otherwise it ends with
    the document at its path;
  \<^item> when the charts are written, the document is built and its path cannot be written,
    the run ends with the error of that write;
  \<^item> when the service fails every request and the paths can be written, the run ends
    with the document at its path.
\<close>

theorem live_run_outcomes:
  "(\<not> sample_flag args \<and> can_makedirs args (charts_dir args) \<and> DUNE_API_KEY d = []
      \<longrightarrow> main d args fs = Some (Inl (SystemExit 1), fs))
   \<and> (\<not> sample_flag args \<and> can_makedirs args (charts_dir args) \<and> DUNE_API_KEY d \<noteq> []
      \<longrightarrow> (\<exists>rd outcome fs'.
            fetch_all_report_data (service d) (DUNE_API_KEY d) (queries d) = Some rd
            \<and> main d args fs = Some (outcome, fs')
            \<and> (case outcome of
                  Inl e \<Rightarrow>
                    fst (generate_all_charts (renderer d) rd (charts_dir args) fs) = Inl e
                    \<or> (\<exists>charts fs1.
                          generate_all_charts (renderer d) rd (charts_dir args) fs =
                            (Inr charts, fs1)
                          \<and> fst (generate_html (renderer d) rd charts (page_path args) fs1) =
                              Inl e)
                | Inr returned \<Rightarrow>
                    (\<exists>charts fs1 page.
                       generate_all_charts (renderer d) rd (charts_dir args) fs =
                         (Inr charts, fs1)
                       \<and> generate_html (renderer d) rd charts (page_path args) fs1 =
                           (Inr (page_path args), fs')
                       \<and> fs' (page_path args) = Some (HtmlFile page)))))
   \<and> (\<not> sample_flag args \<and> can_makedirs args (charts_dir args) \<and> DUNE_API_KEY d \<noteq> []
        \<and> fetch_all_report_data (service d) (DUNE_API_KEY d) (queries d) = Some rd
        \<and> generate_all_charts (renderer d) rd (charts_dir args) fs = (Inr charts, fs1)
        \<and> page_of (renderer d) rd charts fs1 = Inr page
        \<and> \<not> can_write (renderer d) (page_path args)
      \<longrightarrow> main d args fs = Some (Inl (OSError (page_path args)), fs1))
   \<and> (\<not> sample_flag args \<and> can_makedirs args (charts_dir args) \<and> DUNE_API_KEY d \<noteq> []
        \<and> (\<forall>q. isl (get_query_results (service d) (DUNE_API_KEY d) q))
        \<and> (\<forall>sql. isl (post_execute_sql (service d) (DUNE_API_KEY d) sql))
        \<and> can_write (renderer d) (path_join (charts_dir args) ''chart_kpi_cards.png'')
        \<and> can_write (renderer d) (path_join (charts_dir args) ''chart_daily_liquidations.png'')
        \<and> can_write (renderer d) (path_join (charts_dir args) ''chart_liq_by_chain.png'')
        \<and> can_write (renderer d) (path_join (charts_dir args) ''chart_bad_debt.png'')
        \<and> can_write (renderer d) (page_path args)
      \<longrightarrow> (\<exists>page fs'. main d args fs = Some (Inr (), fs')
            \<and> fs' (page_path args) = Some (HtmlFile page)))
   \<and> (import_vaults d = Inr tracked \<and> active_vaults tracked vaults = Inr active
        \<and> api_key = [] \<and> DUNE_API_KEY d = []
      \<longrightarrow> api_generate d jobs job_id False api_key vaults fs =
            Some (jobs(job_id \<mapsto> Failed CredentialMissing), fs))
   \<and> (import_vaults d = Inr tracked \<and> active_vaults tracked vaults = Inr active
        \<and> request_key d api_key \<noteq> []
      \<longrightarrow> (\<exists>rd outcome fs'.
            fetch_all_report_data (service d) (request_key d api_key) (queries d) = Some rd
            \<and> api_generate d jobs job_id False api_key vaults fs =
                Some (jobs(job_id \<mapsto> outcome), fs')
            \<and> (case outcome of
                  Running message \<Rightarrow> False
                | Failed e \<Rightarrow>
                    fst (generate_all_charts (renderer d) rd (REPORTS_DIR d) fs) = Inl e
                    \<or> (\<exists>charts fs1.
                          generate_all_charts (renderer d) rd (REPORTS_DIR d) fs =
                            (Inr charts, fs1)
                          \<and> fst (generate_report (renderer d) rd charts (report_path d) fs1) =
                              Inl e)
                | Done filename size_text path \<Rightarrow>
                    filename = report_filename d \<and> path = report_path d
                    \<and> (\<exists>charts fs1 story.
                          generate_all_charts (renderer d) rd (REPORTS_DIR d) fs =
                            (Inr charts, fs1)
                          \<and> generate_report (renderer d) rd charts path fs1 = (Inr path, fs')
                          \<and> fs' path = Some (PdfFile story)))))
   \<and> (import_vaults d = Inr tracked \<and> active_vaults tracked vaults = Inr active
        \<and> request_key d api_key \<noteq> []
        \<and> fetch_all_report_data (service d) (request_key d api_key) (queries d) = Some rd
        \<and> generate_all_charts (renderer d) rd (REPORTS_DIR d) fs = (Inr charts, fs1)
        \<and> story_of (renderer d) rd charts fs1 = Inr story
        \<and> \<not> can_write (renderer d) (report_path d)
      \<longrightarrow> api_generate d jobs job_id False api_key vaults fs =
            Some (jobs(job_id \<mapsto> Failed (OSError (report_path d))), fs1))
   \<and> (import_vaults d = Inr tracked \<and> active_vaults tracked vaults = Inr active
        \<and> request_key d api_key \<noteq> []
        \<and> (\<forall>q. isl (get_query_results (service d) (request_key d api_key) q))
        \<and> (\<forall>sql. isl (post_execute_sql (service d) (request_key d api_key) sql))
        \<and> can_write (renderer d) (path_join (REPORTS_DIR d) ''chart_kpi_cards.png'')
        \<and> can_write (renderer d) (path_join (REPORTS_DIR d) ''chart_daily_liquidations.png'')
        \<and> can_write (renderer d) (path_join (REPORTS_DIR d) ''chart_liq_by_chain.png'')
        \<and> can_write (renderer d) (path_join (REPORTS_DIR d) ''chart_bad_debt.png'')
        \<and> can_write (renderer d) (report_path d)
      \<longrightarrow> (\<exists>story fs'.
            api_generate d jobs job_id False api_key vaults fs =
              Some (jobs(job_id \<mapsto>
                      Done (report_filename d)
                        (size_str (size_of (renderer d) (PdfFile story))) (report_path d)),
                    fs')
            \<and> fs' (report_path d) = Some (PdfFile story)))"
proof (intro conjI impI)
  assume "\<not> sample_flag args \<and> can_makedirs args (charts_dir args) \<and> DUNE_API_KEY d = []"
  then show "main d args fs = Some (Inl (SystemExit 1), fs)"
    by (elim conjE) (rule main_no_key; assumption)
next
  assume a: "\<not> sample_flag args \<and> can_makedirs args (charts_dir args)
    \<and> DUNE_API_KEY d \<noteq> []"
  from a have 1: "\<not> sample_flag args" by (elim conjE)
  from a have 2: "can_makedirs args (charts_dir args)" by (elim conjE)
  from a have 3: "DUNE_API_KEY d \<noteq> []" by (elim conjE)
  obtain rd where rd: "fetch_all_report_data (service d) (DUNE_API_KEY d) (queries d) = Some rd"
    using fetch_returns ..
  from live_main_outcome [OF 1 2 3 rd, of fs] rd
  show "\<exists>rd outcome fs'.
            fetch_all_report_data (service d) (DUNE_API_KEY d) (queries d) = Some rd
            \<and> main d args fs = Some (outcome, fs')
            \<and> (case outcome of
                  Inl e \<Rightarrow>
                    fst (generate_all_charts (renderer d) rd (charts_dir args) fs) = Inl e
                    \<or> (\<exists>charts fs1.
                          generate_all_charts (renderer d) rd (charts_dir args) fs =
                            (Inr charts, fs1)
                          \<and> fst (generate_html (renderer d) rd charts (page_path args) fs1) =
                              Inl e)
                | Inr returned \<Rightarrow>
                    (\<exists>charts fs1 page.
                       generate_all_charts (renderer d) rd (charts_dir args) fs =
                         (Inr charts, fs1)
                       \<and> generate_html (renderer d) rd charts (page_path args) fs1 =
                           (Inr (page_path args), fs')
                       \<and> fs' (page_path args) = Some (HtmlFile page)))"
    by (elim exE conjE) (rule exI [of _ rd], intro exI conjI)
next
  assume "\<not> sample_flag args \<and> can_makedirs args (charts_dir args) \<and> DUNE_API_KEY d \<noteq> []
        \<and> fetch_all_report_data (service d) (DUNE_API_KEY d) (queries d) = Some rd
        \<and> generate_all_charts (renderer d) rd (charts_dir args) fs = (Inr charts, fs1)
        \<and> page_of (renderer d) rd charts fs1 = Inr page
        \<and> \<not> can_write (renderer d) (page_path args)"
  then show "main d args fs = Some (Inl (OSError (page_path args)), fs1)"
    by (elim conjE) (rule unwritable_page; assumption)
next
  assume "\<not> sample_flag args \<and> can_makedirs args (charts_dir args) \<and> DUNE_API_KEY d \<noteq> []
        \<and> (\<forall>q. isl (get_query_results (service d) (DUNE_API_KEY d) q))
        \<and> (\<forall>sql. isl (post_execute_sql (service d) (DUNE_API_KEY d) sql))
        \<and> can_write (renderer d) (path_join (charts_dir args) ''chart_kpi_cards.png'')
        \<and> can_write (renderer d) (path_join (charts_dir args) ''chart_daily_liquidations.png'')
        \<and> can_write (renderer d) (path_join (charts_dir args) ''chart_liq_by_chain.png'')
        \<and> can_write (renderer d) (path_join (charts_dir args) ''chart_bad_debt.png'')
        \<and> can_write (renderer d) (page_path args)"
  then show "\<exists>page fs'. main d args fs = Some (Inr (), fs')
            \<and> fs' (page_path args) = Some (HtmlFile page)"
    by (elim conjE) (rule failing_main; assumption)
next
  assume "import_vaults d = Inr tracked \<and> active_vaults tracked vaults = Inr active
        \<and> api_key = [] \<and> DUNE_API_KEY d = []"
  then show "api_generate d jobs job_id False api_key vaults fs =
            Some (jobs(job_id \<mapsto> Failed CredentialMissing), fs)"
    by (elim conjE) (rule no_key_job; assumption)
next
  assume a: "import_vaults d = Inr tracked \<and> active_vaults tracked vaults = Inr active
        \<and> request_key d api_key \<noteq> []"
  from a have 1: "import_vaults d = Inr tracked" by (elim conjE)
  from a have 2: "active_vaults tracked vaults = Inr active" by (elim conjE)
  from a have 3: "request_key d api_key \<noteq> []" by (elim conjE)
  obtain rd where rd:
    "fetch_all_report_data (service d) (request_key d api_key) (queries d) = Some rd"
    using fetch_returns ..
  from live_job_outcome [OF 1 2 3 rd, of jobs job_id fs] rd
  show "\<exists>rd outcome fs'.
            fetch_all_report_data (service d) (request_key d api_key) (queries d) = Some rd
            \<and> api_generate d jobs job_id False api_key vaults fs =
                Some (jobs(job_id \<mapsto> outcome), fs')
            \<and> (case outcome of
                  Running message \<Rightarrow> False
                | Failed e \<Rightarrow>
                    fst (generate_all_charts (renderer d) rd (REPORTS_DIR d) fs) = Inl e
                    \<or> (\<exists>charts fs1.
                          generate_all_charts (renderer d) rd (REPORTS_DIR d) fs =
                            (Inr charts, fs1)
                          \<and> fst (generate_report (renderer d) rd charts (report_path d) fs1) =
                              Inl e)
                | Done filename size_text path \<Rightarrow>
                    filename = report_filename d \<and> path = report_path d
                    \<and> (\<exists>charts fs1 story.
                          generate_all_charts (renderer d) rd (REPORTS_DIR d) fs =
                            (Inr charts, fs1)
                          \<and> generate_report (renderer d) rd charts path fs1 = (Inr path, fs')
                          \<and> fs' path = Some (PdfFile story)))"
    by (elim exE conjE) (rule exI [of _ rd], intro exI conjI)
next
  assume "import_vaults d = Inr tracked \<and> active_vaults tracked vaults = Inr active
        \<and> request_key d api_key \<noteq> []
        \<and> fetch_all_report_data (service d) (request_key d api_key) (queries d) = Some rd
        \<and> generate_all_charts (renderer d) rd (REPORTS_DIR d) fs = (Inr charts, fs1)
        \<and> story_of (renderer d) rd charts fs1 = Inr story
        \<and> \<not> can_write (renderer d) (report_path d)"
  then show "api_generate d jobs job_id False api_key vaults fs =
            Some (jobs(job_id \<mapsto> Failed (OSError (report_path d))), fs1)"
    by (elim conjE) (rule unwritable_report; assumption)
next
  assume "import_vaults d = Inr tracked \<and> active_vaults tracked vaults = Inr active
        \<and> request_key d api_key \<noteq> []
        \<and> (\<forall>q. isl (get_query_results (service d) (request_key d api_key) q))
        \<and> (\<forall>sql. isl (post_execute_sql (service d) (request_key d api_key) sql))
        \<and> can_write (renderer d) (path_join (REPORTS_DIR d) ''chart_kpi_cards.png'')
        \<and> can_write (renderer d) (path_join (REPORTS_DIR d) ''chart_daily_liquidations.png'')
        \<and> can_write (renderer d) (path_join (REPORTS_DIR d) ''chart_liq_by_chain.png'')
        \<and> can_write (renderer d) (path_join (REPORTS_DIR d) ''chart_bad_debt.png'')
        \<and> can_write (renderer d) (report_path d)"
  then show "\<exists>story fs'.
            api_generate d jobs job_id False api_key vaults fs =
              Some (jobs(job_id \<mapsto>
                      Done (report_filename d)
                        (size_str (size_of (renderer d) (PdfFile story))) (report_path d)),
                    fs')
            \<and> fs' (report_path d) = Some (PdfFile story)"
    by (elim conjE) (rule failing_job; assumption)
qed

theorem live_run_outcomes_witness:
  "DUNE_API_KEY (plain_deployment rejecting_api) = []
   \<and> main (plain_deployment rejecting_api) plain_invocation Map.empty =
       Some (Inl (SystemExit 1), Map.empty)
   \<and> DUNE_API_KEY (keyed_deployment quiet_week_api ''key'') \<noteq> []
   \<and> (\<exists>fs'. main (keyed_deployment quiet_week_api ''key'') plain_invocation Map.empty =
         Some (Inl TypeError, fs'))
   \<and> (\<exists>rd charts fs1 page.
         fetch_all_report_data rejecting_api ''key'' morpho_config = Some rd
         \<and> generate_all_charts images_only_environment rd ''/srv/report/output'' Map.empty =
             (Inr charts, fs1)
         \<and> page_of images_only_environment rd charts fs1 = Inr page
         \<and> \<not> can_write images_only_environment ''/srv/report/index.html''
         \<and> main ((keyed_deployment rejecting_api ''key'')
                   \<lparr>renderer := images_only_environment\<rparr>) plain_invocation Map.empty =
             Some (Inl (OSError ''/srv/report/index.html''), fs1))
   \<and> (\<forall>q. isl (get_query_results rejecting_api ''wrong-key'' q))
   \<and> (\<forall>sql. isl (post_execute_sql rejecting_api ''wrong-key'' sql))
   \<and> (\<exists>page fs'.
         main (keyed_deployment rejecting_api ''wrong-key'') plain_invocation Map.empty =
           Some (Inr (), fs')
         \<and> fs' ''/srv/report/index.html'' = Some (HtmlFile page))
   \<and> import_vaults (vaults_deployment rejecting_api) =
       Inr [[(''name'', ''Gauntlet USDC Prime'')]]
   \<and> active_vaults [[(''name'', ''Gauntlet USDC Prime'')]] [''Gauntlet USDC Prime''] =
       Inr [[(''name'', ''Gauntlet USDC Prime'')]]
   \<and> api_generate (vaults_deployment rejecting_api) Map.empty ''job1'' False []
       [''Gauntlet USDC Prime''] Map.empty =
       Some (Map.empty(''job1'' \<mapsto> Failed CredentialMissing), Map.empty)
   \<and> (\<exists>fs'. api_generate (vaults_deployment quiet_week_api) Map.empty ''job1'' False ''key''
         [''Gauntlet USDC Prime''] Map.empty =
         Some (Map.empty(''job1'' \<mapsto> Failed TypeError), fs'))
   \<and> (\<exists>rd charts fs1 story.
         fetch_all_report_data rejecting_api ''key'' morpho_config = Some rd
         \<and> generate_all_charts images_only_environment rd ''output'' Map.empty =
             (Inr charts, fs1)
         \<and> story_of images_only_environment rd charts fs1 = Inr story
         \<and> \<not> can_write images_only_environment
               ''output/morpho_risk_report_2024-01-08_0900.pdf''
         \<and> api_generate ((vaults_deployment rejecting_api)
                   \<lparr>renderer := images_only_environment\<rparr>) Map.empty ''job1'' False ''key''
             [''Gauntlet USDC Prime''] Map.empty =
             Some (Map.empty(''job1'' \<mapsto>
                     Failed (OSError ''output/morpho_risk_report_2024-01-08_0900.pdf'')), fs1))
   \<and> (\<exists>story fs'.
         api_generate (vaults_deployment rejecting_api) Map.empty ''job1'' False ''wrong-key''
           [''Gauntlet USDC Prime''] Map.empty =
           Some (Map.empty(''job1'' \<mapsto>
                   Done ''morpho_risk_report_2024-01-08_0900.pdf'' (KB 2)
                     ''output/morpho_risk_report_2024-01-08_0900.pdf''), fs')
         \<and> fs' ''output/morpho_risk_report_2024-01-08_0900.pdf'' = Some (PdfFile story))"
proof -
  let ?prime = "[[(''name'', ''Gauntlet USDC Prime'')]]"
  note t = live_run_outcomes [where args = plain_invocation and jobs = Map.empty
      and job_id = "''job1''" and vaults = "[''Gauntlet USDC Prime'']" and fs = Map.empty
      and tracked = ?prime and active = ?prime]
  have k0: "DUNE_API_KEY (plain_deployment rejecting_api) = []"
    by (simp add: plain_deployment_def)
  have c1: "main (plain_deployment rejecting_api) plain_invocation Map.empty =
      Some (Inl (SystemExit 1), Map.empty)"
    using t [where d = "plain_deployment rejecting_api",
        THEN conjunct1] k0 by (simp add: plain_start)
  have k2: "DUNE_API_KEY (keyed_deployment quiet_week_api ''key'') \<noteq> []"
    by (simp add: keyed_names)
  have c2: "\<exists>fs'. main (keyed_deployment quiet_week_api ''key'') plain_invocation Map.empty =
      Some (Inl TypeError, fs')"
  proof -
    from t [where d = "keyed_deployment quiet_week_api ''key''",
        THEN conjunct2, THEN conjunct1]
    obtain rd outcome fs' where
      rd: "fetch_all_report_data quiet_week_api ''key'' morpho_config = Some rd"
      and run: "main (keyed_deployment quiet_week_api ''key'') plain_invocation Map.empty =
        Some (outcome, fs')"
      and cs: "case outcome of
          Inl e \<Rightarrow>
            fst (generate_all_charts plain_environment rd ''/srv/report/output'' Map.empty) =
              Inl e
            \<or> (\<exists>charts fs1.
                  generate_all_charts plain_environment rd ''/srv/report/output'' Map.empty =
                    (Inr charts, fs1)
                  \<and> fst (generate_html plain_environment rd charts ''/srv/report/index.html''
                           fs1) = Inl e)
        | Inr returned \<Rightarrow>
            (\<exists>charts fs1 page.
               generate_all_charts plain_environment rd ''/srv/report/output'' Map.empty =
                 (Inr charts, fs1)
               \<and> generate_html plain_environment rd charts ''/srv/report/index.html'' fs1 =
                   (Inr ''/srv/report/index.html'', fs')
               \<and> fs' ''/srv/report/index.html'' = Some (HtmlFile page))"
      by (simp add: keyed_names plain_start cong: sum.case_cong) (elim exE conjE)
    from quiet_fetch [of "''key''"] rd
    have s: "get_frame rd ''weekly_summary'' = Inr [null_sums]" by simp
    obtain fs1 where c:
      "generate_all_charts plain_environment rd ''/srv/report/output'' Map.empty =
        (Inl TypeError, fs1)"
      using quiet_charts [OF s] ..
    from cs have "outcome = Inl TypeError" unfolding c by (cases outcome) simp_all
    with run show ?thesis by (intro exI) simp
  qed
  obtain rd charts fs1 page where
    rd: "fetch_all_report_data rejecting_api ''key'' morpho_config = Some rd"
    and c: "generate_all_charts images_only_environment rd ''/srv/report/output'' Map.empty =
      (Inr charts, fs1)"
    and s: "page_of images_only_environment rd charts fs1 = Inr page"
    using images_only_page_stages by (elim exE conjE)
  have c3: "main ((keyed_deployment rejecting_api ''key'')
                   \<lparr>renderer := images_only_environment\<rparr>) plain_invocation Map.empty =
             Some (Inl (OSError ''/srv/report/index.html''), fs1)"
    using t [where d = "(keyed_deployment rejecting_api ''key'')
        \<lparr>renderer := images_only_environment\<rparr>" and rd = rd and charts = charts
        and ?fs1.0 = fs1 and page = page,
        THEN conjunct2, THEN conjunct2, THEN conjunct1] rd c s
    by (simp add: images_only_main_names plain_start images_only_writes(10))
  have c4: "\<exists>page fs'.
      main (keyed_deployment rejecting_api ''wrong-key'') plain_invocation Map.empty =
        Some (Inr (), fs')
      \<and> fs' ''/srv/report/index.html'' = Some (HtmlFile page)"
    using t [where d = "keyed_deployment rejecting_api ''wrong-key''",
        THEN conjunct2, THEN conjunct2, THEN conjunct2, THEN conjunct1]
    by (simp add: keyed_names plain_start plain_writes rejecting_fails)
  have d1: "api_generate (vaults_deployment rejecting_api) Map.empty ''job1'' False []
       [''Gauntlet USDC Prime''] Map.empty =
       Some (Map.empty(''job1'' \<mapsto> Failed CredentialMissing), Map.empty)"
    using t [where d = "vaults_deployment rejecting_api" and api_key = Nil,
        THEN conjunct2, THEN conjunct2, THEN conjunct2, THEN conjunct2, THEN conjunct1]
    by (simp add: vaults_names selected_prime)
  have d2: "\<exists>fs'. api_generate (vaults_deployment quiet_week_api) Map.empty ''job1'' False
      ''key'' [''Gauntlet USDC Prime''] Map.empty =
      Some (Map.empty(''job1'' \<mapsto> Failed TypeError), fs')"
  proof -
    from t [where d = "vaults_deployment quiet_week_api" and api_key = "''key''",
        THEN conjunct2, THEN conjunct2, THEN conjunct2, THEN conjunct2, THEN conjunct2,
        THEN conjunct1]
    obtain rd outcome fs' where
      rd: "fetch_all_report_data quiet_week_api ''key'' morpho_config = Some rd"
      and run: "api_generate (vaults_deployment quiet_week_api) Map.empty ''job1'' False
        ''key'' [''Gauntlet USDC Prime''] Map.empty =
        Some (Map.empty(''job1'' \<mapsto> outcome), fs')"
      and cs: "case outcome of
          Running message \<Rightarrow> False
        | Failed e \<Rightarrow>
            fst (generate_all_charts plain_environment rd ''output'' Map.empty) = Inl e
            \<or> (\<exists>charts fs1.
                  generate_all_charts plain_environment rd ''output'' Map.empty =
                    (Inr charts, fs1)
                  \<and> fst (generate_report plain_environment rd charts
                           ''output/morpho_risk_report_2024-01-08_0900.pdf'' fs1) = Inl e)
        | Done filename size_text path \<Rightarrow>
            filename = ''morpho_risk_report_2024-01-08_0900.pdf''
            \<and> path = ''output/morpho_risk_report_2024-01-08_0900.pdf''
            \<and> (\<exists>charts fs1 story.
                  generate_all_charts plain_environment rd ''output'' Map.empty =
                    (Inr charts, fs1)
                  \<and> generate_report plain_environment rd charts path fs1 = (Inr path, fs')
                  \<and> fs' path = Some (PdfFile story))"
      by (simp add: vaults_names selected_prime cong: job.case_cong) (elim exE conjE)
    from quiet_fetch [of "''key''"] rd
    have s: "get_frame rd ''weekly_summary'' = Inr [null_sums]" by simp
    obtain fs1 where c:
      "generate_all_charts plain_environment rd ''output'' Map.empty = (Inl TypeError, fs1)"
      using quiet_charts [OF s] ..
    from cs have "outcome = Failed TypeError" unfolding c by (cases outcome) simp_all
    with run show ?thesis by (intro exI) simp
  qed
  obtain rd' charts' fs1' story where
    rd': "fetch_all_report_data rejecting_api ''key'' morpho_config = Some rd'"
    and c': "generate_all_charts images_only_environment rd' ''output'' Map.empty =
      (Inr charts', fs1')"
    and s': "story_of images_only_environment rd' charts' fs1' = Inr story"
    using images_only_stages by (elim exE conjE)
  have d3: "api_generate ((vaults_deployment rejecting_api)
                   \<lparr>renderer := images_only_environment\<rparr>) Map.empty ''job1'' False ''key''
             [''Gauntlet USDC Prime''] Map.empty =
             Some (Map.empty(''job1'' \<mapsto>
                     Failed (OSError ''output/morpho_risk_report_2024-01-08_0900.pdf'')), fs1')"
    using t [where d = "(vaults_deployment rejecting_api)
        \<lparr>renderer := images_only_environment\<rparr>" and api_key = "''key''" and rd = rd'
        and charts = charts' and ?fs1.0 = fs1' and story = story,
        THEN conjunct2, THEN conjunct2, THEN conjunct2, THEN conjunct2, THEN conjunct2,
        THEN conjunct2, THEN conjunct1] rd' c' s'
    by (simp add: images_only_job_names selected_prime images_only_writes(9))
  have d4: "\<exists>story fs'.
      api_generate (vaults_deployment rejecting_api) Map.empty ''job1'' False ''wrong-key''
        [''Gauntlet USDC Prime''] Map.empty =
        Some (Map.empty(''job1'' \<mapsto>
                Done ''morpho_risk_report_2024-01-08_0900.pdf'' (KB 2)
                  ''output/morpho_risk_report_2024-01-08_0900.pdf''), fs')
      \<and> fs' ''output/morpho_risk_report_2024-01-08_0900.pdf'' = Some (PdfFile story)"
    using t [where d = "vaults_deployment rejecting_api" and api_key = "''wrong-key''",
        THEN conjunct2, THEN conjunct2, THEN conjunct2, THEN conjunct2, THEN conjunct2,
        THEN conjunct2, THEN conjunct2]
    by (simp add: vaults_names selected_prime plain_size plain_writes rejecting_fails)
  show ?thesis
    apply (intro conjI)
    apply (rule k0)
    apply (rule c1)
    apply (rule k2)
    apply (rule c2)
    apply (rule exI [of _ rd], rule exI [of _ charts], rule exI [of _ fs1],
        rule exI [of _ page], intro conjI; fact rd c s images_only_writes(10) c3)
    apply (rule rejecting_fails)
    apply (rule rejecting_fails)
    apply (rule c4)
    apply (rule vaults_names(1))
    apply (rule selected_prime)
    apply (rule d1)
    apply (rule d2)
    apply (rule exI [of _ rd'], rule exI [of _ charts'], rule exI [of _ fs1'],
        rule exI [of _ story], intro conjI; fact rd' c' s' images_only_writes(9) d3)
    apply (rule d4)
    done
qed

text \<open>
  The claim C2 as first stated has two fatal conditions only, an invalid credential among
  them. A key that the service rejects on every request is not fatal: every rejected
  query is an empty table, and the HTML generator ends with the page written. And an
  exception of the chart stage is fatal: in a week without liquidations the sums of the
  summary are null, \<open>format_usd\<close> compares \<open>None\<close> with a number, and the generator ends
  with the \<open>TypeError\<close>.
\<close>

theorem fatal_conditions_counterexample:
  "map_option (\<lambda>r. (fst r, snd r ''/srv/report/index.html'' = None))
     (main (keyed_deployment rejecting_api ''wrong-key'') plain_invocation Map.empty)
     = Some (Inr (), False)
   \<and> map_option fst
     (main (keyed_deployment quiet_week_api ''key'') plain_invocation Map.empty)
     = Some (Inl TypeError)"
proof
  have "''wrong-key'' \<noteq> []" by simp
  from rejected_main [OF this, of Map.empty]
  obtain page fs' where
    "main (keyed_deployment rejecting_api ''wrong-key'') plain_invocation Map.empty =
      Some (Inr (), fs')"
    and "fs' ''/srv/report/index.html'' = Some (HtmlFile page)"
    by (elim exE conjE)
  then show "map_option (\<lambda>r. (fst r, snd r ''/srv/report/index.html'' = None))
     (main (keyed_deployment rejecting_api ''wrong-key'') plain_invocation Map.empty)
     = Some (Inr (), False)"
    by simp
next
  have "''key'' \<noteq> []" by simp
  from quiet_main [OF this, of Map.empty]
  obtain fs' where
    "main (keyed_deployment quiet_week_api ''key'') plain_invocation Map.empty =
      Some (Inl TypeError, fs')"
    by (elim exE)
  then show "map_option fst
     (main (keyed_deployment quiet_week_api ''key'') plain_invocation Map.empty)
     = Some (Inl TypeError)"
    by simp
qed

end
